theory Spec2Isabelle
  imports Main "HOL-Library.AList" "HOL-Library.List_Lexorder" "HOL-Library.Char_ord"
begin

section \<open>The HdPrman MaterialX material filter (matfiltMaterialX.cpp)\<close>

text \<open>
  A shallow embedding of \<^verbatim>\<open>third_party/renderman-24/plugin/hdPrman/matfiltMaterialX.cpp\<close>.
  The file's static functions become HOL functions of the same name (without the leading
  underscore). Mutation of the material network, of the MaterialX document and of the
  shader registry is explicit state passing; \<^verbatim>\<open>TF_WARN\<close> appends the formatted message
  to a list of warnings; a null-pointer dereference, an exception of the MaterialX
  library and a mistyped \<^verbatim>\<open>VtValue::UncheckedGet\<close> are values of the type \<open>error\<close>.
\<close>

subsection \<open>Tokens, values and errors\<close>

text \<open>A \<^verbatim>\<open>TfToken\<close> is its string; the empty token is the empty string. Tokens are
  ordered as their strings are (lexicographically), which is the iteration order of every
  \<^verbatim>\<open>std::map\<close> and \<^verbatim>\<open>std::set\<close> keyed by tokens.\<close>

type_synonym token = string

text \<open>The \<^verbatim>\<open>VtValue\<close>s the filter looks into: the empty value, a \<^verbatim>\<open>std::string\<close>, an
  \<^verbatim>\<open>SdfAssetPath\<close> (authored path, resolved path), and any other held type, kept as an
  opaque text.\<close>

datatype vtvalue =
    VtEmpty
  | VtString string
  | VtAssetPath string string
  | VtOther string

text \<open>The text of a \<^verbatim>\<open>'%s'\<close> in a message format.\<close>

definition quoted :: "string \<Rightarrow> string" where
  "quoted s = CHR 0x27 # s @ [CHR 0x27]"

datatype error =
    NullDeref string
  | MxException string
  | BadUncheckedGet token

subsection \<open>The material network and its interface\<close>

record connection =
  upstreamNodeName :: token
  upstreamOutputName :: token

record hdnode =
  nodeTypeId :: token
  parameters :: "(token \<times> vtvalue) list"
  inputConnections :: "(token \<times> connection list) list"

record network =
  nodes :: "(token \<times> hdnode) list"
  terminals :: "(token \<times> connection) list"
  materialPrimPath :: string

text \<open>The keys of a \<^verbatim>\<open>std::map\<close> kept as an association list, in the order the map
  iterates them.\<close>

definition map_keys :: "(token \<times> 'v) list \<Rightarrow> token list" where
  "map_keys al = sort (remdups (map fst al))"

definition emptyNode :: hdnode where
  "emptyNode = \<lparr>nodeTypeId = [], parameters = [], inputConnections = []\<rparr>"

text \<open>Modelled from the spec: \<^verbatim>\<open>HdMaterialNetworkInterface\<close> (its implementation
  \<^verbatim>\<open>HdMaterialNetwork2Interface\<close> is not among the source files). Section 3 of the spec:
  the network is a mutable mapping from node name to node record and supports get/set
  node type, get/set/delete parameter, get/set/delete input connection and get/set of
  named terminal connections; a getter on a missing node or entry answers the empty
  token, the empty value or no connection; a setter creates the node it names when the
  network has none (the terminal adapter sets the type of the closure node to create
  it); a delete of something missing does nothing.\<close>

definition GetNode :: "network \<Rightarrow> token \<Rightarrow> hdnode option" where
  "GetNode net n = map_of (nodes net) n"

definition GetOrCreateNode :: "network \<Rightarrow> token \<Rightarrow> hdnode" where
  "GetOrCreateNode net n = (case GetNode net n of None \<Rightarrow> emptyNode | Some nd \<Rightarrow> nd)"

definition PutNode :: "network \<Rightarrow> token \<Rightarrow> hdnode \<Rightarrow> network" where
  "PutNode net n nd = net\<lparr>nodes := AList.update n nd (nodes net)\<rparr>"

definition GetNodeType :: "network \<Rightarrow> token \<Rightarrow> token" where
  "GetNodeType net n = (case GetNode net n of None \<Rightarrow> [] | Some nd \<Rightarrow> nodeTypeId nd)"

definition SetNodeType :: "network \<Rightarrow> token \<Rightarrow> token \<Rightarrow> network" where
  "SetNodeType net n ty = PutNode net n ((GetOrCreateNode net n)\<lparr>nodeTypeId := ty\<rparr>)"

definition DeleteNode :: "network \<Rightarrow> token \<Rightarrow> network" where
  "DeleteNode net n = net\<lparr>nodes := AList.delete n (nodes net)\<rparr>"

definition GetAuthoredNodeParameterNames :: "network \<Rightarrow> token \<Rightarrow> token list" where
  "GetAuthoredNodeParameterNames net n =
     (case GetNode net n of None \<Rightarrow> [] | Some nd \<Rightarrow> map_keys (parameters nd))"

definition GetNodeParameterValue :: "network \<Rightarrow> token \<Rightarrow> token \<Rightarrow> vtvalue" where
  "GetNodeParameterValue net n p =
     (case GetNode net n of
        None \<Rightarrow> VtEmpty
      | Some nd \<Rightarrow> (case map_of (parameters nd) p of None \<Rightarrow> VtEmpty | Some v \<Rightarrow> v))"

definition SetNodeParameterValue :: "network \<Rightarrow> token \<Rightarrow> token \<Rightarrow> vtvalue \<Rightarrow> network" where
  "SetNodeParameterValue net n p v =
     (let nd = GetOrCreateNode net n
      in PutNode net n (nd\<lparr>parameters := AList.update p v (parameters nd)\<rparr>))"

definition DeleteNodeParameter :: "network \<Rightarrow> token \<Rightarrow> token \<Rightarrow> network" where
  "DeleteNodeParameter net n p =
     (case GetNode net n of
        None \<Rightarrow> net
      | Some nd \<Rightarrow> PutNode net n (nd\<lparr>parameters := AList.delete p (parameters nd)\<rparr>))"

definition GetNodeInputConnectionNames :: "network \<Rightarrow> token \<Rightarrow> token list" where
  "GetNodeInputConnectionNames net n =
     (case GetNode net n of None \<Rightarrow> [] | Some nd \<Rightarrow> map_keys (inputConnections nd))"

definition GetNodeInputConnection :: "network \<Rightarrow> token \<Rightarrow> token \<Rightarrow> connection list" where
  "GetNodeInputConnection net n i =
     (case GetNode net n of
        None \<Rightarrow> []
      | Some nd \<Rightarrow> (case map_of (inputConnections nd) i of None \<Rightarrow> [] | Some cs \<Rightarrow> cs))"

definition SetNodeInputConnection ::
  "network \<Rightarrow> token \<Rightarrow> token \<Rightarrow> connection list \<Rightarrow> network" where
  "SetNodeInputConnection net n i cs =
     (let nd = GetOrCreateNode net n
      in PutNode net n (nd\<lparr>inputConnections := AList.update i cs (inputConnections nd)\<rparr>))"

definition DeleteNodeInputConnection :: "network \<Rightarrow> token \<Rightarrow> token \<Rightarrow> network" where
  "DeleteNodeInputConnection net n i =
     (case GetNode net n of
        None \<Rightarrow> net
      | Some nd \<Rightarrow>
          PutNode net n (nd\<lparr>inputConnections := AList.delete i (inputConnections nd)\<rparr>))"

definition GetTerminalConnection :: "network \<Rightarrow> token \<Rightarrow> connection option" where
  "GetTerminalConnection net t = map_of (terminals net) t"

definition SetTerminalConnection :: "network \<Rightarrow> token \<Rightarrow> connection \<Rightarrow> network" where
  "SetTerminalConnection net t c = net\<lparr>terminals := AList.update t c (terminals net)\<rparr>"

definition GetMaterialPrimPath :: "network \<Rightarrow> string" where
  "GetMaterialPrimPath net = materialPrimPath net"

subsection \<open>Wrap modes\<close>

text \<open>\<^verbatim>\<open>_GetHdWrapString\<close>: the Hydra wrap token for a MaterialX address mode, with the
  warnings emitted on the way.\<close>

definition GetHdWrapString :: "token \<Rightarrow> string \<Rightarrow> token \<times> string list" where
  "GetHdWrapString hdTextureNodeName mxInputValue =
     (if mxInputValue = ''constant'' then
        (''black'',
         [''RtxHioImagePlugin: Texture '' @ quoted hdTextureNodeName @
          '' has unsupported wrap mode 'constant' using 'black' instead.''])
      else if mxInputValue = ''clamp'' then (''clamp'', [])
      else if mxInputValue = ''mirror'' then
        (''repeat'',
         [''RtxHioImagePlugin: Texture '' @ quoted hdTextureNodeName @
          '' has unsupported wrap mode 'mirror' using 'repeat' instead.''])
      else (''repeat'', []))"

text \<open>\<^verbatim>\<open>VtValue::UncheckedGet<std::string>\<close> is only defined on a held string.\<close>

definition UncheckedGet_string :: "vtvalue \<Rightarrow> string option" where
  "UncheckedGet_string v = (case v of VtString s \<Rightarrow> Some s | _ \<Rightarrow> None)"

text \<open>One axis of \<^verbatim>\<open>_GetWrapModes\<close>: the default is "repeat", replaced when the
  parameter is authored.\<close>

definition GetWrapMode :: "network \<Rightarrow> token \<Rightarrow> token \<Rightarrow> error + (token \<times> string list)" where
  "GetWrapMode net hdTextureNodeName param =
     (let vAddrMode = GetNodeParameterValue net hdTextureNodeName param
      in if vAddrMode \<noteq> VtEmpty then
           (case UncheckedGet_string vAddrMode of
              None \<Rightarrow> Inl (BadUncheckedGet param)
            | Some s \<Rightarrow> Inr (GetHdWrapString hdTextureNodeName s))
         else Inr (''repeat'', []))"

text \<open>\<^verbatim>\<open>_GetWrapModes\<close>: (uWrap, vWrap) and the warnings, u first.\<close>

definition GetWrapModes ::
  "network \<Rightarrow> token \<Rightarrow> error + (token \<times> token \<times> string list)" where
  "GetWrapModes net hdTextureNodeName =
     (case GetWrapMode net hdTextureNodeName ''uaddressmode'' of
        Inl e \<Rightarrow> Inl e
      | Inr (uWrap, wu) \<Rightarrow>
          (case GetWrapMode net hdTextureNodeName ''vaddressmode'' of
             Inl e \<Rightarrow> Inl e
           | Inr (vWrap, wv) \<Rightarrow> Inr (uWrap, vWrap, wu @ wv)))"

subsection \<open>Paths\<close>

text \<open>Modelled from the spec: \<^verbatim>\<open>SdfPath\<close> (not among the source files). A node name is a
  path-like identifier, container segment and node segment separated by \<^verbatim>\<open>/\<close>;
  \<open>GetName\<close> is the last segment and \<open>GetParentPath\<close> drops it. The root \<^verbatim>\<open>/\<close> is its
  own name and the parent of a top-level path.\<close>

definition GetName :: "string \<Rightarrow> string" where
  "GetName p =
     (if p = ''/'' then ''/'' else rev (takeWhile (\<lambda>c. c \<noteq> CHR ''/'') (rev p)))"

definition GetParentPath :: "string \<Rightarrow> string" where
  "GetParentPath p =
     (let r = dropWhile (\<lambda>c. c \<noteq> CHR ''/'') (rev p)
      in if r = ''/'' then ''/'' else rev (tl r))"

subsection \<open>The shader registry\<close>

text \<open>Modelled from the spec: the node-definition registry \<^verbatim>\<open>SdrRegistry\<close> and its
  entries \<^verbatim>\<open>SdrShaderNode\<close> (not among the source files). Section 6 of the spec: lookup
  by type identifier, optionally filtered by source-language tags; lookup by type and
  source-language pair; registration of a new entry from a compiled-artifact path; per
  entry, the declared inputs, the declared outputs by name, and metadata (here the
  primary-coordinate hint \<^verbatim>\<open>primvars\<close>). A lookup that finds nothing answers null.\<close>

record sdrnode =
  sdrIdentifier :: token
  sdrSourceType :: token
  sdrInputNames :: "token list"
  sdrOutputNames :: "token list"
  sdrPrimvars :: string

type_synonym registry = "sdrnode list"

definition GetShaderNodeByIdentifierAndType ::
  "registry \<Rightarrow> token \<Rightarrow> token \<Rightarrow> sdrnode option" where
  "GetShaderNodeByIdentifierAndType reg ident ty =
     find (\<lambda>n. sdrIdentifier n = ident \<and> sdrSourceType n = ty) reg"

fun GetShaderNodeByPriority :: "registry \<Rightarrow> token \<Rightarrow> token list \<Rightarrow> sdrnode option" where
  "GetShaderNodeByPriority reg ident [] = None"
| "GetShaderNodeByPriority reg ident (ty # tys) =
     (case GetShaderNodeByIdentifierAndType reg ident ty of
        Some n \<Rightarrow> Some n
      | None \<Rightarrow> GetShaderNodeByPriority reg ident tys)"

definition GetShaderNodeByIdentifier ::
  "registry \<Rightarrow> token \<Rightarrow> token list \<Rightarrow> sdrnode option" where
  "GetShaderNodeByIdentifier reg ident typePriority =
     (if typePriority = [] then find (\<lambda>n. sdrIdentifier n = ident) reg
      else GetShaderNodeByPriority reg ident typePriority)"

definition GetOutput :: "sdrnode \<Rightarrow> token \<Rightarrow> bool" where
  "GetOutput n out \<longleftrightarrow> out \<in> set (sdrOutputNames n)"

definition GetShaderInput :: "sdrnode \<Rightarrow> token \<Rightarrow> bool" where
  "GetShaderInput n i \<longleftrightarrow> i \<in> set (sdrInputNames n)"

subsection \<open>The MaterialX document\<close>

text \<open>The part of the MaterialX document the filter reads and writes: node graphs in
  creation order, their nodes, and the inputs of a node with type, value and upstream
  node name (empty when the input is not connected). A pointer to a node graph is its
  position in the document, a pointer to a node is its name in its graph, a pointer to
  an input its name in its node: names of the children of one element are unique in
  MaterialX, and adding a child under a taken name throws.\<close>

datatype mxvalue = MxString string | MxFloatVec "int list"

record mxinput =
  inputName :: string
  inputType :: string
  inputValue :: "mxvalue option"
  inputNodeName :: string

record mxnode =
  ndName :: string
  ndCategory :: string
  ndType :: string
  ndDefString :: string
  ndInputs :: "mxinput list"

record mxgraph =
  graphName :: string
  graphNodes :: "mxnode list"

record mxdoc =
  docGraphs :: "mxgraph list"
  docNodes :: "mxnode list"

fun updFirst :: "('a \<Rightarrow> bool) \<Rightarrow> ('a \<Rightarrow> 'a) \<Rightarrow> 'a list \<Rightarrow> 'a list" where
  "updFirst P f [] = []"
| "updFirst P f (x # xs) = (if P x then f x # xs else x # updFirst P f xs)"

fun findIndex :: "('a \<Rightarrow> bool) \<Rightarrow> 'a list \<Rightarrow> nat option" where
  "findIndex P [] = None"
| "findIndex P (x # xs) =
     (if P x then Some 0 else map_option Suc (findIndex P xs))"

definition getNodeGraph :: "mxdoc \<Rightarrow> string \<Rightarrow> nat option" where
  "getNodeGraph doc name = findIndex (\<lambda>g. graphName g = name) (docGraphs doc)"

definition getNode :: "mxgraph \<Rightarrow> string \<Rightarrow> mxnode option" where
  "getNode g name = find (\<lambda>n. ndName n = name) (graphNodes g)"

definition getInput :: "mxnode \<Rightarrow> string \<Rightarrow> mxinput option" where
  "getInput nd name = find (\<lambda>i. inputName i = name) (ndInputs nd)"

definition addInput :: "mxnode \<Rightarrow> string \<Rightarrow> string \<Rightarrow> error + mxnode" where
  "addInput nd name ty =
     (if getInput nd name \<noteq> None then Inl (MxException (''Child name is not unique: '' @ name))
      else Inr (nd\<lparr>ndInputs := ndInputs nd @
                  [\<lparr>inputName = name, inputType = ty, inputValue = None,
                    inputNodeName = []\<rparr>]\<rparr>))"

definition setInputValue :: "mxnode \<Rightarrow> string \<Rightarrow> mxvalue \<Rightarrow> string \<Rightarrow> mxnode" where
  "setInputValue nd name v ty =
     (case getInput nd name of
        None \<Rightarrow>
          nd\<lparr>ndInputs := ndInputs nd @
                [\<lparr>inputName = name, inputType = ty, inputValue = Some v,
                  inputNodeName = []\<rparr>]\<rparr>
      | Some _ \<Rightarrow>
          nd\<lparr>ndInputs :=
                updFirst (\<lambda>i. inputName i = name)
                  (\<lambda>i. i\<lparr>inputType := ty, inputValue := Some v\<rparr>) (ndInputs nd)\<rparr>)"

text \<open>\<^verbatim>\<open>input->setConnectedNode(node)\<close>: the input takes the node's name (the
  argument here), or loses its connection when the node is null.\<close>

definition setConnectedNode :: "mxnode \<Rightarrow> string \<Rightarrow> string option \<Rightarrow> mxnode" where
  "setConnectedNode nd name target =
     nd\<lparr>ndInputs :=
          updFirst (\<lambda>i. inputName i = name)
            (\<lambda>i. i\<lparr>inputNodeName := (case target of None \<Rightarrow> [] | Some t \<Rightarrow> t)\<rparr>)
            (ndInputs nd)\<rparr>"

text \<open>\<^verbatim>\<open>input->getConnectedNode()\<close>: the node of the enclosing graph the input names.\<close>

definition getConnectedNode :: "mxgraph \<Rightarrow> mxinput \<Rightarrow> mxnode option" where
  "getConnectedNode g i = (if inputNodeName i = [] then None else getNode g (inputNodeName i))"

definition setNodeDefString :: "mxnode \<Rightarrow> string \<Rightarrow> mxnode" where
  "setNodeDefString nd s = nd\<lparr>ndDefString := s\<rparr>"

definition newNode :: "string \<Rightarrow> string \<Rightarrow> string \<Rightarrow> mxnode" where
  "newNode category name ty =
     \<lparr>ndName = name, ndCategory = category, ndType = ty,
      ndDefString = [], ndInputs = []\<rparr>"

definition addNode :: "mxgraph \<Rightarrow> string \<Rightarrow> string \<Rightarrow> string \<Rightarrow> error + mxgraph" where
  "addNode g category name ty =
     (if getNode g name \<noteq> None then Inl (MxException (''Child name is not unique: '' @ name))
      else Inr (g\<lparr>graphNodes := graphNodes g @ [newNode category name ty]\<rparr>))"

text \<open>Writing through a node pointer: the node of that name in the graph is replaced.\<close>

definition putNode :: "mxgraph \<Rightarrow> mxnode \<Rightarrow> mxgraph" where
  "putNode g nd =
     g\<lparr>graphNodes := updFirst (\<lambda>n. ndName n = ndName nd) (\<lambda>_. nd) (graphNodes g)\<rparr>"

definition modifyNode :: "mxgraph \<Rightarrow> string \<Rightarrow> (mxnode \<Rightarrow> mxnode) \<Rightarrow> mxgraph" where
  "modifyNode g name f =
     g\<lparr>graphNodes := updFirst (\<lambda>n. ndName n = name) f (graphNodes g)\<rparr>"

definition putGraph :: "mxdoc \<Rightarrow> nat \<Rightarrow> mxgraph \<Rightarrow> mxdoc" where
  "putGraph doc gi g = doc\<lparr>docGraphs := (docGraphs doc)[gi := g]\<rparr>"

definition removeNode :: "mxdoc \<Rightarrow> string \<Rightarrow> mxdoc" where
  "removeNode doc name = doc\<lparr>docNodes := filter (\<lambda>n. ndName n \<noteq> name) (docNodes doc)\<rparr>"

text \<open>\<^verbatim>\<open>_FindGraphAndNodeByName\<close>: the graph of the expected name first; when the node
  is not there, the last graph of the document, then every graph in order. The result
  is the pair of out-parameters (graph, node); the node is the function's boolean.\<close>

definition FindGraphAndNodeByName ::
  "mxdoc \<Rightarrow> string \<Rightarrow> string \<Rightarrow> nat option \<times> mxnode option" where
  "FindGraphAndNodeByName mxDoc mxNodeGraphName mxNodeName =
     (let mxNodeGraph = getNodeGraph mxDoc mxNodeGraphName;
          mxNode = (case mxNodeGraph of
                      None \<Rightarrow> None
                    | Some gi \<Rightarrow> getNode (docGraphs mxDoc ! gi) mxNodeName)
      in if mxNode \<noteq> None then (mxNodeGraph, mxNode)
         else
           (let graphs = docGraphs mxDoc;
                lastNode = (if graphs \<noteq> [] then getNode (last graphs) mxNodeName else None)
            in if lastNode \<noteq> None then (Some (length graphs - 1), lastNode)
               else
                 (case findIndex (\<lambda>g. getNode g mxNodeName \<noteq> None) graphs of
                    None \<Rightarrow> (mxNodeGraph, None)
                  | Some gi \<Rightarrow> (Some gi, getNode (graphs ! gi) mxNodeName))))"

subsection \<open>External collaborators and the state of a run\<close>

text \<open>What the filter consumes through library calls is a parameter of the model: the
  build flag \<^verbatim>\<open>PXR_OSL_SUPPORT_ENABLED\<close>, the macro \<^verbatim>\<open>ARCH_LIBRARY_SUFFIX\<close>, the MaterialX
  shader generator (\<^verbatim>\<open>mx::createShader\<close> and \<^verbatim>\<open>getSourceCode\<close>: the source text, or
  nothing when no shader is created), the OSL compiler (\<^verbatim>\<open>compile_buffer\<close>: its boolean
  result and the buffer it leaves), the file system (\<^verbatim>\<open>FilePath::exists\<close>, whether
  \<^verbatim>\<open>fopen\<close> succeeds), \<^verbatim>\<open>ArchMakeTmpFileName\<close> (the name it gives at its n-th call),
  the registry's parser of a compiled asset (the identifier it gives the asset at a path,
  and the inputs, outputs and metadata it reads from the file, or nothing when the file
  does not parse), the asset resolver's \<^verbatim>\<open>GetExtension\<close>, and the document builder of
  hdMtlx (\<^verbatim>\<open>HdMtlxSearchPaths\<close>, and
  \<^verbatim>\<open>HdMtlxCreateMtlxDocumentFromHdMaterialNetworkInterface\<close>: the document and the
  texture node paths in the order of their \<^verbatim>\<open>std::set\<close>).\<close>

record externals =
  oslSupportEnabled :: bool
  archLibrarySuffix :: string
  createShader :: "string \<Rightarrow> mxdoc \<Rightarrow> nat \<Rightarrow> mxnode \<Rightarrow> string option"
  compile_buffer :: "string \<Rightarrow> string list \<Rightarrow> bool \<times> string"
  pathExists :: "string \<Rightarrow> bool"
  fopenOk :: "string \<Rightarrow> bool"
  ArchMakeTmpFileName :: "nat \<Rightarrow> string \<Rightarrow> string \<Rightarrow> string"
  assetIdentifier :: "string \<Rightarrow> token"
  parseAsset :: "string \<Rightarrow> string \<Rightarrow> (token list \<times> token list \<times> string) option"
  GetExtension :: "string \<Rightarrow> string"
  HdMtlxSearchPaths :: "string list"
  HdMtlxCreateMtlxDocument :: "network \<Rightarrow> token \<Rightarrow> token list \<Rightarrow> mxdoc \<times> string list"

text \<open>The calls a run makes to the generator and to the compiler, in order: the
  upstream node for which \<^verbatim>\<open>_UpdateNetwork\<close> calls \<^verbatim>\<open>_GenMaterialXShaderCode\<close> and
  \<^verbatim>\<open>_CompileOslSource\<close>, and the shader name on which \<^verbatim>\<open>_CompileOslSource\<close> runs the
  OSL compiler.\<close>

datatype event =
    Generate token
  | Compile token
  | RunCompiler string

text \<open>The state outside the network: the registry (process-wide), the files written,
  the number of calls of \<^verbatim>\<open>ArchMakeTmpFileName\<close> so far, the warnings issued with
  \<^verbatim>\<open>TF_WARN\<close>, and the calls made.\<close>

record world =
  registry :: registry
  files :: "(string \<times> string) list"
  nCalls :: nat
  warnings :: "string list"
  trace :: "event list"

definition TF_WARN :: "string \<Rightarrow> world \<Rightarrow> world" where
  "TF_WARN msg w = w\<lparr>warnings := warnings w @ [msg]\<rparr>"

definition logEvent :: "event \<Rightarrow> world \<Rightarrow> world" where
  "logEvent e w = w\<lparr>trace := trace w @ [e]\<rparr>"

text \<open>Modelled from the spec: \<^verbatim>\<open>SdrRegistry::GetShaderNodeFromAsset\<close> (not among the
  source files), with the fixed sub-identifier \<^verbatim>\<open>mtlx\<close> and source type \<^verbatim>\<open>OSL\<close> of its
  one call: registration of a new entry from a compiled-artifact path. An entry already
  registered under the asset's identifier is answered as it is; a file that does not
  parse gives null and no entry.\<close>

definition GetShaderNodeFromAsset ::
  "externals \<Rightarrow> string \<Rightarrow> world \<Rightarrow> sdrnode option \<times> world" where
  "GetShaderNodeFromAsset ext assetPath w =
     (let ident = assetIdentifier ext assetPath
      in case GetShaderNodeByIdentifierAndType (registry w) ident ''OSL'' of
           Some n \<Rightarrow> (Some n, w)
         | None \<Rightarrow>
             (case map_of (files w) assetPath of
                None \<Rightarrow> (None, w)
              | Some content \<Rightarrow>
                  (case parseAsset ext assetPath content of
                     None \<Rightarrow> (None, w)
                   | Some (ins, outs, primvars) \<Rightarrow>
                       (let n = \<lparr>sdrIdentifier = ident, sdrSourceType = ''OSL'',
                                 sdrInputNames = ins, sdrOutputNames = outs,
                                 sdrPrimvars = primvars\<rparr>
                        in (Some n, w\<lparr>registry := registry w @ [n]\<rparr>)))))"

subsection \<open>Shader generation and compilation\<close>

text \<open>\<^verbatim>\<open>_GenMaterialXShaderCode\<close>: the source text (empty on failure) and the warnings.\<close>

definition GenMaterialXShaderCode ::
  "externals \<Rightarrow> mxdoc \<Rightarrow> string \<Rightarrow> string \<Rightarrow> string \<Rightarrow> world \<Rightarrow> string \<times> world" where
  "GenMaterialXShaderCode ext mxDoc shaderName mxNodeName mxNodeGraphName w =
     (case FindGraphAndNodeByName mxDoc mxNodeGraphName mxNodeName of
        (None, _) \<Rightarrow>
          ([], TF_WARN (''NodeGraph '' @ quoted mxNodeGraphName @ '' not found in the mxDoc.'') w)
      | (Some gi, None) \<Rightarrow>
          ([], TF_WARN (''Node '' @ quoted mxNodeName @ '' not found in '' @
                        quoted mxNodeGraphName @ '' nodeGraph.'') w)
      | (Some gi, Some mxNode) \<Rightarrow>
          (case createShader ext shaderName mxDoc gi mxNode of
             Some src \<Rightarrow> (src, w)
           | None \<Rightarrow>
               ([], TF_WARN (''Unable to create Shader for node '' @ quoted mxNodeName @ ''.'') w)))"

text \<open>\<^verbatim>\<open>_CompileOslSource\<close>: the path of the compiled file, or the empty string. With
  OSL support the compiler runs on the source, its boolean result is dropped, and the
  buffer it leaves is written to a fresh temporary file with \<^verbatim>\<open>fputs\<close> on its
  \<^verbatim>\<open>c_str()\<close>, which stops at the first NUL character.\<close>

definition CompileOslSource ::
  "externals \<Rightarrow> string \<Rightarrow> string \<Rightarrow> string list \<Rightarrow> world \<Rightarrow> string \<times> world" where
  "CompileOslSource ext name oslSource searchPaths w =
     (if oslSupportEnabled ext then
        (let oslArgs = map (\<lambda>path. if pathExists ext (path @ ''/stdlib/osl'')
                                   then ''-I'' @ path @ ''/stdlib/osl''
                                   else ''-I'' @ path) searchPaths;
             oslCompiledSource = snd (compile_buffer ext oslSource oslArgs);
             w1 = logEvent (RunCompiler name) w;
             compiledFilePath = ArchMakeTmpFileName ext (nCalls w1) (''MX.'' @ name) ''.oso'';
             w2 = w1\<lparr>nCalls := Suc (nCalls w1)\<rparr>
         in if \<not> fopenOk ext compiledFilePath then
              ([], TF_WARN (''Unable to save compiled MaterialX Osl shader at '' @
                            quoted compiledFilePath @ [CHR 0x0A]) w2)
            else
              (compiledFilePath,
               w2\<lparr>files := AList.update compiledFilePath
                                (takeWhile (\<lambda>ch. ch \<noteq> CHR 0x00) oslCompiledSource)
                                (files w2)\<rparr>))
      else
        ([], TF_WARN (''Unable to compile MaterialX generated Osl shader, enable OSL '' @
                      ''support for full MaterialX support in HdPrman.'' @ [CHR 0x0A]) w))"

subsection \<open>Helpers of the network rewrite\<close>

text \<open>\<^verbatim>\<open>_GetAdapterNodeType\<close>, with its warning.\<close>

definition GetAdapterNodeType :: "token \<Rightarrow> token \<times> string list" where
  "GetAdapterNodeType hdNodeType =
     (if hdNodeType = ''ND_standard_surface_surfaceshader'' then
        (''StandardSurfaceParameters'', [])
      else if hdNodeType = ''ND_UsdPreviewSurface_surfaceshader'' then
        (''UsdPreviewSurfaceParameters'', [])
      else ([], [''Unsupported Node Type '' @ quoted hdNodeType]))"

text \<open>\<^verbatim>\<open>_GetUpdatedInputToken\<close>: the table of names that are OSL reserved words.\<close>

definition conflicts :: "(string \<times> string) list" where
  "conflicts = [(''emission'', ''emission_value''),
                (''subsurface'', ''subsurface_value''),
                (''normal'', ''input_normal'')]"

definition GetUpdatedInputToken :: "token \<Rightarrow> token" where
  "GetUpdatedInputToken currInputName =
     (case map_of conflicts currInputName of Some n \<Rightarrow> n | None \<Rightarrow> [])"

definition HasNode :: "network \<Rightarrow> token \<Rightarrow> bool" where
  "HasNode net hdNodeName \<longleftrightarrow> GetNodeType net hdNodeName \<noteq> []"

text \<open>All input connections of a node, in the order the two nested loops of
  \<^verbatim>\<open>_GatherNodeGraphNodes\<close> and \<^verbatim>\<open>_UpdateNetwork\<close> read them from an unchanged network:
  connection names in map order, the connections of each in vector order.\<close>

definition AllInputConnections :: "network \<Rightarrow> token \<Rightarrow> connection list" where
  "AllInputConnections net n =
     concat (map (GetNodeInputConnection net n) (GetNodeInputConnectionNames net n))"

text \<open>\<^verbatim>\<open>_GatherNodeGraphNodes\<close>. The C++ function recurses inside its two loops and
  inserts a node into \<^verbatim>\<open>upstreamNodeNames\<close> when the recursive call on it returns. Here
  the pending work is an explicit list: \<open>Visit c\<close> is an iteration of the inner loop on
  connection \<open>c\<close>, \<open>Leave n\<close> is the insertion that follows the recursive call on \<open>n\<close>.
  Entering a node puts its connections, then its \<open>Leave\<close>, before the rest of the
  caller's loop, which is the order of the recursion. The network is not written to
  while nodes are gathered. The two \<^verbatim>\<open>std::set\<close>s are duplicate-free lists.\<close>

datatype gather_item = Visit connection | Leave token

function GatherLoop ::
  "network \<Rightarrow> gather_item list \<Rightarrow> token list \<times> token list \<times> string list \<Rightarrow>
   token list \<times> token list \<times> string list" where
  "GatherLoop net [] acc = acc"
| "GatherLoop net (Leave n # work) (upstreamNodeNames, visitedNodeNames, warns) =
     GatherLoop net work (List.insert n upstreamNodeNames, visitedNodeNames, warns)"
| "GatherLoop net (Visit c # work) (upstreamNodeNames, visitedNodeNames, warns) =
     (if \<not> HasNode net (upstreamNodeName c) then
        GatherLoop net work
          (upstreamNodeNames, visitedNodeNames,
           warns @ [''Unknown material node '' @ quoted (upstreamNodeName c)])
      else if upstreamNodeName c \<in> set visitedNodeNames then
        GatherLoop net work (upstreamNodeNames, visitedNodeNames, warns)
      else
        GatherLoop net
          (map Visit (AllInputConnections net (upstreamNodeName c)) @
           Leave (upstreamNodeName c) # work)
          (upstreamNodeNames, List.insert (upstreamNodeName c) visitedNodeNames, warns))"
  by pat_completeness auto
termination
proof (relation "measures [\<lambda>(net, work, up, vis, warns). card (fst ` set (nodes net) - set vis),
                           \<lambda>(net, work, acc). length work]", goal_cases)
  case 1
  show ?case by simp
next
  case (2 net n work up vis warns)
  show ?case by simp
next
  case (3 net c work up vis warns)
  show ?case by simp
next
  case (4 net c work up vis warns)
  show ?case by simp
next
  case (5 net c work up vis warns)
  then have "upstreamNodeName c \<in> fst ` set (nodes net)"
    by (auto simp: HasNode_def GetNodeType_def GetNode_def
             split: option.splits dest: map_of_SomeD intro: rev_image_eqI)
  with 5 have "card (fst ` set (nodes net) - insert (upstreamNodeName c) (set vis))
               < card (fst ` set (nodes net) - set vis)"
    by (intro psubset_card_mono) auto
  then show ?case by simp
qed

definition GatherNodeGraphNodes ::
  "network \<Rightarrow> token \<Rightarrow> token list \<Rightarrow> token list \<Rightarrow> token list \<times> token list \<times> string list" where
  "GatherNodeGraphNodes net hdNodeName upstreamNodeNames visitedNodeNames =
     GatherLoop net (map Visit (AllInputConnections net hdNodeName))
       (upstreamNodeNames, visitedNodeNames, [])"

definition DeleteAllInputConnections :: "network \<Rightarrow> token \<Rightarrow> network" where
  "DeleteAllInputConnections net n =
     fold (\<lambda>cName net'. DeleteNodeInputConnection net' n cName)
       (GetNodeInputConnectionNames net n) net"

definition DeleteAllParameters :: "network \<Rightarrow> token \<Rightarrow> network" where
  "DeleteAllParameters net n =
     fold (\<lambda>pName net'. DeleteNodeParameter net' n pName)
       (GetAuthoredNodeParameterNames net n) net"

text \<open>A loop whose body may crash stops at the crash.\<close>

fun foldE :: "('a \<Rightarrow> 's \<Rightarrow> error + 's) \<Rightarrow> 'a list \<Rightarrow> 's \<Rightarrow> error + 's" where
  "foldE f [] s = Inr s"
| "foldE f (x # xs) s = (case f x s of Inl e \<Rightarrow> Inl e | Inr s' \<Rightarrow> foldE f xs s')"

subsection \<open>The network rewrite\<close>

text \<open>The variables of \<^verbatim>\<open>_UpdateNetwork\<close>: the network behind the interface, the state
  outside it, and the three sets.\<close>

record rewrite =
  rwNet :: network
  rwWorld :: world
  nodesToKeep :: "token list"
  nodesToRemove :: "token list"
  visitedNames :: "token list"

text \<open>The body of the inner loop of \<^verbatim>\<open>_UpdateNetwork\<close> (lines 373 to 469), on one
  connection of the terminal's input \<open>cName\<close>.\<close>

definition UpdateConnection ::
  "externals \<Rightarrow> token \<Rightarrow> mxdoc \<Rightarrow> string list \<Rightarrow> token \<Rightarrow> connection \<Rightarrow> rewrite \<Rightarrow>
   error + rewrite" where
  "UpdateConnection ext terminalNodeName mxDoc searchPath cName currConnection st =
     (let upstream = upstreamNodeName currConnection;
          outputName = upstreamOutputName currConnection
      in
      if \<not> HasNode (rwNet st) upstream then
        Inr (st\<lparr>rwWorld := TF_WARN (''Unknown material node '' @ quoted upstream) (rwWorld st)\<rparr>)
      else if upstream \<in> set (visitedNames st) then
        (case GetShaderNodeByIdentifier (registry (rwWorld st))
                (GetNodeType (rwNet st) upstream) [] of
           None \<Rightarrow> Inr st
         | Some sdrNode \<Rightarrow>
             if GetOutput sdrNode outputName then
               Inr (st\<lparr>rwNet := SetNodeInputConnection (rwNet st) terminalNodeName cName
                                   [\<lparr>upstreamNodeName = upstream,
                                     upstreamOutputName = outputName\<rparr>]\<rparr>)
             else
               Inr (st\<lparr>rwWorld := TF_WARN (''Output '' @ quoted outputName @
                                            '' not found on node '' @ quoted upstream @ ''.'')
                                     (rwWorld st)\<rparr>))
      else
        (let (toRemove, visited, warns) =
               GatherNodeGraphNodes (rwNet st) upstream (nodesToRemove st)
                 (List.insert upstream (visitedNames st));
             st1 = st\<lparr>visitedNames := visited, nodesToRemove := toRemove,
                      nodesToKeep := List.insert upstream (nodesToKeep st),
                      rwWorld := (rwWorld st)\<lparr>warnings := warnings (rwWorld st) @ warns\<rparr>\<rparr>;
             mxNodeName = GetName upstream;
             mxNodeGraphName = GetName (GetParentPath upstream);
             shaderName = mxNodeName @ ''Shader'';
             (oslSource, w2) =
               GenMaterialXShaderCode ext mxDoc shaderName mxNodeName mxNodeGraphName
                 (logEvent (Generate upstream) (rwWorld st1))
         in
         if oslSource = [] then Inr (st1\<lparr>rwWorld := w2\<rparr>)
         else
           (let (compiledShaderPath, w3) =
                  CompileOslSource ext shaderName oslSource searchPath
                    (logEvent (Compile upstream) w2)
            in
            if compiledShaderPath = [] then Inr (st1\<lparr>rwWorld := w3\<rparr>)
            else
              (case GetShaderNodeFromAsset ext compiledShaderPath w3 of
                 (None, w4) \<Rightarrow> Inl (NullDeref ''sdrNode'')
               | (Some sdrNode, w4) \<Rightarrow>
                   (let net1 = SetNodeType (rwNet st1) upstream (sdrIdentifier sdrNode);
                        net2 =
                          (if GetOutput sdrNode outputName then
                             (let updatedInputName = GetUpdatedInputToken cName;
                                  deletePreviousConnection = (updatedInputName \<noteq> []);
                                  inputName = (if deletePreviousConnection
                                               then updatedInputName else cName);
                                  net' = SetNodeInputConnection net1 terminalNodeName inputName
                                           [\<lparr>upstreamNodeName = upstream,
                                             upstreamOutputName = outputName\<rparr>]
                              in if deletePreviousConnection
                                 then DeleteNodeInputConnection net' terminalNodeName cName
                                 else net')
                           else net1);
                        net3 = DeleteAllInputConnections net2 upstream;
                        net4 = DeleteAllParameters net3 upstream
                    in Inr (st1\<lparr>rwNet := net4, rwWorld := w4\<rparr>))))))"

text \<open>The two loops of \<^verbatim>\<open>_UpdateNetwork\<close> (lines 366 to 470): the connection names are
  read once, the connections of a name when its iteration starts.\<close>

definition UpdateNetworkLoop ::
  "externals \<Rightarrow> token \<Rightarrow> mxdoc \<Rightarrow> string list \<Rightarrow> network \<Rightarrow> world \<Rightarrow> error + rewrite" where
  "UpdateNetworkLoop ext terminalNodeName mxDoc searchPath net w =
     foldE (\<lambda>cName st.
              foldE (UpdateConnection ext terminalNodeName mxDoc searchPath cName)
                (GetNodeInputConnection (rwNet st) terminalNodeName cName) st)
       (GetNodeInputConnectionNames net terminalNodeName)
       \<lparr>rwNet = net, rwWorld = w, nodesToKeep = [], nodesToRemove = [], visitedNames = []\<rparr>"

text \<open>The last loop of \<^verbatim>\<open>_UpdateNetwork\<close> (lines 472 to 478).\<close>

definition RemoveNodes :: "token list \<Rightarrow> token list \<Rightarrow> network \<Rightarrow> network" where
  "RemoveNodes toRemove toKeep net =
     fold (\<lambda>n net'. if n \<notin> set toKeep then DeleteNode net' n else net') toRemove net"

definition UpdateNetwork ::
  "externals \<Rightarrow> token \<Rightarrow> mxdoc \<Rightarrow> string list \<Rightarrow> network \<Rightarrow> world \<Rightarrow>
   error + (network \<times> world)" where
  "UpdateNetwork ext terminalNodeName mxDoc searchPath net w =
     (case UpdateNetworkLoop ext terminalNodeName mxDoc searchPath net w of
        Inl e \<Rightarrow> Inl e
      | Inr st \<Rightarrow>
          Inr (RemoveNodes (nodesToRemove st) (nodesToKeep st) (rwNet st), rwWorld st))"

subsection \<open>The terminal adapter\<close>

text \<open>The two loop bodies of \<^verbatim>\<open>_TransformTerminalNode\<close>: the rename of a parameter
  (lines 514 to 521) and the connection of a PxrSurface input (lines 533 to 546).\<close>

definition RenameParameter :: "token \<Rightarrow> token \<Rightarrow> network \<Rightarrow> network" where
  "RenameParameter terminalNodeName pName net =
     (let updatedName = GetUpdatedInputToken pName
      in if updatedName \<noteq> [] then
           (let val = GetNodeParameterValue net terminalNodeName pName;
                net1 = SetNodeParameterValue net terminalNodeName updatedName val
            in DeleteNodeParameter net1 terminalNodeName pName)
         else net)"

definition ConnectAdapterOutput ::
  "sdrnode \<Rightarrow> sdrnode \<Rightarrow> token \<Rightarrow> token \<Rightarrow> token \<Rightarrow> network \<Rightarrow> network" where
  "ConnectAdapterOutput sdrPxrSurface sdrAdapter terminalNodeName pxrSurfaceNodeName
     inParamName net =
     (if GetShaderInput sdrPxrSurface inParamName then
        (let adapterOutParam = inParamName @ ''Out''
         in if GetOutput sdrAdapter adapterOutParam then
              SetNodeInputConnection net pxrSurfaceNodeName inParamName
                [\<lparr>upstreamNodeName = terminalNodeName,
                  upstreamOutputName = adapterOutParam\<rparr>]
            else net)
      else net)"

text \<open>\<^verbatim>\<open>_TransformTerminalNode\<close>. The PxrSurface entry is dereferenced without a test
  at line 531.\<close>

definition TransformTerminalNode ::
  "token \<Rightarrow> network \<Rightarrow> world \<Rightarrow> error + (network \<times> world)" where
  "TransformTerminalNode terminalNodeName net w =
     (let (adapterType, warns) = GetAdapterNodeType (GetNodeType net terminalNodeName);
          w1 = w\<lparr>warnings := warnings w @ warns\<rparr>;
          sdrAdapter = GetShaderNodeByIdentifier (registry w1) adapterType [''OSL''];
          sdrPxrSurface = GetShaderNodeByIdentifier (registry w1) ''PxrSurface'' [''RmanCpp'']
      in case sdrAdapter of
           None \<Rightarrow> Inr (net, TF_WARN (''No sdrAdater node of type '' @ quoted adapterType) w1)
         | Some adapter \<Rightarrow>
             (let net1 = SetNodeType net terminalNodeName adapterType;
                  net2 = (if adapterType \<noteq> ''UsdPreviewSurfaceParameters'' then
                            fold (RenameParameter terminalNodeName)
                              (GetAuthoredNodeParameterNames net1 terminalNodeName) net1
                          else net1);
                  pxrSurfaceNodeName = terminalNodeName @ ''_PxrSurface'';
                  net3 = SetNodeType net2 pxrSurfaceNodeName ''PxrSurface''
              in case sdrPxrSurface of
                   None \<Rightarrow> Inl (NullDeref ''sdrPxrSurface'')
                 | Some pxr \<Rightarrow>
                     (let net4 = fold (ConnectAdapterOutput pxr adapter terminalNodeName
                                         pxrSurfaceNodeName)
                                   (sdrInputNames pxr) net3
                      in Inr (SetTerminalConnection net4 ''surface''
                                \<lparr>upstreamNodeName = pxrSurfaceNodeName,
                                  upstreamOutputName = []\<rparr>, w1))))"

subsection \<open>The texture node adaptor\<close>

text \<open>The blocks of the loop body of \<^verbatim>\<open>_UpdateTextureNodes\<close>, on the graph \<open>g\<close> that
  \<^verbatim>\<open>mxNodeGraph\<close> points to and the name \<open>tn\<close> of the node \<^verbatim>\<open>mxTextureNode\<close> points to.
  A pointer that the surrounding code has shown to be set is read with a case whose
  null branch is the dereference of a null pointer.\<close>

text \<open>Lines 644 to 679: the new value of the file input, whether the coordinate is to
  be inverted, and the warnings of the wrap modes.\<close>

definition FileInputValue ::
  "externals \<Rightarrow> network \<Rightarrow> token \<Rightarrow> string \<Rightarrow> error + (bool \<times> string \<times> string list)" where
  "FileInputValue ext net textureNodeName path =
     (let ext' = GetExtension ext path
      in if ext' \<noteq> [] \<and> ext' \<noteq> ''tex'' then
           (let pluginName = ''RtxHioImage'' @ archLibrarySuffix ext
            in case GetWrapModes net textureNodeName of
                 Inl e \<Rightarrow> Inl e
               | Inr (uWrap, vWrap, warns) \<Rightarrow>
                   Inr (False,
                        ''rtxplugin:'' @ pluginName @ ''?filename='' @ path @
                        ''&wrapS='' @ uWrap @ ''&wrapT='' @ vWrap,
                        warns))
         else Inr (True, path, []))"

text \<open>Lines 681 to 710: a texture node without a texcoord input gets one, connected to
  a new geompropvalue node that reads the primvar named in the metadata of the texture
  node's registry entry.\<close>

definition DefaultTexcoord ::
  "registry \<Rightarrow> token \<Rightarrow> token \<Rightarrow> mxgraph \<Rightarrow> string \<Rightarrow> error + mxgraph" where
  "DefaultTexcoord reg textureNodeName nodeType g tn =
     (case getNode g tn of
        None \<Rightarrow> Inl (NullDeref ''mxTextureNode'')
      | Some mxTextureNode \<Rightarrow>
          if getInput mxTextureNode ''texcoord'' \<noteq> None then Inr g
          else
            (case addInput mxTextureNode ''texcoord'' ''vector2'' of
               Inl e \<Rightarrow> Inl e
             | Inr withInput \<Rightarrow>
                 (let g1 = putNode g withInput;
                      stNodeName = textureNodeName @ ''__texcoord''
                  in case GetShaderNodeByIdentifierAndType reg nodeType ''mtlx'' of
                       None \<Rightarrow> Inl (NullDeref ''sdrTextureNode'')
                     | Some sdrTextureNode \<Rightarrow>
                         (let primvarName = sdrPrimvars sdrTextureNode
                          in case addNode g1 ''geompropvalue'' stNodeName ''vector2'' of
                               Inl e \<Rightarrow> Inl e
                             | Inr g2 \<Rightarrow>
                                 (let g3 = modifyNode g2 stNodeName
                                             (\<lambda>n. setInputValue n ''geomprop''
                                                    (MxString primvarName) ''string'');
                                      g4 = modifyNode g3 tn
                                             (\<lambda>n. setConnectedNode n ''texcoord''
                                                    (Some stNodeName));
                                      g5 = modifyNode g4 stNodeName
                                             (\<lambda>n. setNodeDefString n
                                                    ''ND_geompropvalue_vector2'')
                                  in Inr g5)))))"

text \<open>Lines 711 to 739: the remap node between the coordinate source and the texture
  node. The two float vectors hold the values 0 and 1 only and are kept as integers.\<close>

definition InvertT :: "token \<Rightarrow> mxgraph \<Rightarrow> string \<Rightarrow> error + mxgraph" where
  "InvertT textureNodeName g tn =
     (case getNode g tn of
        None \<Rightarrow> Inl (NullDeref ''mxTextureNode'')
      | Some mxTextureNode \<Rightarrow>
          (case getInput mxTextureNode ''texcoord'' of
             None \<Rightarrow> Inr g
           | Some texcoordInput \<Rightarrow>
               (let remapNodeName = textureNodeName @ ''__remap''
                in case addNode g ''remap'' remapNodeName ''vector2'' of
                     Inl e \<Rightarrow> Inl e
                   | Inr g1 \<Rightarrow>
                       (let remapNode = setNodeDefString
                                          (newNode ''remap'' remapNodeName ''vector2'')
                                          ''ND_remap_vector2''
                        in case addInput remapNode ''in'' ''vector2'' of
                             Inl e \<Rightarrow> Inl e
                           | Inr withIn \<Rightarrow>
                               (let withHigh = setInputValue withIn ''inhigh''
                                                 (MxFloatVec [1, 0]) ''float2'';
                                    withLow = setInputValue withHigh ''inlow''
                                                (MxFloatVec [0, 1]) ''float2'';
                                    g2 = putNode g1 withLow;
                                    primvarNode = getConnectedNode g2 texcoordInput;
                                    g3 = modifyNode g2 remapNodeName
                                           (\<lambda>n. setConnectedNode n ''in''
                                                  (map_option ndName primvarNode));
                                    g4 = modifyNode g3 tn
                                           (\<lambda>n. setConnectedNode n ''texcoord''
                                                  (Some remapNodeName))
                                in Inr g4)))))"

text \<open>Lines 644 to 739 on the graph and node found.\<close>

definition AdaptTextureNode ::
  "externals \<Rightarrow> registry \<Rightarrow> network \<Rightarrow> token \<Rightarrow> token \<Rightarrow> string \<Rightarrow> mxgraph \<Rightarrow> string \<Rightarrow>
   error + (mxgraph \<times> string list)" where
  "AdaptTextureNode ext reg net textureNodeName nodeType path g tn =
     (case FileInputValue ext net textureNodeName path of
        Inl e \<Rightarrow> Inl e
      | Inr (needInvertT, mxInputValue, warns) \<Rightarrow>
          (let g1 = modifyNode g tn
                      (\<lambda>n. setInputValue n ''file'' (MxString mxInputValue) ''filename'')
           in case DefaultTexcoord reg textureNodeName nodeType g1 tn of
                Inl e \<Rightarrow> Inl e
              | Inr g2 \<Rightarrow>
                  if needInvertT then
                    (case InvertT textureNodeName g2 tn of
                       Inl e \<Rightarrow> Inl e
                     | Inr g3 \<Rightarrow> Inr (g3, warns))
                  else Inr (g2, warns)))"

text \<open>The loop body of \<^verbatim>\<open>_UpdateTextureNodes\<close> (lines 610 to 740) for one texture path.\<close>

definition UpdateTextureNode ::
  "externals \<Rightarrow> network \<Rightarrow> string \<Rightarrow> mxdoc \<times> world \<Rightarrow> error + (mxdoc \<times> world)" where
  "UpdateTextureNode ext net texturePath dw =
     (let mxDoc = fst dw; w = snd dw;
          textureNodeName = texturePath;
          nodeType = GetNodeType net textureNodeName
      in if nodeType = [] then
           Inr (mxDoc, TF_WARN (''Connot find texture node '' @ quoted textureNodeName @
                                '' in material network.'') w)
         else
           (case GetNodeParameterValue net textureNodeName ''file'' of
              VtEmpty \<Rightarrow>
                Inr (mxDoc, TF_WARN (''File path missing for texture node '' @
                                     quoted textureNodeName @ ''.'') w)
            | VtAssetPath authored path \<Rightarrow>
                (case FindGraphAndNodeByName mxDoc (GetName (GetParentPath texturePath))
                        (GetName texturePath) of
                   (_, None) \<Rightarrow> Inr (mxDoc, w)
                 | (None, Some _) \<Rightarrow> Inl (NullDeref ''mxNodeGraph'')
                 | (Some gi, Some mxTextureNode) \<Rightarrow>
                     (case AdaptTextureNode ext (registry w) net textureNodeName nodeType path
                             (docGraphs mxDoc ! gi) (ndName mxTextureNode) of
                        Inl e \<Rightarrow> Inl e
                      | Inr (g', warns) \<Rightarrow>
                          Inr (putGraph mxDoc gi g',
                               w\<lparr>warnings := warnings w @ warns\<rparr>)))
            | _ \<Rightarrow> Inr (mxDoc, w)))"

definition UpdateTextureNodes ::
  "externals \<Rightarrow> network \<Rightarrow> string list \<Rightarrow> mxdoc \<Rightarrow> world \<Rightarrow> error + (mxdoc \<times> world)" where
  "UpdateTextureNodes ext net hdTextureNodePaths mxDoc w =
     foldE (UpdateTextureNode ext net) hdTextureNodePaths (mxDoc, w)"

subsection \<open>The entry point\<close>

text \<open>\<^verbatim>\<open>MatfiltMaterialX\<close> on a network handle (\<open>None\<close> is the null pointer). The list
  \<^verbatim>\<open>outputErrorMessages\<close> is never written to and is left out.\<close>

definition MatfiltMaterialX ::
  "externals \<Rightarrow> network option \<Rightarrow> world \<Rightarrow> error + (network option \<times> world)" where
  "MatfiltMaterialX ext netInterface w =
     (case netInterface of
        None \<Rightarrow> Inr (None, w)
      | Some net \<Rightarrow>
          (case GetTerminalConnection net ''surface'' of
             None \<Rightarrow> Inr (Some net, w)
           | Some res \<Rightarrow>
               (let terminalNodeName = upstreamNodeName res;
                    terminalNodeType = GetNodeType net terminalNodeName
                in case GetShaderNodeByIdentifierAndType (registry w) terminalNodeType
                          ''mtlx'' of
                     None \<Rightarrow> Inr (Some net, w)
                   | Some mtlxSdrNode \<Rightarrow>
                       (let cNames = GetNodeInputConnectionNames net terminalNodeName;
                            updated =
                              (if cNames \<noteq> [] then
                                 (let searchPath = HdMtlxSearchPaths ext;
                                      (mxDoc, hdTextureNodePaths) =
                                        HdMtlxCreateMtlxDocument ext net terminalNodeName
                                          cNames
                                  in case UpdateTextureNodes ext net hdTextureNodePaths
                                            mxDoc w of
                                       Inl e \<Rightarrow> Inl e
                                     | Inr (mxDoc1, w1) \<Rightarrow>
                                         (let materialPath = GetMaterialPrimPath net;
                                              mxDoc2 = removeNode mxDoc1
                                                         (''SR_'' @ GetName materialPath);
                                              mxDoc3 = removeNode mxDoc2
                                                         (GetName materialPath)
                                          in UpdateNetwork ext terminalNodeName mxDoc3
                                               searchPath net w1))
                               else Inr (net, w))
                        in case updated of
                             Inl e \<Rightarrow> Inl e
                           | Inr (net', w') \<Rightarrow>
                               (case TransformTerminalNode terminalNodeName net' w' of
                                  Inl e \<Rightarrow> Inl e
                                | Inr (net'', w'') \<Rightarrow> Inr (Some net'', w''))))))"

subsection \<open>Reading the result of a run\<close>

definition resultNetwork :: "error + (network \<times> world) \<Rightarrow> network option" where
  "resultNetwork r = (case r of Inl e \<Rightarrow> None | Inr (net, w) \<Rightarrow> Some net)"

definition resultWorld :: "error + (network \<times> world) \<Rightarrow> world option" where
  "resultWorld r = (case r of Inl e \<Rightarrow> None | Inr (net, w) \<Rightarrow> Some w)"

subsection \<open>Example collaborators and networks\<close>

text \<open>A document with one node graph \<^verbatim>\<open>NG\<close> holding an image node \<^verbatim>\<open>A\<close>, a multiply
  node \<^verbatim>\<open>B\<close> and a texture node \<^verbatim>\<open>tex\<close>.\<close>

definition exampleDoc :: mxdoc where
  "exampleDoc =
     \<lparr>docGraphs =
        [\<lparr>graphName = ''NG'',
          graphNodes = [newNode ''image'' ''A'' ''color3'',
                        newNode ''multiply'' ''B'' ''color3'',
                        newNode ''image'' ''tex'' ''color3'']\<rparr>],
      docNodes = []\<rparr>"

text \<open>Collaborators that succeed: a generator that always gives source, a compiler that
  always compiles, a file system where every file opens, temporary names that differ
  from call to call, a parser that reads one output \<^verbatim>\<open>out\<close> from any non-empty compiled
  file and names the entry after the path of the file.\<close>

definition exampleExt :: externals where
  "exampleExt =
     \<lparr>oslSupportEnabled = True,
      archLibrarySuffix = ''.so'',
      createShader = (\<lambda>shaderName mxDoc gi mxNode. Some (''shader '' @ shaderName)),
      compile_buffer = (\<lambda>oslSource oslArgs. (True, ''oso '' @ oslSource)),
      pathExists = (\<lambda>path. False),
      fopenOk = (\<lambda>path. True),
      ArchMakeTmpFileName =
        (\<lambda>n prefix suffix. ''/tmp/'' @ prefix @ ''.'' @ replicate n (CHR ''i'') @ suffix),
      assetIdentifier = (\<lambda>path. path @ ''<mtlx><OSL>''),
      parseAsset = (\<lambda>path content. if content = [] then None
                                     else Some ([], [''out''], [])),
      GetExtension =
        (\<lambda>path. if CHR ''.'' \<in> set path
                 then rev (takeWhile (\<lambda>c. c \<noteq> CHR ''.'') (rev path)) else []),
      HdMtlxSearchPaths = [''/usr/lib/mtlx''],
      HdMtlxCreateMtlxDocument = (\<lambda>net terminalNodeName cNames. (exampleDoc, []))\<rparr>"

text \<open>The same collaborators with a compiler that fails on every source and leaves
  its buffer empty.\<close>

definition failingCompilerExt :: externals where
  "failingCompilerExt = exampleExt\<lparr>compile_buffer := (\<lambda>oslSource oslArgs. (False, []))\<rparr>"

text \<open>A registry with the two MaterialX node definitions used below, the two
  adapters and PxrSurface; nothing else has happened yet.\<close>

definition imageDef :: sdrnode where
  "imageDef = \<lparr>sdrIdentifier = ''ND_image_color3'', sdrSourceType = ''mtlx'',
          sdrInputNames = [], sdrOutputNames = [''out''], sdrPrimvars = ''st''\<rparr>"

definition stdAdapter :: sdrnode where
  "stdAdapter =
     \<lparr>sdrIdentifier = ''StandardSurfaceParameters'', sdrSourceType = ''OSL'',
      sdrInputNames = [], sdrOutputNames = [''diffuseColorOut''], sdrPrimvars = []\<rparr>"

definition usdAdapter :: sdrnode where
  "usdAdapter =
     \<lparr>sdrIdentifier = ''UsdPreviewSurfaceParameters'', sdrSourceType = ''OSL'',
      sdrInputNames = [], sdrOutputNames = [''diffuseColorOut''], sdrPrimvars = []\<rparr>"

definition pxrSurface :: sdrnode where
  "pxrSurface =
     \<lparr>sdrIdentifier = ''PxrSurface'', sdrSourceType = ''RmanCpp'',
      sdrInputNames = [''diffuseColor'', ''specularRoughness''],
      sdrOutputNames = [], sdrPrimvars = []\<rparr>"

definition exampleWorld :: world where
  "exampleWorld =
     \<lparr>registry =
        [\<lparr>sdrIdentifier = ''ND_standard_surface_surfaceshader'', sdrSourceType = ''mtlx'',
          sdrInputNames = [], sdrOutputNames = [''out''], sdrPrimvars = []\<rparr>,
         imageDef, stdAdapter, usdAdapter, pxrSurface],
      files = [], nCalls = 0, warnings = [], trace = []\<rparr>"

definition surfaceTerminal :: "(token \<times> connection) list" where
  "surfaceTerminal =
     [(''surface'', \<lparr>upstreamNodeName = ''/Mat/Surf'', upstreamOutputName = ''surface''\<rparr>)]"

text \<open>A texture node with a mirrored v axis and a file, in a network with no terminal.\<close>

definition texNet :: network where
  "texNet =
     \<lparr>nodes =
        [(''/Mat/NG/tex'',
          \<lparr>nodeTypeId = ''ND_image_color3'',
           parameters = [(''file'', VtAssetPath ''wood.png'' ''/assets/wood.png''),
                         (''vaddressmode'', VtString ''mirror'')],
           inputConnections = []\<rparr>)],
      terminals = [],
      materialPrimPath = ''/Mat''\<rparr>"

text \<open>A surface terminal whose node is not a MaterialX node.\<close>

definition nonMtlxNet :: network where
  "nonMtlxNet =
     \<lparr>nodes = [(''/Mat/Surf'', \<lparr>nodeTypeId = ''PxrDisney'', parameters = [],
                               inputConnections = []\<rparr>)],
      terminals = surfaceTerminal,
      materialPrimPath = ''/Mat''\<rparr>"

text \<open>The terminal reads \<^verbatim>\<open>B\<close> through its input \<^verbatim>\<open>base_color\<close> and \<^verbatim>\<open>A\<close> through its
  input \<^verbatim>\<open>specular_color\<close>; \<^verbatim>\<open>B\<close> reads \<^verbatim>\<open>A\<close>.\<close>

definition sharedNet :: network where
  "sharedNet =
     \<lparr>nodes =
        [(''/Mat/Surf'',
          \<lparr>nodeTypeId = ''ND_standard_surface_surfaceshader'',
           parameters = [(''normal'', VtOther ''V'')],
           inputConnections =
             [(''base_color'', [\<lparr>upstreamNodeName = ''/Mat/NG/B'',
                                 upstreamOutputName = ''out''\<rparr>]),
              (''specular_color'', [\<lparr>upstreamNodeName = ''/Mat/NG/A'',
                                     upstreamOutputName = ''out''\<rparr>])]\<rparr>),
         (''/Mat/NG/A'', \<lparr>nodeTypeId = ''ND_image_color3'', parameters = [],
                          inputConnections = []\<rparr>),
         (''/Mat/NG/B'',
          \<lparr>nodeTypeId = ''ND_multiply_color3'', parameters = [],
           inputConnections =
             [(''in1'', [\<lparr>upstreamNodeName = ''/Mat/NG/A'',
                          upstreamOutputName = ''out''\<rparr>])]\<rparr>)],
      terminals = surfaceTerminal,
      materialPrimPath = ''/Mat''\<rparr>"

text \<open>What \<^verbatim>\<open>_UpdateNetwork\<close> leaves of \<open>sharedNet\<close>.\<close>

definition sharedNetAfter :: network where
  "sharedNetAfter =
     \<lparr>nodes =
        [(''/Mat/Surf'',
          \<lparr>nodeTypeId = ''ND_standard_surface_surfaceshader'',
           parameters = [(''normal'', VtOther ''V'')],
           inputConnections =
             [(''base_color'', [\<lparr>upstreamNodeName = ''/Mat/NG/B'',
                                 upstreamOutputName = ''out''\<rparr>]),
              (''specular_color'', [\<lparr>upstreamNodeName = ''/Mat/NG/A'',
                                     upstreamOutputName = ''out''\<rparr>])]\<rparr>),
         (''/Mat/NG/B'', \<lparr>nodeTypeId = ''/tmp/MX.BShader..oso<mtlx><OSL>'',
                          parameters = [], inputConnections = []\<rparr>)],
      terminals = surfaceTerminal,
      materialPrimPath = ''/Mat''\<rparr>"

text \<open>The terminal reads one node \<^verbatim>\<open>A\<close>, through \<^verbatim>\<open>base_color\<close>. In \<open>danglingNet\<close> the
  network has no node \<^verbatim>\<open>A\<close>; in \<open>unregisteredNet\<close> it has one, of a type the registry
  does not know.\<close>

definition danglingNet :: network where
  "danglingNet =
     \<lparr>nodes =
        [(''/Mat/Surf'',
          \<lparr>nodeTypeId = ''ND_standard_surface_surfaceshader'', parameters = [],
           inputConnections =
             [(''base_color'', [\<lparr>upstreamNodeName = ''/Mat/NG/A'',
                                 upstreamOutputName = ''out''\<rparr>])]\<rparr>)],
      terminals = surfaceTerminal,
      materialPrimPath = ''/Mat''\<rparr>"

definition unregisteredNet :: network where
  "unregisteredNet =
     danglingNet\<lparr>nodes := nodes danglingNet @
       [(''/Mat/NG/A'', \<lparr>nodeTypeId = ''ND_custom_color3'', parameters = [],
                        inputConnections = []\<rparr>)]\<rparr>"

text \<open>A terminal of the UsdPreviewSurface type with an authored \<^verbatim>\<open>normal\<close>.\<close>

definition usdNet :: network where
  "usdNet =
     \<lparr>nodes = [(''/Mat/Surf'', \<lparr>nodeTypeId = ''ND_UsdPreviewSurface_surfaceshader'',
                               parameters = [(''normal'', VtOther ''V'')],
                               inputConnections = []\<rparr>)],
      terminals = surfaceTerminal,
      materialPrimPath = ''/Mat''\<rparr>"

text \<open>The terminal reads the output of \<^verbatim>\<open>A\<close> through two of its inputs.\<close>

definition connA :: connection where
  "connA = \<lparr>upstreamNodeName = ''/Mat/NG/A'', upstreamOutputName = ''out''\<rparr>"

definition twoInputNet :: network where
  "twoInputNet =
     \<lparr>nodes =
        [(''/Mat/Surf'',
          \<lparr>nodeTypeId = ''ND_standard_surface_surfaceshader'', parameters = [],
           inputConnections = [(''base_color'', [connA]), (''specular_color'', [connA])]\<rparr>),
         (''/Mat/NG/A'',
          \<lparr>nodeTypeId = ''ND_image_color3'',
           parameters = [(''file'', VtAssetPath ''wood.tex'' ''/assets/wood.tex'')],
           inputConnections = []\<rparr>)],
      terminals = surfaceTerminal,
      materialPrimPath = ''/Mat''\<rparr>"

text \<open>The registry entry of the compiled shader of \<^verbatim>\<open>A\<close>, the state outside the network
  once \<^verbatim>\<open>A\<close> is compiled and registered, and the network with \<^verbatim>\<open>A\<close> rewritten.\<close>

definition compiledA :: sdrnode where
  "compiledA =
     \<lparr>sdrIdentifier = ''/tmp/MX.AShader..oso<mtlx><OSL>'', sdrSourceType = ''OSL'',
      sdrInputNames = [], sdrOutputNames = [''out''], sdrPrimvars = []\<rparr>"

definition worldAfterA :: world where
  "worldAfterA =
     \<lparr>registry = registry exampleWorld @ [compiledA],
      files = [(''/tmp/MX.AShader..oso'', ''oso shader AShader'')],
      nCalls = 1, warnings = [],
      trace = [Generate ''/Mat/NG/A'', Compile ''/Mat/NG/A'', RunCompiler ''AShader'']\<rparr>"

definition twoInputNetAfter :: network where
  "twoInputNetAfter =
     \<lparr>nodes =
        [(''/Mat/Surf'',
          \<lparr>nodeTypeId = ''ND_standard_surface_surfaceshader'', parameters = [],
           inputConnections = [(''base_color'', [connA]), (''specular_color'', [connA])]\<rparr>),
         (''/Mat/NG/A'',
          \<lparr>nodeTypeId = ''/tmp/MX.AShader..oso<mtlx><OSL>'', parameters = [],
           inputConnections = []\<rparr>)],
      terminals = surfaceTerminal,
      materialPrimPath = ''/Mat''\<rparr>"

text \<open>The variables of \<^verbatim>\<open>_UpdateNetwork\<close> on \<open>twoInputNet\<close> before the first and
  before the second connection.\<close>

definition twoInputStart :: rewrite where
  "twoInputStart =
     \<lparr>rwNet = twoInputNet, rwWorld = exampleWorld, nodesToKeep = [], nodesToRemove = [],
      visitedNames = []\<rparr>"

definition twoInputMid :: rewrite where
  "twoInputMid =
     \<lparr>rwNet = twoInputNetAfter, rwWorld = worldAfterA, nodesToKeep = [''/Mat/NG/A''],
      nodesToRemove = [], visitedNames = [''/Mat/NG/A'']\<rparr>"








text \<open>The document of \<open>exampleDoc\<close> without the node \<^verbatim>\<open>A\<close>; the variables of
  \<^verbatim>\<open>_UpdateNetwork\<close> on \<open>twoInputNet\<close> after the last connection; and the variables before
  the second connection with an empty registry.\<close>

definition docWithoutA :: mxdoc where
  "docWithoutA =
     \<lparr>docGraphs =
        [\<lparr>graphName = ''NG'',
          graphNodes = [newNode ''multiply'' ''B'' ''color3'',
                        newNode ''image'' ''tex'' ''color3'']\<rparr>],
      docNodes = []\<rparr>"

definition twoInputEnd :: rewrite where
  "twoInputEnd =
     \<lparr>rwNet = twoInputNetAfter, rwWorld = worldAfterA, nodesToKeep = [''/Mat/NG/A''],
      nodesToRemove = [], visitedNames = [''/Mat/NG/A'']\<rparr>"

definition emptyRegistryMid :: rewrite where
  "emptyRegistryMid = twoInputMid\<lparr>rwWorld := worldAfterA\<lparr>registry := []\<rparr>\<rparr>"

text \<open>The terminal reads \<^verbatim>\<open>B\<close> through \<^verbatim>\<open>base_color\<close> and \<^verbatim>\<open>A\<close> through
  \<^verbatim>\<open>specular_color\<close>, and no other node reads either; the variables of \<^verbatim>\<open>_UpdateNetwork\<close>
  on it after the last connection.\<close>

definition separateNet :: network where
  "separateNet =
     \<lparr>nodes =
        [(''/Mat/Surf'',
          \<lparr>nodeTypeId = ''ND_standard_surface_surfaceshader'', parameters = [],
           inputConnections =
             [(''base_color'', [\<lparr>upstreamNodeName = ''/Mat/NG/B'',
                                 upstreamOutputName = ''out''\<rparr>]),
              (''specular_color'', [connA])]\<rparr>),
         (''/Mat/NG/A'', \<lparr>nodeTypeId = ''ND_image_color3'', parameters = [],
                          inputConnections = []\<rparr>),
         (''/Mat/NG/B'', \<lparr>nodeTypeId = ''ND_multiply_color3'', parameters = [],
                          inputConnections = []\<rparr>)],
      terminals = surfaceTerminal,
      materialPrimPath = ''/Mat''\<rparr>"

definition separateEnd :: rewrite where
  "separateEnd =
     \<lparr>rwNet =
        \<lparr>nodes =
           [(''/Mat/Surf'',
             \<lparr>nodeTypeId = ''ND_standard_surface_surfaceshader'', parameters = [],
              inputConnections =
                [(''base_color'', [\<lparr>upstreamNodeName = ''/Mat/NG/B'',
                                    upstreamOutputName = ''out''\<rparr>]),
                 (''specular_color'', [connA])]\<rparr>),
            (''/Mat/NG/A'', \<lparr>nodeTypeId = ''/tmp/MX.AShader.i.oso<mtlx><OSL>'',
                             parameters = [], inputConnections = []\<rparr>),
            (''/Mat/NG/B'', \<lparr>nodeTypeId = ''/tmp/MX.BShader..oso<mtlx><OSL>'',
                             parameters = [], inputConnections = []\<rparr>)],
         terminals = surfaceTerminal,
         materialPrimPath = ''/Mat''\<rparr>,
      rwWorld =
        exampleWorld
          \<lparr>registry :=
             registry exampleWorld @
             [\<lparr>sdrIdentifier = ''/tmp/MX.BShader..oso<mtlx><OSL>'', sdrSourceType = ''OSL'',
               sdrInputNames = [], sdrOutputNames = [''out''], sdrPrimvars = []\<rparr>,
              \<lparr>sdrIdentifier = ''/tmp/MX.AShader.i.oso<mtlx><OSL>'', sdrSourceType = ''OSL'',
               sdrInputNames = [], sdrOutputNames = [''out''], sdrPrimvars = []\<rparr>],
           files := [(''/tmp/MX.BShader..oso'', ''oso shader BShader''),
                     (''/tmp/MX.AShader.i.oso'', ''oso shader AShader'')],
           nCalls := 2,
           trace := [Generate ''/Mat/NG/B'', Compile ''/Mat/NG/B'', RunCompiler ''BShader'',
                     Generate ''/Mat/NG/A'', Compile ''/Mat/NG/A'', RunCompiler ''AShader'']\<rparr>,
      nodesToKeep = [''/Mat/NG/A'', ''/Mat/NG/B''], nodesToRemove = [],
      visitedNames = [''/Mat/NG/A'', ''/Mat/NG/B'']\<rparr>"

text \<open>The network \<open>twoInputNet\<close> after a run of the filter from \<open>exampleWorld\<close>, and after a
  second run on a copy of \<open>twoInputNet\<close> from the state the first run leaves
  (\<open>worldAfterA\<close>).\<close>

definition adaptedTerminal :: "token \<times> hdnode" where
  "adaptedTerminal =
     (''/Mat/Surf'',
      \<lparr>nodeTypeId = ''StandardSurfaceParameters'', parameters = [],
       inputConnections = [(''base_color'', [connA]), (''specular_color'', [connA])]\<rparr>)"

definition addedPxrSurface :: "token \<times> hdnode" where
  "addedPxrSurface =
     (''/Mat/Surf_PxrSurface'',
      \<lparr>nodeTypeId = ''PxrSurface'', parameters = [],
       inputConnections =
         [(''diffuseColor'', [\<lparr>upstreamNodeName = ''/Mat/Surf'',
                               upstreamOutputName = ''diffuseColorOut''\<rparr>])]\<rparr>)"

definition pxrTerminal :: "(token \<times> connection) list" where
  "pxrTerminal =
     [(''surface'', \<lparr>upstreamNodeName = ''/Mat/Surf_PxrSurface'', upstreamOutputName = []\<rparr>)]"

definition twoInputFirstRun :: network where
  "twoInputFirstRun =
     \<lparr>nodes =
        [adaptedTerminal,
         (''/Mat/NG/A'',
          \<lparr>nodeTypeId = ''/tmp/MX.AShader..oso<mtlx><OSL>'', parameters = [],
           inputConnections = []\<rparr>),
         addedPxrSurface],
      terminals = pxrTerminal,
      materialPrimPath = ''/Mat''\<rparr>"

definition twoInputSecondRun :: network where
  "twoInputSecondRun =
     \<lparr>nodes =
        [adaptedTerminal,
         (''/Mat/NG/A'',
          \<lparr>nodeTypeId = ''/tmp/MX.AShader.i.oso<mtlx><OSL>'', parameters = [],
           inputConnections = []\<rparr>),
         addedPxrSurface],
      terminals = pxrTerminal,
      materialPrimPath = ''/Mat''\<rparr>"

subsection \<open>Notions used in the proofs\<close>

text \<open>The authored parameters of a node as a map.\<close>

definition paramMap :: "network \<Rightarrow> token \<Rightarrow> token \<Rightarrow> vtvalue option" where
  "paramMap net n =
     (case GetNode net n of None \<Rightarrow> Map.empty | Some nd \<Rightarrow> map_of (parameters nd))"

text \<open>The network \<^verbatim>\<open>_TransformTerminalNode\<close> leaves when both registry entries exist.\<close>

definition transformed :: "sdrnode \<Rightarrow> sdrnode \<Rightarrow> token \<Rightarrow> token \<Rightarrow> network \<Rightarrow> network" where
  "transformed adapter pxr adapterType t net =
     (let net1 = SetNodeType net t adapterType;
          net2 = (if adapterType \<noteq> ''UsdPreviewSurfaceParameters'' then
                    fold (RenameParameter t) (GetAuthoredNodeParameterNames net1 t) net1
                  else net1);
          net3 = SetNodeType net2 (t @ ''_PxrSurface'') ''PxrSurface'';
          net4 = fold (ConnectAdapterOutput pxr adapter t (t @ ''_PxrSurface''))
                   (sdrInputNames pxr) net3
      in SetTerminalConnection net4 ''surface''
           \<lparr>upstreamNodeName = t @ ''_PxrSurface'', upstreamOutputName = []\<rparr>)"

text \<open>The source \<^verbatim>\<open>_GenMaterialXShaderCode\<close> returns for an upstream node (it does not
  depend on the state outside the network), the calls that the first connection to a
  node makes, and the count of calls of a run: every node has one generator call more
  than at the start \<open>w0\<close> if it is in \<^verbatim>\<open>nodesToKeep\<close> and none more otherwise, and one call
  of \<^verbatim>\<open>_CompileOslSource\<close> more if moreover its source is not empty.\<close>

definition generatedSource :: "externals \<Rightarrow> mxdoc \<Rightarrow> token \<Rightarrow> string" where
  "generatedSource ext mxDoc n =
     fst (GenMaterialXShaderCode ext mxDoc (GetName n @ ''Shader'') (GetName n)
            (GetName (GetParentPath n))
            \<lparr>registry = [], files = [], nCalls = 0, warnings = [], trace = []\<rparr>)"

definition callsFor :: "externals \<Rightarrow> token \<Rightarrow> string \<Rightarrow> event list" where
  "callsFor ext n oslSource =
     Generate n #
     (if oslSource = [] then []
      else Compile n #
           (if oslSupportEnabled ext then [RunCompiler (GetName n @ ''Shader'')] else []))"

definition exactlyOnce :: "externals \<Rightarrow> mxdoc \<Rightarrow> world \<Rightarrow> rewrite \<Rightarrow> bool" where
  "exactlyOnce ext mxDoc w0 st \<longleftrightarrow>
     set (nodesToKeep st) \<subseteq> set (visitedNames st)
     \<and> (\<forall>n. count_list (trace (rwWorld st)) (Generate n) =
              count_list (trace w0) (Generate n) + (if n \<in> set (nodesToKeep st) then 1 else 0)
          \<and> count_list (trace (rwWorld st)) (Compile n) =
              count_list (trace w0) (Compile n) +
              (if n \<in> set (nodesToKeep st) \<and> generatedSource ext mxDoc n \<noteq> [] then 1 else 0))"

text \<open>No input connection of the network leads to the terminal, and none but the
  terminal's own leads to node \<open>a\<close>. The control invariant of the two loops for such a
  node: once visited it is in \<^verbatim>\<open>nodesToKeep\<close>, and until then the network holds it.\<close>

definition readOnlyByTerminal :: "network \<Rightarrow> token \<Rightarrow> token \<Rightarrow> bool" where
  "readOnlyByTerminal net t a \<longleftrightarrow>
     (\<forall>x \<in> set (map fst (nodes net)).
        \<forall>i \<in> set (GetNodeInputConnectionNames net x).
          \<forall>c \<in> set (GetNodeInputConnection net x i).
            upstreamNodeName c \<noteq> t \<and> (upstreamNodeName c = a \<longrightarrow> x = t))"

definition keptWhenVisited :: "token \<Rightarrow> token \<Rightarrow> rewrite \<Rightarrow> bool" where
  "keptWhenVisited t a st \<longleftrightarrow>
     readOnlyByTerminal (rwNet st) t a
     \<and> (if a \<in> set (visitedNames st) then a \<in> set (nodesToKeep st) else HasNode (rwNet st) a)"










text \<open>Two states outside the network that differ at most in the warnings issued and
  the calls logged.\<close>

definition sameOutside :: "world \<Rightarrow> world \<Rightarrow> bool" where
  "sameOutside w v \<longleftrightarrow> registry w = registry v \<and> files w = files v \<and> nCalls w = nCalls v"

text \<open>The network with every node type erased: what is left are the node names, the
  parameters, the input connections, the terminals and the material path.\<close>

definition blankTypes :: "network \<Rightarrow> network" where
  "blankTypes net = net\<lparr>nodes := map (\<lambda>(k, nd). (k, nd\<lparr>nodeTypeId := []\<rparr>)) (nodes net)\<rparr>"

text \<open>The identifier the registry gives the compiled shader of shader name \<open>name\<close> when
  \<^verbatim>\<open>_CompileOslSource\<close> names its file at call \<open>n\<close> of \<^verbatim>\<open>ArchMakeTmpFileName\<close>, and the
  identifiers of the files named at call \<open>N\<close> or later.\<close>

definition artifactId :: "externals \<Rightarrow> nat \<Rightarrow> string \<Rightarrow> token" where
  "artifactId ext n name =
     assetIdentifier ext (ArchMakeTmpFileName ext n (''MX.'' @ name) ''.oso'')"

definition isArtifact :: "externals \<Rightarrow> nat \<Rightarrow> token \<Rightarrow> bool" where
  "isArtifact ext N x \<longleftrightarrow> (\<exists>n name. N \<le> n \<and> x = artifactId ext n name)"

text \<open>The collaborators do not depend on the count of calls otherwise than through the
  name: files named at different calls get different identifiers, the parser reads the
  content of a file and not its path, and whether a temporary file can be opened, and
  whether its name is empty, is the same at every call.\<close>

definition uniformNames :: "externals \<Rightarrow> bool" where
  "uniformNames ext \<longleftrightarrow>
     (\<forall>n m p q. artifactId ext n p = artifactId ext m q \<longrightarrow> n = m)
     \<and> (\<forall>p q c. parseAsset ext p c = parseAsset ext q c)
     \<and> (\<forall>n m p s. fopenOk ext (ArchMakeTmpFileName ext n p s) =
                    fopenOk ext (ArchMakeTmpFileName ext m p s))
     \<and> (\<forall>n m p s. (ArchMakeTmpFileName ext n p s = []) = (ArchMakeTmpFileName ext m p s = []))"

text \<open>The registry entries that are not artifacts from \<open>N\<close> on. During a run that started
  with count \<open>N\<close> from the state \<open>w0\<close> these entries are those of \<open>w0\<close>, no entry is the
  artifact of a call yet to come, and the count is at least \<open>N\<close>.\<close>

definition olderEntries :: "externals \<Rightarrow> nat \<Rightarrow> registry \<Rightarrow> registry" where
  "olderEntries ext N reg = filter (\<lambda>e. \<not> isArtifact ext N (sdrIdentifier e)) reg"

definition worldInv :: "externals \<Rightarrow> nat \<Rightarrow> world \<Rightarrow> world \<Rightarrow> bool" where
  "worldInv ext N w0 w \<longleftrightarrow>
     olderEntries ext N (registry w) = olderEntries ext N (registry w0)
     \<and> (\<forall>e \<in> set (registry w). \<not> isArtifact ext (nCalls w) (sdrIdentifier e))
     \<and> N \<le> nCalls w"

text \<open>What \<^verbatim>\<open>_CompileOslSource\<close> writes for a source, the path of the file it names at call
  \<open>n\<close>, and the registry entry \<^verbatim>\<open>GetShaderNodeFromAsset\<close> makes of that file.\<close>

definition compiledContent :: "externals \<Rightarrow> string \<Rightarrow> string list \<Rightarrow> string" where
  "compiledContent ext oslSource searchPaths =
     takeWhile (\<lambda>ch. ch \<noteq> CHR 0x00)
       (snd (compile_buffer ext oslSource
               (map (\<lambda>path. if pathExists ext (path @ ''/stdlib/osl'')
                             then ''-I'' @ path @ ''/stdlib/osl''
                             else ''-I'' @ path) searchPaths)))"

definition compiledPath :: "externals \<Rightarrow> nat \<Rightarrow> string \<Rightarrow> string" where
  "compiledPath ext n name = ArchMakeTmpFileName ext n (''MX.'' @ name) ''.oso''"

definition registered ::
  "externals \<Rightarrow> nat \<Rightarrow> string \<Rightarrow> string \<Rightarrow> string list \<Rightarrow> sdrnode option" where
  "registered ext n name src sp =
     (case parseAsset ext (compiledPath ext n name) (compiledContent ext src sp) of
        None \<Rightarrow> None
      | Some (ins, outs, primvars) \<Rightarrow>
          Some \<lparr>sdrIdentifier = artifactId ext n name, sdrSourceType = ''OSL'',
                sdrInputNames = ins, sdrOutputNames = outs, sdrPrimvars = primvars\<rparr>)"

text \<open>Lines 445 to 468 of \<^verbatim>\<open>_UpdateNetwork\<close>: the network once the upstream node of
  connection \<open>c\<close> is retyped to the new entry and spliced in. A compile call gives a path
  when OSL support is enabled, the file opens and its name is not empty.\<close>

definition spliced :: "token \<Rightarrow> token \<Rightarrow> connection \<Rightarrow> sdrnode \<Rightarrow> network \<Rightarrow> network" where
  "spliced terminalNodeName cName c sdrNode net =
     (let upstream = upstreamNodeName c;
          outputName = upstreamOutputName c;
          net1 = SetNodeType net upstream (sdrIdentifier sdrNode);
          net2 =
            (if GetOutput sdrNode outputName then
               (let updatedInputName = GetUpdatedInputToken cName;
                    deletePreviousConnection = (updatedInputName \<noteq> []);
                    inputName = (if deletePreviousConnection then updatedInputName else cName);
                    net' = SetNodeInputConnection net1 terminalNodeName inputName
                             [\<lparr>upstreamNodeName = upstream, upstreamOutputName = outputName\<rparr>]
                in if deletePreviousConnection
                   then DeleteNodeInputConnection net' terminalNodeName cName
                   else net')
             else net1);
          net3 = DeleteAllInputConnections net2 upstream
      in DeleteAllParameters net3 upstream)"

definition usable :: "externals \<Rightarrow> nat \<Rightarrow> string \<Rightarrow> bool" where
  "usable ext n name \<longleftrightarrow>
     oslSupportEnabled ext \<and> fopenOk ext (compiledPath ext n name)
     \<and> compiledPath ext n name \<noteq> []"

text \<open>Two runs side by side, the second with a count of calls ahead by \<open>d\<close>. The types
  of a node in the two networks are related when they are equal and no artifact from
  \<open>N\<close> on, or the artifacts of the same shader name at calls \<open>m\<close> and \<open>m + d\<close>, registered
  with the same outputs. Two networks are related when they are equal once the types are
  erased and every node has related types; two states of the rewrite when the sets are
  equal and the networks related; likewise the results of \<^verbatim>\<open>_UpdateNetwork\<close>, of the texture
  adaptor and of the filter.\<close>

definition tyRel ::
  "externals \<Rightarrow> nat \<Rightarrow> nat \<Rightarrow> registry \<Rightarrow> registry \<Rightarrow> token \<Rightarrow> token \<Rightarrow> bool" where
  "tyRel ext N d ra rb x y \<longleftrightarrow>
     (x = y \<and> \<not> isArtifact ext N x)
     \<or> (\<exists>name m ea eb.
           N \<le> m \<and> x = artifactId ext m name \<and> y = artifactId ext (m + d) name
           \<and> find (\<lambda>e. sdrIdentifier e = x) ra = Some ea
           \<and> find (\<lambda>e. sdrIdentifier e = y) rb = Some eb
           \<and> sdrOutputNames ea = sdrOutputNames eb)"

definition netSim ::
  "externals \<Rightarrow> nat \<Rightarrow> nat \<Rightarrow> registry \<Rightarrow> registry \<Rightarrow> network \<Rightarrow> network \<Rightarrow> bool" where
  "netSim ext N d ra rb a b \<longleftrightarrow>
     blankTypes a = blankTypes b
     \<and> (\<forall>k. tyRel ext N d ra rb (GetNodeType a k) (GetNodeType b k))"

definition simRewrite ::
  "externals \<Rightarrow> nat \<Rightarrow> nat \<Rightarrow> world \<Rightarrow> rewrite \<Rightarrow> rewrite \<Rightarrow> bool" where
  "simRewrite ext N d w0 s t \<longleftrightarrow>
     worldInv ext N w0 (rwWorld s) \<and> worldInv ext N w0 (rwWorld t)
     \<and> nCalls (rwWorld t) = nCalls (rwWorld s) + d
     \<and> nodesToKeep s = nodesToKeep t \<and> nodesToRemove s = nodesToRemove t
     \<and> visitedNames s = visitedNames t
     \<and> netSim ext N d (registry (rwWorld s)) (registry (rwWorld t)) (rwNet s) (rwNet t)"

definition pairSim ::
  "externals \<Rightarrow> nat \<Rightarrow> nat \<Rightarrow> world \<Rightarrow> network \<times> world \<Rightarrow> network \<times> world \<Rightarrow> bool" where
  "pairSim ext N d w0 p q \<longleftrightarrow>
     worldInv ext N w0 (snd p) \<and> worldInv ext N w0 (snd q)
     \<and> nCalls (snd q) = nCalls (snd p) + d
     \<and> netSim ext N d (registry (snd p)) (registry (snd q)) (fst p) (fst q)"

definition docSim ::
  "externals \<Rightarrow> nat \<Rightarrow> nat \<Rightarrow> world \<Rightarrow> mxdoc \<times> world \<Rightarrow> mxdoc \<times> world \<Rightarrow> bool" where
  "docSim ext N d w0 p q \<longleftrightarrow>
     fst p = fst q \<and> worldInv ext N w0 (snd p) \<and> worldInv ext N w0 (snd q)
     \<and> nCalls (snd q) = nCalls (snd p) + d"

definition resultSim ::
  "externals \<Rightarrow> nat \<Rightarrow> nat \<Rightarrow> world \<Rightarrow> network option \<times> world \<Rightarrow>
   network option \<times> world \<Rightarrow> bool" where
  "resultSim ext N d w0 p q \<longleftrightarrow>
     (\<exists>a b. fst p = Some a \<and> fst q = Some b \<and> pairSim ext N d w0 (a, snd p) (b, snd q))"

text \<open>The type names the filter itself compares against or looks up, with the empty
  token; and the condition that no artifact from the current count on is among them,
  among the node types of the network or among the registry's identifiers.\<close>

definition reservedNames :: "token list" where
  "reservedNames =
     [[], ''ND_standard_surface_surfaceshader'', ''ND_UsdPreviewSurface_surfaceshader'',
      ''StandardSurfaceParameters'', ''UsdPreviewSurfaceParameters'', ''PxrSurface'']"

definition unusedArtifacts :: "externals \<Rightarrow> network \<Rightarrow> world \<Rightarrow> bool" where
  "unusedArtifacts ext net w \<longleftrightarrow>
     (\<forall>x \<in> set reservedNames \<union> nodeTypeId ` snd ` set (nodes net)
            \<union> sdrIdentifier ` set (registry w).
        \<not> isArtifact ext (nCalls w) x)"

section \<open>Properties\<close>

subsection \<open>The network interface\<close>

lemma set_map_keys: "set (map_keys al) = dom (map_of al)"
  by (simp add: map_keys_def dom_map_of_conv_image_fst)

lemma distinct_map_keys: "distinct (map_keys al)"
  by (simp add: map_keys_def)

lemma GetNode_PutNode: "GetNode (PutNode net n nd) m = (if m = n then Some nd else GetNode net m)"
  by (simp add: GetNode_def PutNode_def update_conv')

lemma GetNodeParameterValue_paramMap:
  "GetNodeParameterValue net n p = (case paramMap net n p of None \<Rightarrow> VtEmpty | Some v \<Rightarrow> v)"
  by (simp add: GetNodeParameterValue_def paramMap_def split: option.splits)

lemma set_GetAuthoredNodeParameterNames:
  "set (GetAuthoredNodeParameterNames net n) = dom (paramMap net n)"
  by (simp add: GetAuthoredNodeParameterNames_def paramMap_def set_map_keys split: option.splits)

lemma distinct_GetAuthoredNodeParameterNames: "distinct (GetAuthoredNodeParameterNames net n)"
  by (simp add: GetAuthoredNodeParameterNames_def distinct_map_keys split: option.splits)

lemma paramMap_SetNodeParameterValue:
  "paramMap (SetNodeParameterValue net n p v) m =
     (if m = n then (paramMap net n)(p \<mapsto> v) else paramMap net m)"
  by (auto simp: paramMap_def SetNodeParameterValue_def GetNode_PutNode GetOrCreateNode_def
        emptyNode_def update_conv' Let_def split: option.splits)

lemma paramMap_DeleteNodeParameter:
  "paramMap (DeleteNodeParameter net n p) m =
     (if m = n then (paramMap net n)(p := None) else paramMap net m)"
  by (auto simp: paramMap_def DeleteNodeParameter_def GetNode_PutNode delete_conv'
        split: option.splits)

lemma paramMap_SetNodeType: "paramMap (SetNodeType net n ty) m = paramMap net m"
  by (auto simp: paramMap_def SetNodeType_def GetNode_PutNode GetOrCreateNode_def emptyNode_def
        split: option.splits)

lemma paramMap_SetNodeInputConnection:
  "paramMap (SetNodeInputConnection net n i cs) m = paramMap net m"
  by (auto simp: paramMap_def SetNodeInputConnection_def GetNode_PutNode GetOrCreateNode_def
        emptyNode_def Let_def split: option.splits)

lemma paramMap_SetTerminalConnection: "paramMap (SetTerminalConnection net t c) m = paramMap net m"
  by (simp add: paramMap_def SetTerminalConnection_def GetNode_def)

lemma GetNodeType_SetNodeType:
  "GetNodeType (SetNodeType net n ty) m = (if m = n then ty else GetNodeType net m)"
  by (simp add: GetNodeType_def SetNodeType_def GetNode_PutNode)

lemma GetNodeType_SetNodeParameterValue:
  "GetNodeType (SetNodeParameterValue net n p v) m = GetNodeType net m"
  by (auto simp: GetNodeType_def SetNodeParameterValue_def GetNode_PutNode GetOrCreateNode_def
        emptyNode_def Let_def split: option.splits)

lemma GetNodeType_DeleteNodeParameter:
  "GetNodeType (DeleteNodeParameter net n p) m = GetNodeType net m"
  by (auto simp: GetNodeType_def DeleteNodeParameter_def GetNode_PutNode split: option.splits)

lemma GetNodeType_SetNodeInputConnection:
  "GetNodeType (SetNodeInputConnection net n i cs) m = GetNodeType net m"
  by (auto simp: GetNodeType_def SetNodeInputConnection_def GetNode_PutNode GetOrCreateNode_def
        emptyNode_def Let_def split: option.splits)

lemma GetNodeType_SetTerminalConnection:
  "GetNodeType (SetTerminalConnection net t c) m = GetNodeType net m"
  by (simp add: GetNodeType_def SetTerminalConnection_def GetNode_def)

lemma fold_GetNodeType:
  assumes "\<And>x net. GetNodeType (g x net) k = GetNodeType net k"
  shows "GetNodeType (fold g xs net) k = GetNodeType net k"
  using assms by (induction xs arbitrary: net) simp_all

lemma GetNodeType_DeleteNodeInputConnection:
  "GetNodeType (DeleteNodeInputConnection net n i) m = GetNodeType net m"
  by (auto simp: GetNodeType_def DeleteNodeInputConnection_def GetNode_PutNode
        split: option.splits)

lemma GetNodeType_DeleteAllInputConnections:
  "GetNodeType (DeleteAllInputConnections net n) m = GetNodeType net m"
  unfolding DeleteAllInputConnections_def
  by (rule fold_GetNodeType) (rule GetNodeType_DeleteNodeInputConnection)

lemma GetNodeType_DeleteAllParameters:
  "GetNodeType (DeleteAllParameters net n) m = GetNodeType net m"
  unfolding DeleteAllParameters_def
  by (rule fold_GetNodeType) (rule GetNodeType_DeleteNodeParameter)

lemma GetNodeInputConnection_SetNodeInputConnection:
  "GetNodeInputConnection (SetNodeInputConnection net n i cs) x j =
     (if x = n \<and> j = i then cs else GetNodeInputConnection net x j)"
  by (auto simp: GetNodeInputConnection_def SetNodeInputConnection_def GetNode_PutNode
        GetOrCreateNode_def emptyNode_def Let_def update_conv' split: option.splits)

lemma GetNodeInputConnection_DeleteNodeInputConnection:
  "GetNodeInputConnection (DeleteNodeInputConnection net n i) x j =
     (if x = n \<and> j = i then [] else GetNodeInputConnection net x j)"
  by (auto simp: GetNodeInputConnection_def DeleteNodeInputConnection_def GetNode_PutNode
        delete_conv' split: option.splits)

lemma GetNodeInputConnection_SetNodeType:
  "GetNodeInputConnection (SetNodeType net n ty) x j = GetNodeInputConnection net x j"
  by (auto simp: GetNodeInputConnection_def SetNodeType_def GetNode_PutNode
        GetOrCreateNode_def emptyNode_def split: option.splits)

lemma GetNodeInputConnection_DeleteNodeParameter:
  "GetNodeInputConnection (DeleteNodeParameter net n p) x j = GetNodeInputConnection net x j"
  by (auto simp: GetNodeInputConnection_def DeleteNodeParameter_def GetNode_PutNode
        split: option.splits)

lemma GetNodeInputConnection_DeleteAllParameters:
  "GetNodeInputConnection (DeleteAllParameters net n) x j = GetNodeInputConnection net x j"
proof -
  have "GetNodeInputConnection (fold (\<lambda>p net'. DeleteNodeParameter net' n p) ps net) x j =
        GetNodeInputConnection net x j" for ps
    by (induction ps arbitrary: net) (simp_all add: GetNodeInputConnection_DeleteNodeParameter)
  then show ?thesis by (simp add: DeleteAllParameters_def)
qed

lemma GetNodeInputConnection_DeleteAllInputConnections:
  "set (GetNodeInputConnection (DeleteAllInputConnections net n) x j)
     \<subseteq> set (GetNodeInputConnection net x j)"
proof -
  have "set (GetNodeInputConnection (fold (\<lambda>i net'. DeleteNodeInputConnection net' n i) is net)
               x j) \<subseteq> set (GetNodeInputConnection net x j)" for "is"
  proof (induction "is" arbitrary: net)
    case Nil
    show ?case by simp
  next
    case (Cons i "is")
    have "set (GetNodeInputConnection (DeleteNodeInputConnection net n i) x j)
            \<subseteq> set (GetNodeInputConnection net x j)"
      by (simp add: GetNodeInputConnection_DeleteNodeInputConnection)
    with Cons [of "DeleteNodeInputConnection net n i"] show ?case by auto
  qed
  then show ?thesis by (simp add: DeleteAllInputConnections_def)
qed

lemma GetNodeInputConnection_DeleteAllInputConnections_other:
  "x \<noteq> n \<Longrightarrow>
   GetNodeInputConnection (DeleteAllInputConnections net n) x j = GetNodeInputConnection net x j"
proof -
  assume x: "x \<noteq> n"
  have "GetNodeInputConnection (fold (\<lambda>i net'. DeleteNodeInputConnection net' n i) is net) x j =
        GetNodeInputConnection net x j" for "is"
    using x
    by (induction "is" arbitrary: net)
       (simp_all add: GetNodeInputConnection_DeleteNodeInputConnection)
  then show ?thesis by (simp add: DeleteAllInputConnections_def)
qed

lemma connection_name_listed:
  assumes "c \<in> set (GetNodeInputConnection net n i)"
  shows "i \<in> set (GetNodeInputConnectionNames net n)"
proof (cases "GetNode net n")
  case None
  with assms show ?thesis by (simp add: GetNodeInputConnection_def)
next
  case (Some nd)
  with assms have "map_of (inputConnections nd) i \<noteq> None"
    by (cases "map_of (inputConnections nd) i") (simp_all add: GetNodeInputConnection_def)
  then have "i \<in> dom (map_of (inputConnections nd))" by auto
  with Some show ?thesis
    by (simp add: GetNodeInputConnectionNames_def set_map_keys)
qed

lemma connection_node_listed:
  assumes "c \<in> set (GetNodeInputConnection net n i)"
  shows "n \<in> set (map fst (nodes net))"
proof (cases "GetNode net n")
  case None
  with assms show ?thesis by (simp add: GetNodeInputConnection_def)
next
  case (Some nd)
  then have "(n, nd) \<in> set (nodes net)"
    by (simp add: GetNode_def map_of_SomeD)
  then show ?thesis by force
qed

lemma readOnlyByTerminal_iff:
  "readOnlyByTerminal net t a \<longleftrightarrow>
     (\<forall>x i. \<forall>c \<in> set (GetNodeInputConnection net x i).
        upstreamNodeName c \<noteq> t \<and> (upstreamNodeName c = a \<longrightarrow> x = t))"
  unfolding readOnlyByTerminal_def
  using connection_name_listed connection_node_listed by blast

subsection \<open>Wrap-mode mapping\<close>

lemma GetWrapMode_unset:
  "GetNodeParameterValue net n p = VtEmpty \<Longrightarrow> GetWrapMode net n p = Inr (''repeat'', [])"
  by (simp add: GetWrapMode_def)

lemma GetWrapMode_string:
  "GetNodeParameterValue net n p = VtString s \<Longrightarrow>
   GetWrapMode net n p = Inr (GetHdWrapString n s)"
  by (simp add: GetWrapMode_def UncheckedGet_string_def)

text \<open>
  Claim C4. The wrap-mode mapping \<^verbatim>\<open>_GetHdWrapString\<close> answers "black" for "constant"
  with exactly one warning (the unsupported-mode message naming the texture), "clamp" for
  "clamp" with no warning, "repeat" for "mirror" with exactly one warning, and "repeat"
  with no warning for every other string. In \<^verbatim>\<open>_GetWrapModes\<close> an unset
  \<^verbatim>\<open>uaddressmode\<close> gives "repeat" for the u axis and an unset \<^verbatim>\<open>vaddressmode\<close> gives
  "repeat" for the v axis, the other axis being unset or a string mapped through the
  table.
\<close>

theorem wrap_mode_mapping:
  "GetHdWrapString n ''constant'' =
     (''black'', [''RtxHioImagePlugin: Texture '' @ quoted n @
                  '' has unsupported wrap mode 'constant' using 'black' instead.''])
   \<and> GetHdWrapString n ''clamp'' = (''clamp'', [])
   \<and> GetHdWrapString n ''mirror'' =
     (''repeat'', [''RtxHioImagePlugin: Texture '' @ quoted n @
                   '' has unsupported wrap mode 'mirror' using 'repeat' instead.''])
   \<and> (\<forall>v. v \<noteq> ''constant'' \<and> v \<noteq> ''clamp'' \<and> v \<noteq> ''mirror'' \<longrightarrow>
          GetHdWrapString n v = (''repeat'', []))
   \<and> (GetNodeParameterValue net n ''uaddressmode'' = VtEmpty \<longrightarrow>
        (GetNodeParameterValue net n ''vaddressmode'' = VtEmpty \<longrightarrow>
           GetWrapModes net n = Inr (''repeat'', ''repeat'', []))
        \<and> (\<forall>s. GetNodeParameterValue net n ''vaddressmode'' = VtString s \<longrightarrow>
              GetWrapModes net n =
                Inr (''repeat'', fst (GetHdWrapString n s), snd (GetHdWrapString n s))))
   \<and> (GetNodeParameterValue net n ''vaddressmode'' = VtEmpty \<longrightarrow>
        (\<forall>s. GetNodeParameterValue net n ''uaddressmode'' = VtString s \<longrightarrow>
              GetWrapModes net n =
                Inr (fst (GetHdWrapString n s), ''repeat'', snd (GetHdWrapString n s))))"
proof -
  have table: "\<forall>v. v \<noteq> ''constant'' \<and> v \<noteq> ''clamp'' \<and> v \<noteq> ''mirror'' \<longrightarrow>
          GetHdWrapString n v = (''repeat'', [])"
    by (simp add: GetHdWrapString_def)
  have u: "GetNodeParameterValue net n ''uaddressmode'' = VtEmpty \<longrightarrow>
        (GetNodeParameterValue net n ''vaddressmode'' = VtEmpty \<longrightarrow>
           GetWrapModes net n = Inr (''repeat'', ''repeat'', []))
        \<and> (\<forall>s. GetNodeParameterValue net n ''vaddressmode'' = VtString s \<longrightarrow>
              GetWrapModes net n =
                Inr (''repeat'', fst (GetHdWrapString n s), snd (GetHdWrapString n s)))"
    by (auto simp: GetWrapModes_def GetWrapMode_unset GetWrapMode_string
             split: prod.splits)
  have v: "GetNodeParameterValue net n ''vaddressmode'' = VtEmpty \<longrightarrow>
        (\<forall>s. GetNodeParameterValue net n ''uaddressmode'' = VtString s \<longrightarrow>
              GetWrapModes net n =
                Inr (fst (GetHdWrapString n s), ''repeat'', snd (GetHdWrapString n s)))"
    by (auto simp: GetWrapModes_def GetWrapMode_unset GetWrapMode_string
             split: prod.splits)
  show ?thesis
    using table u v by (simp add: GetHdWrapString_def)
qed

theorem wrap_mode_mapping_witness:
  "''periodic'' \<noteq> ''constant'' \<and> ''periodic'' \<noteq> ''clamp'' \<and> ''periodic'' \<noteq> ''mirror''
   \<and> GetHdWrapString ''/Mat/NG/tex'' ''periodic'' = (''repeat'', [])
   \<and> GetNodeParameterValue texNet ''/Mat/NG/tex'' ''uaddressmode'' = VtEmpty
   \<and> GetNodeParameterValue texNet ''/Mat/NG/tex'' ''vaddressmode'' = VtString ''mirror''
   \<and> GetWrapModes texNet ''/Mat/NG/tex'' =
       Inr (''repeat'', ''repeat'',
            [''RtxHioImagePlugin: Texture '' @ quoted ''/Mat/NG/tex'' @
             '' has unsupported wrap mode 'mirror' using 'repeat' instead.''])"
  using wrap_mode_mapping [of "''/Mat/NG/tex''" texNet]
  by (simp add: GetNodeParameterValue_def GetNode_def texNet_def GetHdWrapString_def)

subsection \<open>Networks the filter leaves alone\<close>

text \<open>
  Claim C3. \<^verbatim>\<open>MatfiltMaterialX\<close> returns with the network and the state outside it
  unchanged, so with no warning issued, in three cases: the network handle is null; the
  network has no "surface" terminal connection; the type of the node the surface terminal
  names has no registry entry of source type mtlx.
\<close>

theorem MatfiltMaterialX_untouched:
  "MatfiltMaterialX ext None w = Inr (None, w)
   \<and> (GetTerminalConnection net ''surface'' = None \<longrightarrow>
        MatfiltMaterialX ext (Some net) w = Inr (Some net, w))
   \<and> (\<forall>res. GetTerminalConnection net ''surface'' = Some res
          \<and> GetShaderNodeByIdentifierAndType (registry w)
               (GetNodeType net (upstreamNodeName res)) ''mtlx'' = None \<longrightarrow>
        MatfiltMaterialX ext (Some net) w = Inr (Some net, w))"
  by (simp add: MatfiltMaterialX_def)

theorem MatfiltMaterialX_untouched_witness:
  "GetTerminalConnection texNet ''surface'' = None
   \<and> MatfiltMaterialX exampleExt (Some texNet) exampleWorld = Inr (Some texNet, exampleWorld)
   \<and> GetTerminalConnection nonMtlxNet ''surface'' =
        Some \<lparr>upstreamNodeName = ''/Mat/Surf'', upstreamOutputName = ''surface''\<rparr>
   \<and> GetShaderNodeByIdentifierAndType (registry exampleWorld)
        (GetNodeType nonMtlxNet ''/Mat/Surf'') ''mtlx'' = None
   \<and> MatfiltMaterialX exampleExt (Some nonMtlxNet) exampleWorld =
        Inr (Some nonMtlxNet, exampleWorld)"
proof -
  have absent: "GetTerminalConnection texNet ''surface'' = None"
    by code_simp
  have present: "GetTerminalConnection nonMtlxNet ''surface'' =
        Some \<lparr>upstreamNodeName = ''/Mat/Surf'', upstreamOutputName = ''surface''\<rparr>"
    by code_simp
  have foreign: "GetShaderNodeByIdentifierAndType (registry exampleWorld)
        (GetNodeType nonMtlxNet ''/Mat/Surf'') ''mtlx'' = None"
    by code_simp
  show ?thesis
    using absent present foreign
      MatfiltMaterialX_untouched [of exampleExt exampleWorld texNet]
      MatfiltMaterialX_untouched [of exampleExt exampleWorld nonMtlxNet]
    by simp
qed

subsection \<open>An upstream node the network does not hold\<close>

text \<open>
  Claim C8, as amended. When the terminal node has exactly one input connection, to an
  upstream node A that the network does not hold (the node type the network answers for
  A is empty), \<^verbatim>\<open>_UpdateNetwork\<close> returns with the network unchanged, so the terminal's
  connection to A is as it was; the state outside the network differs only by one new
  warning, "Unknown material node 'A'", so neither the generator nor the compiler was
  called. The test is on the network, not on the registry.
\<close>

theorem UpdateNetwork_unknown_node:
  assumes "GetNodeInputConnectionNames net terminalNodeName = [cName]"
    and "GetNodeInputConnection net terminalNodeName cName = [c]"
    and "\<not> HasNode net (upstreamNodeName c)"
  shows "UpdateNetwork ext terminalNodeName mxDoc searchPath net w =
           Inr (net, TF_WARN (''Unknown material node '' @ quoted (upstreamNodeName c)) w)"
  using assms
  by (simp add: UpdateNetwork_def UpdateNetworkLoop_def UpdateConnection_def RemoveNodes_def)

theorem UpdateNetwork_unknown_node_witness:
  "GetNodeInputConnectionNames danglingNet ''/Mat/Surf'' = [''base_color'']
   \<and> GetNodeInputConnection danglingNet ''/Mat/Surf'' ''base_color'' =
        [\<lparr>upstreamNodeName = ''/Mat/NG/A'', upstreamOutputName = ''out''\<rparr>]
   \<and> \<not> HasNode danglingNet ''/Mat/NG/A''
   \<and> UpdateNetwork exampleExt ''/Mat/Surf'' exampleDoc [''/usr/lib/mtlx''] danglingNet
        exampleWorld =
        Inr (danglingNet,
             TF_WARN (''Unknown material node '' @ quoted ''/Mat/NG/A'') exampleWorld)"
proof -
  have names: "GetNodeInputConnectionNames danglingNet ''/Mat/Surf'' = [''base_color'']"
    by (simp add: GetNodeInputConnectionNames_def GetNode_def danglingNet_def map_keys_def)
  have conn: "GetNodeInputConnection danglingNet ''/Mat/Surf'' ''base_color'' =
        [\<lparr>upstreamNodeName = ''/Mat/NG/A'', upstreamOutputName = ''out''\<rparr>]"
    by (simp add: GetNodeInputConnection_def GetNode_def danglingNet_def)
  have unknown: "\<not> HasNode danglingNet
        (upstreamNodeName \<lparr>upstreamNodeName = ''/Mat/NG/A'', upstreamOutputName = ''out''\<rparr>)"
    by (simp add: HasNode_def GetNodeType_def GetNode_def danglingNet_def)
  show ?thesis
    using names conn unknown
      UpdateNetwork_unknown_node [OF names conn unknown, of exampleExt exampleDoc
        "[''/usr/lib/mtlx'']" exampleWorld]
    by simp
qed

text \<open>The claim as it was written tests the registry: in \<open>unregisteredNet\<close> the type of
  A has no registry entry, yet the generator and the compiler are called for A and no
  warning is issued.\<close>

theorem UpdateNetwork_unregistered_type_counterexample:
  "GetNodeInputConnectionNames unregisteredNet ''/Mat/Surf'' = [''base_color'']
   \<and> GetNodeInputConnection unregisteredNet ''/Mat/Surf'' ''base_color'' =
        [\<lparr>upstreamNodeName = ''/Mat/NG/A'', upstreamOutputName = ''out''\<rparr>]
   \<and> GetShaderNodeByIdentifier (registry exampleWorld)
        (GetNodeType unregisteredNet ''/Mat/NG/A'') [] = None
   \<and> map_option trace
        (resultWorld (UpdateNetwork exampleExt ''/Mat/Surf'' exampleDoc [''/usr/lib/mtlx'']
                        unregisteredNet exampleWorld)) =
        Some [Generate ''/Mat/NG/A'', Compile ''/Mat/NG/A'', RunCompiler ''AShader'']
   \<and> map_option warnings
        (resultWorld (UpdateNetwork exampleExt ''/Mat/Surf'' exampleDoc [''/usr/lib/mtlx'']
                        unregisteredNet exampleWorld)) = Some []"
  by code_simp

subsection \<open>A node read by the terminal and by another of its inputs\<close>

text \<open>
  Claim C2, at the input where the code departs from it. In \<open>sharedNet\<close> the node A is
  directly connected to the terminal (input \<^verbatim>\<open>specular_color\<close>) and is upstream of B, which
  the terminal reads first (input \<^verbatim>\<open>base_color\<close>). \<^verbatim>\<open>_UpdateNetwork\<close> ends with A deleted
  and the terminal's connection to A still in place.
\<close>

theorem UpdateNetwork_deletes_direct_node:
  "HasNode sharedNet ''/Mat/NG/A''
   \<and> GetNodeInputConnection sharedNet ''/Mat/Surf'' ''specular_color'' =
        [\<lparr>upstreamNodeName = ''/Mat/NG/A'', upstreamOutputName = ''out''\<rparr>]
   \<and> resultNetwork (UpdateNetwork exampleExt ''/Mat/Surf'' exampleDoc [''/usr/lib/mtlx'']
                       sharedNet exampleWorld) = Some sharedNetAfter
   \<and> \<not> HasNode sharedNetAfter ''/Mat/NG/A''
   \<and> GetNodeInputConnection sharedNetAfter ''/Mat/Surf'' ''specular_color'' =
        [\<lparr>upstreamNodeName = ''/Mat/NG/A'', upstreamOutputName = ''out''\<rparr>]"
  by code_simp

subsection \<open>A compiler that fails\<close>

text \<open>
  Claim C7, at the input where the code departs from it. With OSL support and a compiler
  that reports failure (its result is false and its buffer empty), \<^verbatim>\<open>_CompileOslSource\<close>
  does not return the empty string and issues no warning: it writes the empty buffer to
  a temporary file and returns the path. \<^verbatim>\<open>_UpdateNetwork\<close> then registers the file, and
  when the registry cannot parse it the null entry is dereferenced.
\<close>

theorem CompileOslSource_ignores_failure:
  "oslSupportEnabled failingCompilerExt
   \<and> compile_buffer failingCompilerExt ''shader AShader'' [''-I/usr/lib/mtlx''] = (False, [])
   \<and> fst (CompileOslSource failingCompilerExt ''AShader'' ''shader AShader''
             [''/usr/lib/mtlx''] exampleWorld) = ''/tmp/MX.AShader..oso''
   \<and> warnings (snd (CompileOslSource failingCompilerExt ''AShader'' ''shader AShader''
                      [''/usr/lib/mtlx''] exampleWorld)) = []
   \<and> UpdateNetwork failingCompilerExt ''/Mat/Surf'' exampleDoc [''/usr/lib/mtlx'']
        unregisteredNet exampleWorld = Inl (NullDeref ''sdrNode'')"
  by code_simp

subsection \<open>The terminal adapter renames reserved words\<close>

lemma GetUpdatedInputToken_cases:
  "GetUpdatedInputToken p =
     (if p = ''emission'' then ''emission_value''
      else if p = ''subsurface'' then ''subsurface_value''
      else if p = ''normal'' then ''input_normal'' else [])"
  by (simp add: GetUpdatedInputToken_def conflicts_def)

lemma paramMap_RenameParameter:
  "paramMap (RenameParameter t p net) m =
     (if m = t \<and> GetUpdatedInputToken p \<noteq> [] then
        ((paramMap net t)(GetUpdatedInputToken p \<mapsto> GetNodeParameterValue net t p))(p := None)
      else paramMap net m)"
  by (simp add: RenameParameter_def Let_def paramMap_DeleteNodeParameter
        paramMap_SetNodeParameterValue)

lemma GetNodeType_RenameParameter: "GetNodeType (RenameParameter t p net) m = GetNodeType net m"
  by (simp add: RenameParameter_def Let_def GetNodeType_DeleteNodeParameter
        GetNodeType_SetNodeParameterValue)

lemma GetNodeType_fold_RenameParameter:
  "GetNodeType (fold (RenameParameter t) ps net) m = GetNodeType net m"
  by (induction ps arbitrary: net) (simp_all add: GetNodeType_RenameParameter)

lemma paramMap_fold_RenameParameter_other:
  "m \<noteq> t \<Longrightarrow> paramMap (fold (RenameParameter t) ps net) m = paramMap net m"
  by (induction ps arbitrary: net) (simp_all add: paramMap_RenameParameter)

text \<open>A renamed parameter stays renamed while other names are processed.\<close>

lemma fold_RenameParameter_keeps:
  assumes "GetUpdatedInputToken k = q" and "q \<noteq> []" and "k \<notin> set ps"
    and "paramMap net t k = None" and "paramMap net t q = Some v"
  shows "paramMap (fold (RenameParameter t) ps net) t k = None
         \<and> paramMap (fold (RenameParameter t) ps net) t q = Some v"
  using assms(3-5)
proof (induction ps arbitrary: net)
  case Nil
  then show ?case by simp
next
  case (Cons p ps)
  from Cons.prems(1) have pk: "p \<noteq> k" and kps: "k \<notin> set ps" by auto
  have "paramMap (RenameParameter t p net) t k = None"
    using Cons.prems(2) pk assms(1,2)
    by (auto simp: paramMap_RenameParameter GetUpdatedInputToken_cases split: if_splits)
  moreover have "paramMap (RenameParameter t p net) t q = Some v"
    using Cons.prems(3) pk assms(1,2)
    by (auto simp: paramMap_RenameParameter GetUpdatedInputToken_cases split: if_splits)
  ultimately show ?case
    using Cons.IH [OF kps] by simp
qed

lemma fold_RenameParameter_renames:
  assumes "GetUpdatedInputToken k = q" and "q \<noteq> []" and "k \<in> set ps" and "distinct ps"
    and "paramMap net t k = Some v"
  shows "paramMap (fold (RenameParameter t) ps net) t k = None
         \<and> paramMap (fold (RenameParameter t) ps net) t q = Some v"
  using assms(3-5)
proof (induction ps arbitrary: net)
  case Nil
  then show ?case by simp
next
  case (Cons p ps)
  show ?case
  proof (cases "p = k")
    case True
    with Cons.prems(2) have kps: "k \<notin> set ps" by simp
    have "paramMap (RenameParameter t k net) t k = None"
      using assms(1,2) by (simp add: paramMap_RenameParameter)
    moreover have "paramMap (RenameParameter t k net) t q = Some v"
      using assms(1,2) Cons.prems(3)
      by (auto simp: paramMap_RenameParameter GetNodeParameterValue_paramMap
            GetUpdatedInputToken_cases split: if_splits)
    ultimately show ?thesis
      using fold_RenameParameter_keeps [OF assms(1,2) kps] True by simp
  next
    case False
    with Cons.prems have kps: "k \<in> set ps" and d: "distinct ps" by auto
    have "paramMap (RenameParameter t p net) t k = Some v"
      using Cons.prems(3) False assms(1,2)
      by (auto simp: paramMap_RenameParameter GetUpdatedInputToken_cases split: if_splits)
    then show ?thesis
      using Cons.IH [OF kps d] by simp
  qed
qed

lemma paramMap_ConnectAdapterOutput:
  "paramMap (ConnectAdapterOutput pxr adapter t t' i net) m = paramMap net m"
  by (simp add: ConnectAdapterOutput_def Let_def paramMap_SetNodeInputConnection)

lemma paramMap_fold_ConnectAdapterOutput:
  "paramMap (fold (ConnectAdapterOutput pxr adapter t t') is net) m = paramMap net m"
  by (induction "is" arbitrary: net) (simp_all add: paramMap_ConnectAdapterOutput)

lemma GetNodeType_ConnectAdapterOutput:
  "GetNodeType (ConnectAdapterOutput pxr adapter t t' i net) m = GetNodeType net m"
  by (simp add: ConnectAdapterOutput_def Let_def GetNodeType_SetNodeInputConnection)

lemma GetNodeType_fold_ConnectAdapterOutput:
  "GetNodeType (fold (ConnectAdapterOutput pxr adapter t t') is net) m = GetNodeType net m"
  by (induction "is" arbitrary: net) (simp_all add: GetNodeType_ConnectAdapterOutput)

lemma TransformTerminalNode_registered:
  assumes "GetAdapterNodeType (GetNodeType net t) = (adapterType, [])"
    and "GetShaderNodeByIdentifier (registry w) adapterType [''OSL''] = Some adapter"
    and "GetShaderNodeByIdentifier (registry w) ''PxrSurface'' [''RmanCpp''] = Some pxr"
  shows "TransformTerminalNode t net w = Inr (transformed adapter pxr adapterType t net, w)"
  using assms by (simp add: TransformTerminalNode_def transformed_def Let_def)

lemma paramMap_transformed_std:
  "paramMap (transformed adapter pxr ''StandardSurfaceParameters'' t net) t =
   paramMap (fold (RenameParameter t) (GetAuthoredNodeParameterNames net t) net) t"
proof -
  have names: "GetAuthoredNodeParameterNames (SetNodeType net t ty) t =
               GetAuthoredNodeParameterNames net t" for ty
    by (auto simp: GetAuthoredNodeParameterNames_def SetNodeType_def GetNode_PutNode
          GetOrCreateNode_def emptyNode_def map_keys_def split: option.splits)
  have step: "paramMap (fold (RenameParameter t) ps (SetNodeType net t ty)) t =
              paramMap (fold (RenameParameter t) ps net) t" for ps ty
  proof (induction ps rule: rev_induct)
    case Nil
    show ?case by (simp add: paramMap_SetNodeType)
  next
    case (snoc p ps)
    then show ?case
      by (auto simp: paramMap_RenameParameter GetNodeParameterValue_paramMap fun_eq_iff)
  qed
  show ?thesis
    by (simp add: transformed_def Let_def paramMap_SetTerminalConnection
          paramMap_fold_ConnectAdapterOutput paramMap_SetNodeType names step)
qed

lemma GetNodeType_transformed:
  "GetNodeType (transformed adapter pxr adapterType t net) t = adapterType"
  by (simp add: transformed_def Let_def GetNodeType_SetTerminalConnection
        GetNodeType_fold_ConnectAdapterOutput GetNodeType_SetNodeType
        GetNodeType_fold_RenameParameter)


lemma paramMap_transformed_usd:
  "paramMap (transformed adapter pxr ''UsdPreviewSurfaceParameters'' t net) t = paramMap net t"
  by (simp add: transformed_def Let_def paramMap_SetTerminalConnection
        paramMap_fold_ConnectAdapterOutput paramMap_SetNodeType)

lemma GetAuthoredNodeParameterNames_paramMap:
  assumes "paramMap net' n = paramMap net n"
  shows "GetAuthoredNodeParameterNames net' n = GetAuthoredNodeParameterNames net n"
proof -
  have sorted: "sorted (GetAuthoredNodeParameterNames x n)" for x
    by (simp add: GetAuthoredNodeParameterNames_def map_keys_def split: option.splits)
  have "set (GetAuthoredNodeParameterNames net' n) = set (GetAuthoredNodeParameterNames net n)"
    by (simp add: set_GetAuthoredNodeParameterNames assms)
  then show ?thesis
    by (intro sorted_distinct_set_unique sorted distinct_GetAuthoredNodeParameterNames)
qed

text \<open>
  Claim C5. The table of \<^verbatim>\<open>_GetUpdatedInputToken\<close> is emission to emission_value,
  subsurface to subsurface_value, normal to input_normal. In a registry that holds the
  adapter type (source type OSL) and PxrSurface (source type RmanCpp): for a terminal
  node of type \<^verbatim>\<open>ND_standard_surface_surfaceshader\<close> with an authored parameter p named
  emission, subsurface or normal of value V, \<^verbatim>\<open>_TransformTerminalNode\<close> returns, issues no
  warning, retypes the terminal to \<^verbatim>\<open>StandardSurfaceParameters\<close>, and afterwards the name
  the table gives for p is an authored parameter of value V while p is no authored
  parameter any more; for a terminal node of type \<^verbatim>\<open>ND_UsdPreviewSurface_surfaceshader\<close>
  the node is retyped to \<^verbatim>\<open>UsdPreviewSurfaceParameters\<close> and its authored parameter names
  and all its parameter values are as before, so no rename is applied.
\<close>

theorem terminal_parameters_renamed:
  "GetUpdatedInputToken ''emission'' = ''emission_value''
   \<and> GetUpdatedInputToken ''subsurface'' = ''subsurface_value''
   \<and> GetUpdatedInputToken ''normal'' = ''input_normal''
   \<and> (GetNodeType net t = ''ND_standard_surface_surfaceshader''
        \<and> GetShaderNodeByIdentifier (registry w) ''StandardSurfaceParameters'' [''OSL'']
            = Some adapter
        \<and> GetShaderNodeByIdentifier (registry w) ''PxrSurface'' [''RmanCpp''] = Some pxr
        \<and> (p = ''emission'' \<or> p = ''subsurface'' \<or> p = ''normal'')
        \<and> p \<in> set (GetAuthoredNodeParameterNames net t)
        \<and> GetNodeParameterValue net t p = V \<longrightarrow>
        (\<exists>net'. TransformTerminalNode t net w = Inr (net', w)
           \<and> GetNodeType net' t = ''StandardSurfaceParameters''
           \<and> GetUpdatedInputToken p \<in> set (GetAuthoredNodeParameterNames net' t)
           \<and> GetNodeParameterValue net' t (GetUpdatedInputToken p) = V
           \<and> p \<notin> set (GetAuthoredNodeParameterNames net' t)
           \<and> GetNodeParameterValue net' t p = VtEmpty))
   \<and> (GetNodeType net t = ''ND_UsdPreviewSurface_surfaceshader''
        \<and> GetShaderNodeByIdentifier (registry w) ''UsdPreviewSurfaceParameters'' [''OSL'']
            = Some adapter
        \<and> GetShaderNodeByIdentifier (registry w) ''PxrSurface'' [''RmanCpp''] = Some pxr \<longrightarrow>
        (\<exists>net'. TransformTerminalNode t net w = Inr (net', w)
           \<and> GetNodeType net' t = ''UsdPreviewSurfaceParameters''
           \<and> GetAuthoredNodeParameterNames net' t = GetAuthoredNodeParameterNames net t
           \<and> (\<forall>q. GetNodeParameterValue net' t q = GetNodeParameterValue net t q)))"
proof (intro conjI impI)
  show "GetUpdatedInputToken ''emission'' = ''emission_value''"
    and "GetUpdatedInputToken ''subsurface'' = ''subsurface_value''"
    and "GetUpdatedInputToken ''normal'' = ''input_normal''"
    by (simp_all add: GetUpdatedInputToken_cases)
next
  assume a: "GetNodeType net t = ''ND_standard_surface_surfaceshader''
        \<and> GetShaderNodeByIdentifier (registry w) ''StandardSurfaceParameters'' [''OSL'']
            = Some adapter
        \<and> GetShaderNodeByIdentifier (registry w) ''PxrSurface'' [''RmanCpp''] = Some pxr
        \<and> (p = ''emission'' \<or> p = ''subsurface'' \<or> p = ''normal'')
        \<and> p \<in> set (GetAuthoredNodeParameterNames net t)
        \<and> GetNodeParameterValue net t p = V"
  let ?net' = "transformed adapter pxr ''StandardSurfaceParameters'' t net"
  let ?q = "GetUpdatedInputToken p"
  from a have run: "TransformTerminalNode t net w = Inr (?net', w)"
    by (intro TransformTerminalNode_registered) (simp_all add: GetAdapterNodeType_def)
  from a have q: "?q \<noteq> []" by (auto simp: GetUpdatedInputToken_cases)
  from a obtain v where v: "paramMap net t p = Some v"
    by (auto simp: set_GetAuthoredNodeParameterNames)
  with a have vV: "v = V" by (simp add: GetNodeParameterValue_paramMap)
  from a have mem: "p \<in> set (GetAuthoredNodeParameterNames net t)" by simp
  have renamed: "paramMap ?net' t p = None \<and> paramMap ?net' t ?q = Some V"
    using fold_RenameParameter_renames [OF refl q mem distinct_GetAuthoredNodeParameterNames v]
    by (simp add: paramMap_transformed_std vV)
  show "\<exists>net'. TransformTerminalNode t net w = Inr (net', w)
           \<and> GetNodeType net' t = ''StandardSurfaceParameters''
           \<and> GetUpdatedInputToken p \<in> set (GetAuthoredNodeParameterNames net' t)
           \<and> GetNodeParameterValue net' t (GetUpdatedInputToken p) = V
           \<and> p \<notin> set (GetAuthoredNodeParameterNames net' t)
           \<and> GetNodeParameterValue net' t p = VtEmpty"
    using run renamed
    by (intro exI [of _ ?net'])
       (auto simp: GetNodeType_transformed set_GetAuthoredNodeParameterNames
          GetNodeParameterValue_paramMap)
next
  assume a: "GetNodeType net t = ''ND_UsdPreviewSurface_surfaceshader''
        \<and> GetShaderNodeByIdentifier (registry w) ''UsdPreviewSurfaceParameters'' [''OSL'']
            = Some adapter
        \<and> GetShaderNodeByIdentifier (registry w) ''PxrSurface'' [''RmanCpp''] = Some pxr"
  let ?net' = "transformed adapter pxr ''UsdPreviewSurfaceParameters'' t net"
  from a have run: "TransformTerminalNode t net w = Inr (?net', w)"
    by (intro TransformTerminalNode_registered) (simp_all add: GetAdapterNodeType_def)
  show "\<exists>net'. TransformTerminalNode t net w = Inr (net', w)
           \<and> GetNodeType net' t = ''UsdPreviewSurfaceParameters''
           \<and> GetAuthoredNodeParameterNames net' t = GetAuthoredNodeParameterNames net t
           \<and> (\<forall>q. GetNodeParameterValue net' t q = GetNodeParameterValue net t q)"
    using run GetAuthoredNodeParameterNames_paramMap [OF paramMap_transformed_usd]
    by (intro exI [of _ ?net'])
       (simp add: GetNodeType_transformed GetNodeParameterValue_paramMap
          paramMap_transformed_usd)
qed


theorem terminal_parameters_renamed_witness:
  "(GetNodeType sharedNet ''/Mat/Surf'' = ''ND_standard_surface_surfaceshader''
    \<and> GetShaderNodeByIdentifier (registry exampleWorld) ''StandardSurfaceParameters'' [''OSL'']
        = Some stdAdapter
    \<and> GetShaderNodeByIdentifier (registry exampleWorld) ''PxrSurface'' [''RmanCpp''] = Some pxrSurface
    \<and> ''normal'' \<in> set (GetAuthoredNodeParameterNames sharedNet ''/Mat/Surf'')
    \<and> GetNodeParameterValue sharedNet ''/Mat/Surf'' ''normal'' = VtOther ''V'')
   \<and> (\<exists>net'. TransformTerminalNode ''/Mat/Surf'' sharedNet exampleWorld = Inr (net', exampleWorld)
         \<and> GetNodeType net' ''/Mat/Surf'' = ''StandardSurfaceParameters''
         \<and> ''input_normal'' \<in> set (GetAuthoredNodeParameterNames net' ''/Mat/Surf'')
         \<and> GetNodeParameterValue net' ''/Mat/Surf'' ''input_normal'' = VtOther ''V''
         \<and> ''normal'' \<notin> set (GetAuthoredNodeParameterNames net' ''/Mat/Surf'')
         \<and> GetNodeParameterValue net' ''/Mat/Surf'' ''normal'' = VtEmpty)
   \<and> (GetNodeType usdNet ''/Mat/Surf'' = ''ND_UsdPreviewSurface_surfaceshader''
    \<and> GetShaderNodeByIdentifier (registry exampleWorld) ''UsdPreviewSurfaceParameters'' [''OSL'']
        = Some usdAdapter)
   \<and> (\<exists>net'. TransformTerminalNode ''/Mat/Surf'' usdNet exampleWorld = Inr (net', exampleWorld)
         \<and> GetNodeType net' ''/Mat/Surf'' = ''UsdPreviewSurfaceParameters''
         \<and> GetAuthoredNodeParameterNames net' ''/Mat/Surf'' = [''normal'']
         \<and> GetNodeParameterValue net' ''/Mat/Surf'' ''normal'' = VtOther ''V'')"
proof -
  have std: "GetNodeType sharedNet ''/Mat/Surf'' = ''ND_standard_surface_surfaceshader''
    \<and> GetShaderNodeByIdentifier (registry exampleWorld) ''StandardSurfaceParameters'' [''OSL'']
        = Some stdAdapter
    \<and> GetShaderNodeByIdentifier (registry exampleWorld) ''PxrSurface'' [''RmanCpp''] = Some pxrSurface
    \<and> ''normal'' \<in> set (GetAuthoredNodeParameterNames sharedNet ''/Mat/Surf'')
    \<and> GetNodeParameterValue sharedNet ''/Mat/Surf'' ''normal'' = VtOther ''V''"
    by code_simp
  have usd: "GetNodeType usdNet ''/Mat/Surf'' = ''ND_UsdPreviewSurface_surfaceshader''
    \<and> GetShaderNodeByIdentifier (registry exampleWorld) ''UsdPreviewSurfaceParameters'' [''OSL'']
        = Some usdAdapter
    \<and> GetAuthoredNodeParameterNames usdNet ''/Mat/Surf'' = [''normal'']
    \<and> GetNodeParameterValue usdNet ''/Mat/Surf'' ''normal'' = VtOther ''V''"
    by code_simp
  have r1: "\<exists>net'. TransformTerminalNode ''/Mat/Surf'' sharedNet exampleWorld = Inr (net', exampleWorld)
         \<and> GetNodeType net' ''/Mat/Surf'' = ''StandardSurfaceParameters''
         \<and> GetUpdatedInputToken ''normal'' \<in> set (GetAuthoredNodeParameterNames net' ''/Mat/Surf'')
         \<and> GetNodeParameterValue net' ''/Mat/Surf'' (GetUpdatedInputToken ''normal'') = VtOther ''V''
         \<and> ''normal'' \<notin> set (GetAuthoredNodeParameterNames net' ''/Mat/Surf'')
         \<and> GetNodeParameterValue net' ''/Mat/Surf'' ''normal'' = VtEmpty"
    using std
      terminal_parameters_renamed [where net = sharedNet and t = "''/Mat/Surf''" and w = exampleWorld
        and adapter = stdAdapter and pxr = pxrSurface and p = "''normal''"
        and V = "VtOther ''V''"]
    by blast
  have tok: "GetUpdatedInputToken ''normal'' = ''input_normal''"
    by (simp add: GetUpdatedInputToken_cases)
  have r2: "\<exists>net'. TransformTerminalNode ''/Mat/Surf'' usdNet exampleWorld = Inr (net', exampleWorld)
           \<and> GetNodeType net' ''/Mat/Surf'' = ''UsdPreviewSurfaceParameters''
           \<and> GetAuthoredNodeParameterNames net' ''/Mat/Surf'' =
               GetAuthoredNodeParameterNames usdNet ''/Mat/Surf''
           \<and> (\<forall>q. GetNodeParameterValue net' ''/Mat/Surf'' q =
                    GetNodeParameterValue usdNet ''/Mat/Surf'' q)"
    using std usd
      terminal_parameters_renamed [where net = usdNet and t = "''/Mat/Surf''" and w = exampleWorld
        and adapter = usdAdapter and pxr = pxrSurface]
    by blast
  from r2 usd have r2': "\<exists>net'. TransformTerminalNode ''/Mat/Surf'' usdNet exampleWorld = Inr (net', exampleWorld)
         \<and> GetNodeType net' ''/Mat/Surf'' = ''UsdPreviewSurfaceParameters''
         \<and> GetAuthoredNodeParameterNames net' ''/Mat/Surf'' = [''normal'']
         \<and> GetNodeParameterValue net' ''/Mat/Surf'' ''normal'' = VtOther ''V''"
    by metis
  from r1 tok r2' std usd show ?thesis
    by simp
qed

subsection \<open>An upstream node read through several terminal inputs\<close>

lemma trace_TF_WARN: "trace (TF_WARN m w) = trace w"
  by (simp add: TF_WARN_def)

lemma trace_GenMaterialXShaderCode:
  "trace (snd (GenMaterialXShaderCode ext doc sn nn gn w)) = trace w"
  by (simp add: GenMaterialXShaderCode_def trace_TF_WARN split: prod.splits option.splits)

lemma fst_GenMaterialXShaderCode:
  "fst (GenMaterialXShaderCode ext doc sn nn gn w) = fst (GenMaterialXShaderCode ext doc sn nn gn v)"
  by (simp add: GenMaterialXShaderCode_def split: prod.splits option.splits)

lemma trace_CompileOslSource:
  "trace (snd (CompileOslSource ext name src sp w)) =
     trace w @ (if oslSupportEnabled ext then [RunCompiler name] else [])"
  by (simp add: CompileOslSource_def Let_def trace_TF_WARN logEvent_def)

lemma trace_GetShaderNodeFromAsset:
  "trace (snd (GetShaderNodeFromAsset ext path w)) = trace w"
  by (simp add: GetShaderNodeFromAsset_def Let_def split: option.splits prod.splits)

lemma GatherLoop_visited:
  "set (fst (snd acc)) \<subseteq> set (fst (snd (GatherLoop net work acc)))"
proof (induction net work acc rule: GatherLoop.induct)
  case (1 net acc)
  show ?case by simp
next
  case (2 net n work up vis warns)
  then show ?case by simp
next
  case (3 net c work up vis warns)
  then show ?case by (auto split: if_splits)
qed

lemma GatherNodeGraphNodes_visited:
  "set vis \<subseteq> set (fst (snd (GatherNodeGraphNodes net n up vis)))"
  using GatherLoop_visited [of "(up, vis, [])" net] by (simp add: GatherNodeGraphNodes_def)

lemma GenMaterialXShaderCode_trace:
  "GenMaterialXShaderCode ext doc sn nn gn w = (src, w') \<Longrightarrow> trace w' = trace w"
  using trace_GenMaterialXShaderCode [of ext doc sn nn gn w] by simp

lemma CompileOslSource_trace:
  "CompileOslSource ext name src sp w = (path, w') \<Longrightarrow>
   trace w' = trace w @ (if oslSupportEnabled ext then [RunCompiler name] else [])"
  using trace_CompileOslSource [of ext name src sp w] by simp

lemma GetShaderNodeFromAsset_trace:
  "GetShaderNodeFromAsset ext path w = (r, w') \<Longrightarrow> trace w' = trace w"
  using trace_GetShaderNodeFromAsset [of ext path w] by simp

text \<open>What one connection adds to the calls made and to the visited set.\<close>

lemma UpdateConnection_seen:
  assumes "UpdateConnection ext t doc sp cName c st = Inr st'"
    and "\<not> HasNode (rwNet st) (upstreamNodeName c) \<or> upstreamNodeName c \<in> set (visitedNames st)"
  shows "trace (rwWorld st') = trace (rwWorld st) \<and> visitedNames st' = visitedNames st"
  using assms
  by (auto simp: UpdateConnection_def Let_def trace_TF_WARN split: option.splits if_splits)

lemma UpdateConnection_new:
  assumes "UpdateConnection ext t doc sp cName c st = Inr st'"
    and "HasNode (rwNet st) (upstreamNodeName c)"
    and "upstreamNodeName c \<notin> set (visitedNames st)"
  shows "insert (upstreamNodeName c) (set (visitedNames st)) \<subseteq> set (visitedNames st')
         \<and> (\<exists>rest. trace (rwWorld st') = trace (rwWorld st) @ Generate (upstreamNodeName c) # rest
              \<and> (rest = [] \<or> rest = [Compile (upstreamNodeName c)]
                  \<or> (\<exists>name. rest = [Compile (upstreamNodeName c), RunCompiler name])))"
proof -
  let ?u = "upstreamNodeName c"
  obtain toRemove visited warns where g:
    "GatherNodeGraphNodes (rwNet st) ?u (nodesToRemove st) (List.insert ?u (visitedNames st))
       = (toRemove, visited, warns)"
    by (cases "GatherNodeGraphNodes (rwNet st) ?u (nodesToRemove st)
                 (List.insert ?u (visitedNames st))") auto
  have vis: "insert ?u (set (visitedNames st)) \<subseteq> set visited"
    using GatherNodeGraphNodes_visited [of "List.insert ?u (visitedNames st)" "rwNet st" ?u
            "nodesToRemove st"] g by simp
  show ?thesis
    using assms g vis
    by (auto simp: UpdateConnection_def Let_def logEvent_def
          split: prod.splits if_splits option.splits
          dest!: GenMaterialXShaderCode_trace CompileOslSource_trace
                 GetShaderNodeFromAsset_trace)
qed


lemma UpdateConnection_visited_mono:
  assumes "UpdateConnection ext t doc sp cName c st = Inr st'"
  shows "set (visitedNames st) \<subseteq> set (visitedNames st')"
proof (cases "\<not> HasNode (rwNet st) (upstreamNodeName c)
              \<or> upstreamNodeName c \<in> set (visitedNames st)")
  case True
  with UpdateConnection_seen [OF assms] show ?thesis by simp
next
  case False
  with UpdateConnection_new [OF assms] show ?thesis by simp
qed

lemma UpdateConnection_marks_visited:
  assumes "UpdateConnection ext t doc sp cName c st = Inr st'"
    and "HasNode (rwNet st) (upstreamNodeName c)"
  shows "upstreamNodeName c \<in> set (visitedNames st')"
proof (cases "upstreamNodeName c \<in> set (visitedNames st)")
  case True
  with UpdateConnection_seen [OF assms(1)] show ?thesis by simp
next
  case False
  with UpdateConnection_new [OF assms] show ?thesis by simp
qed

lemma foldE_invariant:
  assumes "foldE f xs s = Inr s'" and "P s"
    and "\<And>x a b. x \<in> set xs \<Longrightarrow> f x a = Inr b \<Longrightarrow> P a \<Longrightarrow> P b"
  shows "P s'"
  using assms
proof (induction xs arbitrary: s)
  case Nil
  then show ?case by simp
next
  case (Cons x xs)
  from Cons.prems(1) obtain s1 where s1: "f x s = Inr s1" and rest: "foldE f xs s1 = Inr s'"
    by (auto split: sum.splits)
  from Cons.prems(3) [of x s s1] s1 Cons.prems(2) have "P s1" by simp
  moreover have "P b" if "y \<in> set xs" and "f y a = Inr b" and "P a" for y a b
    using Cons.prems(3) [of y a b] that by simp
  ultimately show ?case
    using Cons.IH [OF rest] by blast
qed

lemma GenMaterialXShaderCode_source:
  "GenMaterialXShaderCode ext doc (GetName n @ ''Shader'') (GetName n)
     (GetName (GetParentPath n)) w = (src, w') \<Longrightarrow>
   src = generatedSource ext doc n \<and> trace w' = trace w"
  using fst_GenMaterialXShaderCode [of ext doc "GetName n @ ''Shader''" "GetName n"
      "GetName (GetParentPath n)" w]
    trace_GenMaterialXShaderCode [of ext doc "GetName n @ ''Shader''" "GetName n"
      "GetName (GetParentPath n)" w]
  by (simp add: generatedSource_def)

lemma UpdateConnection_seen_keep:
  assumes "UpdateConnection ext t doc sp cName c st = Inr st'"
    and "\<not> HasNode (rwNet st) (upstreamNodeName c) \<or> upstreamNodeName c \<in> set (visitedNames st)"
  shows "nodesToKeep st' = nodesToKeep st"
  using assms
  by (auto simp: UpdateConnection_def Let_def split: option.splits if_splits)

lemma UpdateConnection_first:
  assumes "UpdateConnection ext t doc sp cName c st = Inr st'"
    and "HasNode (rwNet st) (upstreamNodeName c)"
    and "upstreamNodeName c \<notin> set (visitedNames st)"
  shows "trace (rwWorld st') = trace (rwWorld st) @ callsFor ext (upstreamNodeName c) (generatedSource ext doc (upstreamNodeName c))
         \<and> nodesToKeep st' = List.insert (upstreamNodeName c) (nodesToKeep st)
         \<and> insert (upstreamNodeName c) (set (visitedNames st)) \<subseteq> set (visitedNames st')"
proof -
  let ?u = "upstreamNodeName c"
  obtain toRemove visited warns where g:
    "GatherNodeGraphNodes (rwNet st) ?u (nodesToRemove st) (List.insert ?u (visitedNames st))
       = (toRemove, visited, warns)"
    by (cases "GatherNodeGraphNodes (rwNet st) ?u (nodesToRemove st)
                 (List.insert ?u (visitedNames st))") auto
  have vis: "insert ?u (set (visitedNames st)) \<subseteq> set visited"
    using GatherNodeGraphNodes_visited [of "List.insert ?u (visitedNames st)" "rwNet st" ?u
            "nodesToRemove st"] g by simp
  show ?thesis
    using assms g vis
    by (auto simp: UpdateConnection_def Let_def logEvent_def callsFor_def
          split: prod.splits if_splits option.splits
          dest!: GenMaterialXShaderCode_source CompileOslSource_trace
                 GetShaderNodeFromAsset_trace)
qed


lemma count_list_callsFor:
  "count_list (callsFor ext u src) (Generate n) = (if n = u then 1 else 0)"
  "count_list (callsFor ext u src) (Compile n) = (if n = u \<and> src \<noteq> [] then 1 else 0)"
  by (simp_all add: callsFor_def)

lemma UpdateConnection_exactlyOnce:
  assumes run: "UpdateConnection ext t doc sp cName c st = Inr st'"
    and inv: "exactlyOnce ext doc w0 st"
  shows "exactlyOnce ext doc w0 st'"
proof (cases "\<not> HasNode (rwNet st) (upstreamNodeName c)
              \<or> upstreamNodeName c \<in> set (visitedNames st)")
  case True
  with UpdateConnection_seen [OF run] UpdateConnection_seen_keep [OF run] inv show ?thesis
    by (simp add: exactlyOnce_def)
next
  case False
  let ?u = "upstreamNodeName c"
  from False have has: "HasNode (rwNet st) ?u" and new: "?u \<notin> set (visitedNames st)"
    by simp_all
  from UpdateConnection_first [OF run has new]
  have tr: "trace (rwWorld st') = trace (rwWorld st) @ callsFor ext ?u (generatedSource ext doc ?u)"
    and keep: "nodesToKeep st' = List.insert ?u (nodesToKeep st)"
    and vis: "insert ?u (set (visitedNames st)) \<subseteq> set (visitedNames st')"
    by simp_all
  from inv new have fresh: "?u \<notin> set (nodesToKeep st)"
    by (auto simp: exactlyOnce_def)
  from inv vis have sub: "set (nodesToKeep st') \<subseteq> set (visitedNames st')"
    by (auto simp: exactlyOnce_def keep)
  show ?thesis
    unfolding exactlyOnce_def
  proof (intro conjI allI)
    show "set (nodesToKeep st') \<subseteq> set (visitedNames st')" by (rule sub)
  next
    fix n
    from inv have g: "count_list (trace (rwWorld st)) (Generate n) =
              count_list (trace w0) (Generate n) + (if n \<in> set (nodesToKeep st) then 1 else 0)"
      by (simp add: exactlyOnce_def)
    show "count_list (trace (rwWorld st')) (Generate n) =
            count_list (trace w0) (Generate n) + (if n \<in> set (nodesToKeep st') then 1 else 0)"
      using g fresh by (simp add: tr keep count_list_callsFor)
  next
    fix n
    from inv have k: "count_list (trace (rwWorld st)) (Compile n) =
              count_list (trace w0) (Compile n) +
              (if n \<in> set (nodesToKeep st) \<and> generatedSource ext doc n \<noteq> [] then 1 else 0)"
      by (simp add: exactlyOnce_def)
    show "count_list (trace (rwWorld st')) (Compile n) =
            count_list (trace w0) (Compile n) +
            (if n \<in> set (nodesToKeep st') \<and> generatedSource ext doc n \<noteq> [] then 1 else 0)"
      using k fresh by (auto simp: tr keep count_list_callsFor)
  qed
qed

lemma UpdateNetworkLoop_exactlyOnce:
  assumes "UpdateNetworkLoop ext t doc sp net w = Inr st"
  shows "exactlyOnce ext doc w st"
proof -
  let ?st0 = "\<lparr>rwNet = net, rwWorld = w, nodesToKeep = [], nodesToRemove = [],
               visitedNames = []\<rparr>"
  have init: "exactlyOnce ext doc w ?st0"
    by (simp add: exactlyOnce_def)
  have inner: "exactlyOnce ext doc w b"
    if "foldE (UpdateConnection ext t doc sp cName) cs a = Inr b" and "exactlyOnce ext doc w a"
    for cName cs a b
    using that(1) that(2)
    by (rule foldE_invariant) (rule UpdateConnection_exactlyOnce)
  show ?thesis
    using assms [unfolded UpdateNetworkLoop_def] init
    by (rule foldE_invariant) (rule inner)
qed

lemma UpdateConnection_keeps:
  assumes "UpdateConnection ext t doc sp cName c st = Inr st'"
  shows "set (nodesToKeep st) \<subseteq> set (nodesToKeep st')"
proof (cases "\<not> HasNode (rwNet st) (upstreamNodeName c)
              \<or> upstreamNodeName c \<in> set (visitedNames st)")
  case True
  with UpdateConnection_seen_keep [OF assms] show ?thesis by simp
next
  case False
  with UpdateConnection_first [OF assms] show ?thesis by auto
qed

lemma connections_keep:
  assumes "foldE (UpdateConnection ext t doc sp cName) cs a = Inr b"
    and "n \<in> set (nodesToKeep a)"
  shows "n \<in> set (nodesToKeep b)"
  using assms
proof (rule foldE_invariant [where P = "\<lambda>s. n \<in> set (nodesToKeep s)"])
  fix x a' b'
  assume "UpdateConnection ext t doc sp cName x a' = Inr b'" and "n \<in> set (nodesToKeep a')"
  then show "n \<in> set (nodesToKeep b')"
    using UpdateConnection_keeps by blast
qed

lemma first_connection_kept:
  assumes run: "UpdateNetworkLoop ext t doc sp net w = Inr st"
    and names: "GetNodeInputConnectionNames net t = cName # cNames"
    and conns: "GetNodeInputConnection net t cName = c # cs"
    and has: "HasNode net (upstreamNodeName c)"
  shows "upstreamNodeName c \<in> set (nodesToKeep st)"
proof -
  let ?st0 = "\<lparr>rwNet = net, rwWorld = w, nodesToKeep = [], nodesToRemove = [],
               visitedNames = []\<rparr>"
  let ?body = "\<lambda>cName st. foldE (UpdateConnection ext t doc sp cName)
                              (GetNodeInputConnection (rwNet st) t cName) st"
  from run names obtain s1 where
    one: "foldE (UpdateConnection ext t doc sp cName) (c # cs) ?st0 = Inr s1"
    and rest: "foldE ?body cNames s1 = Inr st"
    by (auto simp: UpdateNetworkLoop_def conns split: sum.splits)
  from one obtain s0 where
    head: "UpdateConnection ext t doc sp cName c ?st0 = Inr s0"
    and tail: "foldE (UpdateConnection ext t doc sp cName) cs s0 = Inr s1"
    by (auto split: sum.splits)
  from UpdateConnection_first [OF head] has
  have "upstreamNodeName c \<in> set (nodesToKeep s0)" by simp
  from connections_keep [OF tail this]
  have k1: "upstreamNodeName c \<in> set (nodesToKeep s1)" .
  from rest k1 show ?thesis
  proof (rule foldE_invariant [where P = "\<lambda>s. upstreamNodeName c \<in> set (nodesToKeep s)"])
    fix x a b
    assume "foldE (UpdateConnection ext t doc sp x) (GetNodeInputConnection (rwNet a) t x) a
              = Inr b" and "upstreamNodeName c \<in> set (nodesToKeep a)"
    then show "upstreamNodeName c \<in> set (nodesToKeep b)"
      by (rule connections_keep)
  qed
qed


text \<open>A node that only the terminal reads is visited when the loops come to the
  terminal's connection to it, and not before.\<close>

lemma GetNodeType_spliced:
  "GetNodeType (spliced tn cName c e net) k =
     (if k = upstreamNodeName c then sdrIdentifier e else GetNodeType net k)"
  by (simp add: spliced_def Let_def GetNodeType_DeleteAllParameters
        GetNodeType_DeleteAllInputConnections GetNodeType_DeleteNodeInputConnection
        GetNodeType_SetNodeInputConnection GetNodeType_SetNodeType)

lemma spliced_connections:
  "set (GetNodeInputConnection (spliced t cName c e net) x j)
     \<subseteq> set (GetNodeInputConnection net x j)
       \<union> (if x = t then {\<lparr>upstreamNodeName = upstreamNodeName c,
                            upstreamOutputName = upstreamOutputName c\<rparr>} else {})"
proof -
  let ?u = "upstreamNodeName c"
  have a: "set (GetNodeInputConnection (DeleteAllParameters (DeleteAllInputConnections n2 ?u) ?u)
                  x j) \<subseteq> set (GetNodeInputConnection n2 x j)" for n2
    using GetNodeInputConnection_DeleteAllInputConnections [of n2 ?u x j]
    by (simp add: GetNodeInputConnection_DeleteAllParameters)
  show ?thesis
    unfolding spliced_def Let_def
    by (rule subset_trans [OF a])
       (auto simp: GetNodeInputConnection_SetNodeInputConnection
          GetNodeInputConnection_DeleteNodeInputConnection GetNodeInputConnection_SetNodeType
          split: if_splits)
qed

lemma readOnlyByTerminal_spliced:
  assumes "readOnlyByTerminal net t a" and "upstreamNodeName c \<noteq> t"
  shows "readOnlyByTerminal (spliced t cName c e net) t a"
  unfolding readOnlyByTerminal_iff
proof (intro allI ballI)
  fix x i c'
  assume "c' \<in> set (GetNodeInputConnection (spliced t cName c e net) x i)"
  with spliced_connections [of t cName c e net x i]
  have "c' \<in> set (GetNodeInputConnection net x i)
        \<or> (x = t \<and> upstreamNodeName c' = upstreamNodeName c)"
    by (auto split: if_splits)
  with assms show "upstreamNodeName c' \<noteq> t \<and> (upstreamNodeName c' = a \<longrightarrow> x = t)"
    by (auto simp: readOnlyByTerminal_iff)
qed

lemma readOnlyByTerminal_rewired:
  assumes "readOnlyByTerminal net t a" and "u \<noteq> t"
  shows "readOnlyByTerminal
           (SetNodeInputConnection net t i [\<lparr>upstreamNodeName = u, upstreamOutputName = out\<rparr>]) t a"
  using assms
  by (auto simp: readOnlyByTerminal_iff GetNodeInputConnection_SetNodeInputConnection
        split: if_splits)

lemma AllInputConnections_member:
  assumes "c \<in> set (AllInputConnections net x)"
  shows "\<exists>i. c \<in> set (GetNodeInputConnection net x i)"
  using assms by (auto simp: AllInputConnections_def)

lemma GatherLoop_avoids:
  assumes "readOnlyByTerminal net t a"
    and "\<forall>c. Visit c \<in> set work \<longrightarrow> upstreamNodeName c \<noteq> t \<and> upstreamNodeName c \<noteq> a"
    and "a \<notin> set (fst (snd acc))"
  shows "a \<notin> set (fst (snd (GatherLoop net work acc)))"
  using assms
proof (induction net work acc rule: GatherLoop.induct)
  case (1 net acc)
  then show ?case by simp
next
  case (2 net n work up vis warns)
  then show ?case by simp
next
  case (3 net c work up vis warns)
  let ?u = "upstreamNodeName c"
  from 3(5) have u: "?u \<noteq> t" "?u \<noteq> a" by simp_all
  show ?case
  proof (cases "\<not> HasNode net ?u")
    case True
    with 3(1) [OF True 3(4)] 3(5,6) show ?thesis by simp
  next
    case has: False
    show ?thesis
    proof (cases "?u \<in> set vis")
      case True
      with 3(2) [OF has True 3(4)] 3(5,6) has show ?thesis by simp
    next
      case False
      have w: "\<forall>c'. Visit c' \<in> set (map Visit (AllInputConnections net ?u) @ Leave ?u # work)
                 \<longrightarrow> upstreamNodeName c' \<noteq> t \<and> upstreamNodeName c' \<noteq> a"
      proof (intro allI impI)
        fix c'
        assume "Visit c' \<in> set (map Visit (AllInputConnections net ?u) @ Leave ?u # work)"
        then have "c' \<in> set (AllInputConnections net ?u) \<or> Visit c' \<in> set work"
          by auto
        then show "upstreamNodeName c' \<noteq> t \<and> upstreamNodeName c' \<noteq> a"
        proof
          assume "c' \<in> set (AllInputConnections net ?u)"
          then obtain i where "c' \<in> set (GetNodeInputConnection net ?u i)"
            using AllInputConnections_member by blast
          with 3(4) u show ?thesis
            by (auto simp: readOnlyByTerminal_iff)
        next
          assume "Visit c' \<in> set work"
          with 3(5) show ?thesis by simp
        qed
      qed
      from 3(6) u have v: "a \<notin> set (fst (snd (up, List.insert ?u vis, warns)))"
        by simp
      from 3(3) [OF has False 3(4) w v] has False show ?thesis by simp
    qed
  qed
qed

lemma GatherNodeGraphNodes_avoids:
  assumes "readOnlyByTerminal net t a" and "u \<noteq> t" and "u \<noteq> a" and "a \<notin> set vis"
  shows "a \<notin> set (fst (snd (GatherNodeGraphNodes net u up (List.insert u vis))))"
  unfolding GatherNodeGraphNodes_def
proof (rule GatherLoop_avoids [OF assms(1)])
  show "\<forall>c. Visit c \<in> set (map Visit (AllInputConnections net u)) \<longrightarrow>
          upstreamNodeName c \<noteq> t \<and> upstreamNodeName c \<noteq> a"
  proof (intro allI impI)
    fix c
    assume "Visit c \<in> set (map Visit (AllInputConnections net u))"
    then have "c \<in> set (AllInputConnections net u)" by auto
    then obtain i where "c \<in> set (GetNodeInputConnection net u i)"
      using AllInputConnections_member by blast
    with assms(1,2,3) show "upstreamNodeName c \<noteq> t \<and> upstreamNodeName c \<noteq> a"
      by (auto simp: readOnlyByTerminal_iff)
  qed
  show "a \<notin> set (fst (snd (up, List.insert u vis, [])))"
    using assms(3,4) by simp
qed

lemma UpdateConnection_net:
  assumes "UpdateConnection ext t doc sp cName c st = Inr st'"
  shows "rwNet st' = rwNet st
         \<or> rwNet st' = SetNodeInputConnection (rwNet st) t cName
                          [\<lparr>upstreamNodeName = upstreamNodeName c,
                            upstreamOutputName = upstreamOutputName c\<rparr>]
         \<or> (\<exists>e. rwNet st' = spliced t cName c e (rwNet st))"
  using assms
  by (auto simp: UpdateConnection_def spliced_def Let_def
        split: prod.splits if_splits option.splits)

lemma UpdateConnection_gathered:
  assumes "UpdateConnection ext t doc sp cName c st = Inr st'"
    and "HasNode (rwNet st) (upstreamNodeName c)"
    and "upstreamNodeName c \<notin> set (visitedNames st)"
  shows "visitedNames st' =
           fst (snd (GatherNodeGraphNodes (rwNet st) (upstreamNodeName c) (nodesToRemove st)
                       (List.insert (upstreamNodeName c) (visitedNames st))))"
  using assms
  by (auto simp: UpdateConnection_def Let_def split: prod.splits if_splits option.splits)

lemma readOnlyByTerminal_UpdateConnection:
  assumes run: "UpdateConnection ext t doc sp cName c st = Inr st'"
    and ro: "readOnlyByTerminal (rwNet st) t a" and u: "upstreamNodeName c \<noteq> t"
  shows "readOnlyByTerminal (rwNet st') t a"
  using UpdateConnection_net [OF run] readOnlyByTerminal_spliced [OF ro u]
    readOnlyByTerminal_rewired [OF ro u] ro
  by auto

lemma GetNodeType_UpdateConnection:
  assumes run: "UpdateConnection ext t doc sp cName c st = Inr st'" and "a \<noteq> upstreamNodeName c"
  shows "GetNodeType (rwNet st') a = GetNodeType (rwNet st) a"
  using UpdateConnection_net [OF run] assms(2)
  by (auto simp: GetNodeType_spliced GetNodeType_SetNodeInputConnection)

lemma UpdateConnection_seen_types:
  assumes "UpdateConnection ext t doc sp cName c st = Inr st'"
    and "\<not> HasNode (rwNet st) (upstreamNodeName c) \<or> upstreamNodeName c \<in> set (visitedNames st)"
  shows "GetNodeType (rwNet st') a = GetNodeType (rwNet st) a"
  using assms
  by (auto simp: UpdateConnection_def Let_def GetNodeType_SetNodeInputConnection
        split: option.splits if_splits)

lemma UpdateConnection_keptWhenVisited:
  assumes run: "UpdateConnection ext t doc sp cName c st = Inr st'"
    and inv: "keptWhenVisited t a st" and u: "upstreamNodeName c \<noteq> t"
  shows "keptWhenVisited t a st'"
proof -
  let ?u = "upstreamNodeName c"
  from inv have ro: "readOnlyByTerminal (rwNet st) t a"
    by (simp add: keptWhenVisited_def)
  have ro': "readOnlyByTerminal (rwNet st') t a"
    by (rule readOnlyByTerminal_UpdateConnection [OF run ro u])
  show ?thesis
  proof (cases "\<not> HasNode (rwNet st) ?u \<or> ?u \<in> set (visitedNames st)")
    case True
    from UpdateConnection_seen [OF run True] UpdateConnection_seen_keep [OF run True]
    have same: "visitedNames st' = visitedNames st" "nodesToKeep st' = nodesToKeep st"
      by simp_all
    show ?thesis
    proof (cases "a \<in> set (visitedNames st)")
      case True
      with inv same ro' show ?thesis by (simp add: keptWhenVisited_def)
    next
      case False
      with inv have has: "HasNode (rwNet st) a" by (simp add: keptWhenVisited_def)
      from UpdateConnection_seen_types [OF run True, of a] has
      have "HasNode (rwNet st') a" by (simp add: HasNode_def)
      with False same ro' show ?thesis by (simp add: keptWhenVisited_def)
    qed
  next
    case False
    then have has: "HasNode (rwNet st) ?u" and new: "?u \<notin> set (visitedNames st)" by simp_all
    from UpdateConnection_first [OF run has new]
    have keep: "nodesToKeep st' = List.insert ?u (nodesToKeep st)"
      and vis: "insert ?u (set (visitedNames st)) \<subseteq> set (visitedNames st')"
      by simp_all
    show ?thesis
    proof (cases "a = ?u")
      case True
      with keep vis ro' show ?thesis by (auto simp: keptWhenVisited_def)
    next
      case au: False
      show ?thesis
      proof (cases "a \<in> set (visitedNames st)")
        case True
        with inv have "a \<in> set (nodesToKeep st)" by (simp add: keptWhenVisited_def)
        with True keep vis ro' show ?thesis by (auto simp: keptWhenVisited_def)
      next
        case False
        with inv have ha: "HasNode (rwNet st) a" by (simp add: keptWhenVisited_def)
        from au have ua: "?u \<noteq> a" by simp
        from GatherNodeGraphNodes_avoids [OF ro u ua False, of "nodesToRemove st"]
          UpdateConnection_gathered [OF run has new]
        have nv: "a \<notin> set (visitedNames st')" by simp
        from GetNodeType_UpdateConnection [OF run au] ha
        have "HasNode (rwNet st') a" by (simp add: HasNode_def)
        with nv ro' show ?thesis by (simp add: keptWhenVisited_def)
      qed
    qed
  qed
qed


lemma spliced_other_input:
  assumes "upstreamNodeName c \<noteq> t" and "cName \<noteq> j" and "j \<notin> snd ` set conflicts"
  shows "GetNodeInputConnection (spliced t cName c e net) t j = GetNodeInputConnection net t j"
proof -
  from assms(3) have "GetUpdatedInputToken cName \<noteq> j \<or> GetUpdatedInputToken cName = []"
    by (auto simp: GetUpdatedInputToken_cases conflicts_def)
  with assms(1,2) show ?thesis
    by (auto simp: spliced_def Let_def GetNodeInputConnection_DeleteAllParameters
          GetNodeInputConnection_DeleteAllInputConnections_other
          GetNodeInputConnection_SetNodeInputConnection
          GetNodeInputConnection_DeleteNodeInputConnection GetNodeInputConnection_SetNodeType)
qed

lemma UpdateConnection_other_input:
  assumes run: "UpdateConnection ext t doc sp cName c st = Inr st'"
    and "upstreamNodeName c \<noteq> t" and "cName \<noteq> j" and "j \<notin> snd ` set conflicts"
  shows "GetNodeInputConnection (rwNet st') t j = GetNodeInputConnection (rwNet st) t j"
  using UpdateConnection_net [OF run] spliced_other_input [OF assms(2,3,4)] assms(3)
  by (auto simp: GetNodeInputConnection_SetNodeInputConnection)

lemma connections_visit:
  assumes "foldE (UpdateConnection ext t doc sp cName) cs st = Inr st'"
    and "keptWhenVisited t a st"
    and "\<forall>c \<in> set cs. upstreamNodeName c \<noteq> t"
    and "a \<in> set (visitedNames st) \<or> (\<exists>c \<in> set cs. upstreamNodeName c = a)"
  shows "a \<in> set (visitedNames st') \<and> keptWhenVisited t a st'"
  using assms
proof (induction cs arbitrary: st)
  case Nil
  then show ?case by simp
next
  case (Cons c cs)
  from Cons.prems(1) obtain s1 where
    head: "UpdateConnection ext t doc sp cName c st = Inr s1"
    and rest: "foldE (UpdateConnection ext t doc sp cName) cs s1 = Inr st'"
    by (auto split: sum.splits)
  from Cons.prems(3) have u: "upstreamNodeName c \<noteq> t" and us: "\<forall>c \<in> set cs. upstreamNodeName c \<noteq> t"
    by simp_all
  have inv1: "keptWhenVisited t a s1"
    by (rule UpdateConnection_keptWhenVisited [OF head Cons.prems(2) u])
  have "a \<in> set (visitedNames s1) \<or> (\<exists>c \<in> set cs. upstreamNodeName c = a)"
  proof (cases "a \<in> set (visitedNames st)")
    case True
    with UpdateConnection_visited_mono [OF head] show ?thesis by auto
  next
    case False
    with Cons.prems(2) have has: "HasNode (rwNet st) a" by (simp add: keptWhenVisited_def)
    show ?thesis
    proof (cases "upstreamNodeName c = a")
      case True
      with UpdateConnection_marks_visited [OF head] has show ?thesis by simp
    next
      case False
      with \<open>a \<notin> set (visitedNames st)\<close> Cons.prems(4) show ?thesis by simp
    qed
  qed
  from Cons.IH [OF rest inv1 us this] show ?case .
qed

lemma connections_pending:
  assumes run: "foldE (UpdateConnection ext t doc sp cName) cs st = Inr st'"
    and inv: "keptWhenVisited t a st"
    and us: "\<forall>c \<in> set cs. upstreamNodeName c \<noteq> t"
    and other: "cName \<noteq> j" "j \<notin> snd ` set conflicts"
    and pend: "a \<in> set (visitedNames st)
               \<or> (\<exists>c \<in> set (GetNodeInputConnection (rwNet st) t j). upstreamNodeName c = a)"
  shows "keptWhenVisited t a st'
         \<and> (a \<in> set (visitedNames st')
             \<or> (\<exists>c \<in> set (GetNodeInputConnection (rwNet st') t j). upstreamNodeName c = a))"
  using run
proof (rule foldE_invariant
    [where P = "\<lambda>s. keptWhenVisited t a s
                 \<and> (a \<in> set (visitedNames s)
                     \<or> (\<exists>c \<in> set (GetNodeInputConnection (rwNet s) t j). upstreamNodeName c = a))"])
  show "keptWhenVisited t a st
        \<and> (a \<in> set (visitedNames st)
            \<or> (\<exists>c \<in> set (GetNodeInputConnection (rwNet st) t j). upstreamNodeName c = a))"
    using inv pend by simp
next
  fix c s s'
  assume c: "c \<in> set cs" and step: "UpdateConnection ext t doc sp cName c s = Inr s'"
    and p: "keptWhenVisited t a s
            \<and> (a \<in> set (visitedNames s)
                \<or> (\<exists>c \<in> set (GetNodeInputConnection (rwNet s) t j). upstreamNodeName c = a))"
  from c us have u: "upstreamNodeName c \<noteq> t" by simp
  from p have i: "keptWhenVisited t a s" by simp
  have "keptWhenVisited t a s'"
    by (rule UpdateConnection_keptWhenVisited [OF step i u])
  moreover have "a \<in> set (visitedNames s')
       \<or> (\<exists>c \<in> set (GetNodeInputConnection (rwNet s') t j). upstreamNodeName c = a)"
    using p UpdateConnection_visited_mono [OF step]
      UpdateConnection_other_input [OF step u other]
    by auto
  ultimately show "keptWhenVisited t a s'
        \<and> (a \<in> set (visitedNames s')
            \<or> (\<exists>c \<in> set (GetNodeInputConnection (rwNet s') t j). upstreamNodeName c = a))"
    by simp
qed

lemma readOnlyByTerminal_upstream:
  "readOnlyByTerminal net t a \<Longrightarrow> \<forall>c \<in> set (GetNodeInputConnection net x i). upstreamNodeName c \<noteq> t"
  by (simp add: readOnlyByTerminal_iff)

lemma names_visit:
  assumes "foldE (\<lambda>cName st. foldE (UpdateConnection ext t doc sp cName)
                                (GetNodeInputConnection (rwNet st) t cName) st) names st = Inr st'"
    and "keptWhenVisited t a st"
    and "j \<notin> snd ` set conflicts"
    and "a \<in> set (visitedNames st)
         \<or> (j \<in> set names
             \<and> (\<exists>c \<in> set (GetNodeInputConnection (rwNet st) t j). upstreamNodeName c = a))"
  shows "a \<in> set (visitedNames st') \<and> keptWhenVisited t a st'"
  using assms
proof (induction names arbitrary: st)
  case Nil
  then show ?case by simp
next
  case (Cons m names)
  let ?cs = "GetNodeInputConnection (rwNet st) t m"
  from Cons.prems(1) obtain s1 where
    head: "foldE (UpdateConnection ext t doc sp m) ?cs st = Inr s1"
    and rest: "foldE (\<lambda>cName st. foldE (UpdateConnection ext t doc sp cName)
                                (GetNodeInputConnection (rwNet st) t cName) st) names s1 = Inr st'"
    by (auto split: sum.splits)
  from Cons.prems(2) have ro: "readOnlyByTerminal (rwNet st) t a"
    by (simp add: keptWhenVisited_def)
  have us: "\<forall>c \<in> set ?cs. upstreamNodeName c \<noteq> t"
    by (rule readOnlyByTerminal_upstream [OF ro])
  have "keptWhenVisited t a s1
        \<and> (a \<in> set (visitedNames s1)
         \<or> (j \<in> set names
             \<and> (\<exists>c \<in> set (GetNodeInputConnection (rwNet s1) t j). upstreamNodeName c = a)))"
  proof (cases "a \<in> set (visitedNames st) \<or> m = j")
    case True
    with Cons.prems(4)
    have "a \<in> set (visitedNames st) \<or> (\<exists>c \<in> set ?cs. upstreamNodeName c = a)"
      by auto
    from connections_visit [OF head Cons.prems(2) us this] show ?thesis by simp
  next
    case False
    with Cons.prems(4) have jn: "j \<in> set names" and mj: "m \<noteq> j"
      and p: "a \<in> set (visitedNames st)
               \<or> (\<exists>c \<in> set (GetNodeInputConnection (rwNet st) t j). upstreamNodeName c = a)"
      by auto
    from connections_pending [OF head Cons.prems(2) us mj Cons.prems(3) p] jn
    show ?thesis by auto
  qed
  then have inv1: "keptWhenVisited t a s1"
    and p1: "a \<in> set (visitedNames s1)
         \<or> (j \<in> set names
             \<and> (\<exists>c \<in> set (GetNodeInputConnection (rwNet s1) t j). upstreamNodeName c = a))"
    by simp_all
  from Cons.IH [OF rest inv1 Cons.prems(3) p1] show ?case .
qed

lemma read_only_by_terminal_kept:
  assumes run: "UpdateNetworkLoop ext t doc sp net w = Inr st"
    and ro: "readOnlyByTerminal net t (upstreamNodeName c)"
    and c: "c \<in> set (GetNodeInputConnection net t j)"
    and j: "j \<notin> snd ` set conflicts"
    and has: "HasNode net (upstreamNodeName c)"
  shows "upstreamNodeName c \<in> set (nodesToKeep st)"
proof -
  let ?a = "upstreamNodeName c"
  let ?st0 = "\<lparr>rwNet = net, rwWorld = w, nodesToKeep = [], nodesToRemove = [],
               visitedNames = []\<rparr>"
  have inv: "keptWhenVisited t ?a ?st0"
    using ro has by (simp add: keptWhenVisited_def)
  have p: "?a \<in> set (visitedNames ?st0)
         \<or> (j \<in> set (GetNodeInputConnectionNames net t)
             \<and> (\<exists>c' \<in> set (GetNodeInputConnection (rwNet ?st0) t j). upstreamNodeName c' = ?a))"
    using c connection_name_listed [OF c] by auto
  from names_visit [OF run [unfolded UpdateNetworkLoop_def] inv j p]
  show ?thesis by (simp add: keptWhenVisited_def)
qed

lemma generatedSource_eq:
  "generatedSource ext doc n =
     fst (GenMaterialXShaderCode ext doc (GetName n @ ''Shader'') (GetName n)
            (GetName (GetParentPath n)) w)"
  unfolding generatedSource_def by (rule fst_GenMaterialXShaderCode)

text \<open>
  Claim C1, as amended. For every network and every upstream node, a run of the two loops
  of \<^verbatim>\<open>_UpdateNetwork\<close> that returns has called the generator for the node exactly once if
  the node is in \<^verbatim>\<open>nodesToKeep\<close> at the end and not at all otherwise, and has called
  \<^verbatim>\<open>_CompileOslSource\<close> for it exactly once if moreover generation gave source and not at
  all otherwise, however many input connections of the terminal reference the node. The
  node of the terminal's first connection, when the network holds it, is in
  \<^verbatim>\<open>nodesToKeep\<close> at the end. So is every node that the network holds and that only the
  terminal reads, in a network where no connection leads to the terminal, when the
  terminal reads it through an input whose name is not one of the new names of the rename
  table (\<^verbatim>\<open>emission_value\<close>, \<^verbatim>\<open>subsurface_value\<close>, \<^verbatim>\<open>input_normal\<close>): such a node is
  generated exactly once, through however many inputs the terminal reads it. A
  connection never takes a node out of \<^verbatim>\<open>nodesToKeep\<close> or out of
  the visited set. A connection to a node that the network holds and that is not visited
  makes exactly the calls for that node (the generator, then \<^verbatim>\<open>_CompileOslSource\<close> if there
  is source, which runs the compiler if OSL support is enabled) and puts the node into
  \<^verbatim>\<open>nodesToKeep\<close> and into the visited set. A connection to a node that the network holds
  and that is visited generates and compiles nothing: if the registry has an entry for
  the node's type that declares the requested output, the terminal's input is set to
  that output of the node and nothing else changes; if the entry does not declare it, one
  warning "Output ... not found on node ..." is issued and the network is left as it is;
  if the registry has no entry for the type, nothing changes and nothing is reported.
\<close>

theorem shared_upstream_node:
  "(\<forall>st n. UpdateNetworkLoop ext t mxDoc sp net w = Inr st \<longrightarrow>
        count_list (trace (rwWorld st)) (Generate n) =
          count_list (trace w) (Generate n) + (if n \<in> set (nodesToKeep st) then 1 else 0)
      \<and> count_list (trace (rwWorld st)) (Compile n) =
          count_list (trace w) (Compile n) +
          (if n \<in> set (nodesToKeep st)
              \<and> fst (GenMaterialXShaderCode ext mxDoc (GetName n @ ''Shader'') (GetName n)
                       (GetName (GetParentPath n)) w) \<noteq> []
           then 1 else 0))
   \<and> (\<forall>st first cNames c1 cs.
         UpdateNetworkLoop ext t mxDoc sp net w = Inr st
         \<and> GetNodeInputConnectionNames net t = first # cNames
         \<and> GetNodeInputConnection net t first = c1 # cs
         \<and> HasNode net (upstreamNodeName c1) \<longrightarrow>
         upstreamNodeName c1 \<in> set (nodesToKeep st))
   \<and> (\<forall>st input c2.
         UpdateNetworkLoop ext t mxDoc sp net w = Inr st
         \<and> c2 \<in> set (GetNodeInputConnection net t input)
         \<and> input \<notin> snd ` set conflicts
         \<and> HasNode net (upstreamNodeName c2)
         \<and> readOnlyByTerminal net t (upstreamNodeName c2) \<longrightarrow>
         upstreamNodeName c2 \<in> set (nodesToKeep st)
         \<and> count_list (trace (rwWorld st)) (Generate (upstreamNodeName c2)) =
             count_list (trace w) (Generate (upstreamNodeName c2)) + 1)
   \<and> (\<forall>st'. UpdateConnection ext t mxDoc sp cName c st = Inr st' \<longrightarrow>
         set (nodesToKeep st) \<subseteq> set (nodesToKeep st')
         \<and> set (visitedNames st) \<subseteq> set (visitedNames st'))
   \<and> (\<forall>st'. UpdateConnection ext t mxDoc sp cName c st = Inr st'
          \<and> HasNode (rwNet st) (upstreamNodeName c)
          \<and> upstreamNodeName c \<notin> set (visitedNames st) \<longrightarrow>
         trace (rwWorld st') =
           trace (rwWorld st) @
           callsFor ext (upstreamNodeName c)
             (fst (GenMaterialXShaderCode ext mxDoc (GetName (upstreamNodeName c) @ ''Shader'')
                     (GetName (upstreamNodeName c))
                     (GetName (GetParentPath (upstreamNodeName c))) (rwWorld st)))
         \<and> nodesToKeep st' = List.insert (upstreamNodeName c) (nodesToKeep st)
         \<and> upstreamNodeName c \<in> set (visitedNames st'))
   \<and> (HasNode (rwNet st) (upstreamNodeName c)
        \<and> upstreamNodeName c \<in> set (visitedNames st) \<longrightarrow>
        UpdateConnection ext t mxDoc sp cName c st =
          Inr (case GetShaderNodeByIdentifier (registry (rwWorld st))
                      (GetNodeType (rwNet st) (upstreamNodeName c)) [] of
                 None \<Rightarrow> st
               | Some sdrNode \<Rightarrow>
                   if GetOutput sdrNode (upstreamOutputName c)
                   then st\<lparr>rwNet := SetNodeInputConnection (rwNet st) t cName
                                       [\<lparr>upstreamNodeName = upstreamNodeName c,
                                         upstreamOutputName = upstreamOutputName c\<rparr>]\<rparr>
                   else st\<lparr>rwWorld := TF_WARN (''Output '' @ quoted (upstreamOutputName c) @
                                                '' not found on node '' @
                                                quoted (upstreamNodeName c) @ ''.'')
                                         (rwWorld st)\<rparr>))"
proof (intro conjI allI impI)
  fix st n
  assume run: "UpdateNetworkLoop ext t mxDoc sp net w = Inr st"
  from UpdateNetworkLoop_exactlyOnce [OF run]
  show "count_list (trace (rwWorld st)) (Generate n) =
          count_list (trace w) (Generate n) + (if n \<in> set (nodesToKeep st) then 1 else 0)"
    by (simp add: exactlyOnce_def)
  from UpdateNetworkLoop_exactlyOnce [OF run]
  show "count_list (trace (rwWorld st)) (Compile n) =
          count_list (trace w) (Compile n) +
          (if n \<in> set (nodesToKeep st)
              \<and> fst (GenMaterialXShaderCode ext mxDoc (GetName n @ ''Shader'') (GetName n)
                       (GetName (GetParentPath n)) w) \<noteq> []
           then 1 else 0)"
    by (simp add: exactlyOnce_def generatedSource_eq [of ext mxDoc n w])
next
  fix st first cNames c1 cs
  assume "UpdateNetworkLoop ext t mxDoc sp net w = Inr st
         \<and> GetNodeInputConnectionNames net t = first # cNames
         \<and> GetNodeInputConnection net t first = c1 # cs
         \<and> HasNode net (upstreamNodeName c1)"
  then show "upstreamNodeName c1 \<in> set (nodesToKeep st)"
    using first_connection_kept by blast
next
  fix st input c2
  assume a: "UpdateNetworkLoop ext t mxDoc sp net w = Inr st
         \<and> c2 \<in> set (GetNodeInputConnection net t input)
         \<and> input \<notin> snd ` set conflicts
         \<and> HasNode net (upstreamNodeName c2)
         \<and> readOnlyByTerminal net t (upstreamNodeName c2)"
  then have run: "UpdateNetworkLoop ext t mxDoc sp net w = Inr st" by simp
  from a show kept: "upstreamNodeName c2 \<in> set (nodesToKeep st)"
    using read_only_by_terminal_kept [of ext t mxDoc sp net w st c2 input] by simp
  from UpdateNetworkLoop_exactlyOnce [OF run] kept
  show "count_list (trace (rwWorld st)) (Generate (upstreamNodeName c2)) =
          count_list (trace w) (Generate (upstreamNodeName c2)) + 1"
    by (simp add: exactlyOnce_def)
next
  fix st'
  assume run: "UpdateConnection ext t mxDoc sp cName c st = Inr st'"
  show "set (nodesToKeep st) \<subseteq> set (nodesToKeep st')"
    by (rule UpdateConnection_keeps [OF run])
  show "set (visitedNames st) \<subseteq> set (visitedNames st')"
    by (rule UpdateConnection_visited_mono [OF run])
next
  fix st'
  assume a: "UpdateConnection ext t mxDoc sp cName c st = Inr st'
          \<and> HasNode (rwNet st) (upstreamNodeName c)
          \<and> upstreamNodeName c \<notin> set (visitedNames st)"
  then have run: "UpdateConnection ext t mxDoc sp cName c st = Inr st'"
    and has: "HasNode (rwNet st) (upstreamNodeName c)"
    and new: "upstreamNodeName c \<notin> set (visitedNames st)"
    by simp_all
  from UpdateConnection_first [OF run has new]
  show "trace (rwWorld st') =
           trace (rwWorld st) @
           callsFor ext (upstreamNodeName c)
             (fst (GenMaterialXShaderCode ext mxDoc (GetName (upstreamNodeName c) @ ''Shader'')
                     (GetName (upstreamNodeName c))
                     (GetName (GetParentPath (upstreamNodeName c))) (rwWorld st)))"
    and "nodesToKeep st' = List.insert (upstreamNodeName c) (nodesToKeep st)"
    and "upstreamNodeName c \<in> set (visitedNames st')"
    by (simp_all add: generatedSource_eq [of ext mxDoc "upstreamNodeName c" "rwWorld st"])
next
  assume "HasNode (rwNet st) (upstreamNodeName c)
        \<and> upstreamNodeName c \<in> set (visitedNames st)"
  then show "UpdateConnection ext t mxDoc sp cName c st =
          Inr (case GetShaderNodeByIdentifier (registry (rwWorld st))
                      (GetNodeType (rwNet st) (upstreamNodeName c)) [] of
                 None \<Rightarrow> st
               | Some sdrNode \<Rightarrow>
                   if GetOutput sdrNode (upstreamOutputName c)
                   then st\<lparr>rwNet := SetNodeInputConnection (rwNet st) t cName
                                       [\<lparr>upstreamNodeName = upstreamNodeName c,
                                         upstreamOutputName = upstreamOutputName c\<rparr>]\<rparr>
                   else st\<lparr>rwWorld := TF_WARN (''Output '' @ quoted (upstreamOutputName c) @
                                                '' not found on node '' @
                                                quoted (upstreamNodeName c) @ ''.'')
                                         (rwWorld st)\<rparr>)"
    by (simp add: UpdateConnection_def Let_def split: option.splits)
qed

theorem shared_upstream_node_witness:
  "UpdateNetworkLoop exampleExt ''/Mat/Surf'' exampleDoc [''/usr/lib/mtlx''] twoInputNet
     exampleWorld = Inr twoInputEnd
   \<and> GetNodeInputConnectionNames twoInputNet ''/Mat/Surf'' = [''base_color'', ''specular_color'']
   \<and> GetNodeInputConnection twoInputNet ''/Mat/Surf'' ''base_color'' = [connA]
   \<and> GetNodeInputConnection twoInputNet ''/Mat/Surf'' ''specular_color'' = [connA]
   \<and> HasNode twoInputNet ''/Mat/NG/A''
   \<and> ''/Mat/NG/A'' \<in> set (nodesToKeep twoInputEnd)
   \<and> count_list (trace (rwWorld twoInputEnd)) (Generate ''/Mat/NG/A'') = 1
   \<and> count_list (trace (rwWorld twoInputEnd)) (Compile ''/Mat/NG/A'') = 1
   \<and> UpdateConnection exampleExt ''/Mat/Surf'' exampleDoc [''/usr/lib/mtlx''] ''base_color''
        connA twoInputStart = Inr twoInputMid
   \<and> ''/Mat/NG/A'' \<notin> set (visitedNames twoInputStart)
   \<and> trace (rwWorld twoInputMid) =
        [Generate ''/Mat/NG/A'', Compile ''/Mat/NG/A'', RunCompiler ''AShader'']
   \<and> nodesToKeep twoInputMid = [''/Mat/NG/A'']
   \<and> ''/Mat/NG/A'' \<in> set (visitedNames twoInputMid)
   \<and> HasNode (rwNet twoInputMid) ''/Mat/NG/A''
   \<and> UpdateConnection exampleExt ''/Mat/Surf'' exampleDoc [''/usr/lib/mtlx'']
        ''specular_color'' connA twoInputMid =
        Inr (twoInputMid\<lparr>rwNet := SetNodeInputConnection twoInputNetAfter ''/Mat/Surf''
                                      ''specular_color'' [connA]\<rparr>)
   \<and> UpdateConnection exampleExt ''/Mat/Surf'' exampleDoc [''/usr/lib/mtlx'']
        ''specular_color'' (connA\<lparr>upstreamOutputName := ''alpha''\<rparr>) twoInputMid =
        Inr (twoInputMid\<lparr>rwWorld := TF_WARN (''Output '' @ quoted ''alpha'' @
                                               '' not found on node '' @
                                               quoted ''/Mat/NG/A'' @ ''.'') worldAfterA\<rparr>)
   \<and> UpdateConnection exampleExt ''/Mat/Surf'' exampleDoc [''/usr/lib/mtlx'']
        ''specular_color'' connA emptyRegistryMid = Inr emptyRegistryMid
   \<and> UpdateNetworkLoop exampleExt ''/Mat/Surf'' exampleDoc [''/usr/lib/mtlx''] separateNet
        exampleWorld = Inr separateEnd
   \<and> GetNodeInputConnection separateNet ''/Mat/Surf'' ''specular_color'' = [connA]
   \<and> ''specular_color'' \<notin> snd ` set conflicts
   \<and> HasNode separateNet ''/Mat/NG/A''
   \<and> readOnlyByTerminal separateNet ''/Mat/Surf'' ''/Mat/NG/A''
   \<and> ''/Mat/NG/A'' \<in> set (nodesToKeep separateEnd)
   \<and> count_list (trace (rwWorld separateEnd)) (Generate ''/Mat/NG/A'') = 1"
proof -
  have run: "UpdateNetworkLoop exampleExt ''/Mat/Surf'' exampleDoc [''/usr/lib/mtlx''] twoInputNet
               exampleWorld = Inr twoInputEnd"
    by code_simp
  have first: "UpdateConnection exampleExt ''/Mat/Surf'' exampleDoc [''/usr/lib/mtlx'']
                 ''base_color'' connA twoInputStart = Inr twoInputMid"
    by code_simp
  have input: "GetNodeInputConnectionNames twoInputNet ''/Mat/Surf''
                 = ''base_color'' # [''specular_color'']"
    "GetNodeInputConnection twoInputNet ''/Mat/Surf'' ''base_color'' = connA # []"
    "GetNodeInputConnection twoInputNet ''/Mat/Surf'' ''specular_color'' = [connA]"
    "HasNode twoInputNet (upstreamNodeName connA)"
    by code_simp+
  have facts: "count_list (trace exampleWorld) (Generate ''/Mat/NG/A'') = 0"
    "count_list (trace exampleWorld) (Compile ''/Mat/NG/A'') = 0"
    "fst (GenMaterialXShaderCode exampleExt exampleDoc (GetName ''/Mat/NG/A'' @ ''Shader'')
            (GetName ''/Mat/NG/A'') (GetName (GetParentPath ''/Mat/NG/A'')) exampleWorld) \<noteq> []"
    "HasNode (rwNet twoInputStart) (upstreamNodeName connA)"
    "upstreamNodeName connA \<notin> set (visitedNames twoInputStart)"
    "HasNode (rwNet twoInputMid) (upstreamNodeName connA)"
    "upstreamNodeName connA \<in> set (visitedNames twoInputMid)"
    "HasNode (rwNet twoInputMid) (upstreamNodeName (connA\<lparr>upstreamOutputName := ''alpha''\<rparr>))"
    "upstreamNodeName (connA\<lparr>upstreamOutputName := ''alpha''\<rparr>) \<in> set (visitedNames twoInputMid)"
    "HasNode (rwNet emptyRegistryMid) (upstreamNodeName connA)"
    "upstreamNodeName connA \<in> set (visitedNames emptyRegistryMid)"
    by code_simp+
  have evals: "upstreamNodeName connA = ''/Mat/NG/A''" "upstreamOutputName connA = ''out''"
    "rwNet twoInputMid = twoInputNetAfter" "rwWorld twoInputMid = worldAfterA"
    "trace (rwWorld twoInputStart) = []"
    "callsFor exampleExt ''/Mat/NG/A''
       (fst (GenMaterialXShaderCode exampleExt exampleDoc (GetName ''/Mat/NG/A'' @ ''Shader'')
               (GetName ''/Mat/NG/A'') (GetName (GetParentPath ''/Mat/NG/A''))
               (rwWorld twoInputStart)))
     = [Generate ''/Mat/NG/A'', Compile ''/Mat/NG/A'', RunCompiler ''AShader'']"
    "nodesToKeep twoInputStart = []"
    "GetShaderNodeByIdentifier (registry worldAfterA)
        (GetNodeType twoInputNetAfter ''/Mat/NG/A'') [] = Some compiledA"
    "GetOutput compiledA ''out''" "\<not> GetOutput compiledA ''alpha''"
    "GetShaderNodeByIdentifier (registry (rwWorld emptyRegistryMid))
        (GetNodeType (rwNet emptyRegistryMid) ''/Mat/NG/A'') [] = None"
    by code_simp+
  note whole = shared_upstream_node [where ext = exampleExt and t = "''/Mat/Surf''"
      and mxDoc = exampleDoc and sp = "[''/usr/lib/mtlx'']" and net = twoInputNet
      and w = exampleWorld and cName = "''base_color''" and c = connA and st = twoInputStart]
  note declared = shared_upstream_node [where ext = exampleExt and t = "''/Mat/Surf''"
      and mxDoc = exampleDoc and sp = "[''/usr/lib/mtlx'']" and net = twoInputNet
      and w = exampleWorld and cName = "''specular_color''" and c = connA
      and st = twoInputMid]
  note undeclared = shared_upstream_node [where ext = exampleExt and t = "''/Mat/Surf''"
      and mxDoc = exampleDoc and sp = "[''/usr/lib/mtlx'']" and net = twoInputNet
      and w = exampleWorld and cName = "''specular_color''"
      and c = "connA\<lparr>upstreamOutputName := ''alpha''\<rparr>" and st = twoInputMid]
  note unregistered = shared_upstream_node [where ext = exampleExt and t = "''/Mat/Surf''"
      and mxDoc = exampleDoc and sp = "[''/usr/lib/mtlx'']" and net = twoInputNet
      and w = exampleWorld and cName = "''specular_color''" and c = connA
      and st = emptyRegistryMid]
  from whole [THEN conjunct2, THEN conjunct1, rule_format, of twoInputEnd] run input
  have kept: "''/Mat/NG/A'' \<in> set (nodesToKeep twoInputEnd)"
    by (simp add: evals)
  from whole [THEN conjunct1, rule_format, OF run, of "''/Mat/NG/A''"] kept facts(1-3)
  have counts: "count_list (trace (rwWorld twoInputEnd)) (Generate ''/Mat/NG/A'') = 1"
    "count_list (trace (rwWorld twoInputEnd)) (Compile ''/Mat/NG/A'') = 1"
    by simp_all
  from whole [THEN conjunct2, THEN conjunct2, THEN conjunct2, THEN conjunct2, THEN conjunct1,
      rule_format, of twoInputMid] first facts(4,5)
  have step: "trace (rwWorld twoInputMid) =
        [Generate ''/Mat/NG/A'', Compile ''/Mat/NG/A'', RunCompiler ''AShader'']"
    "nodesToKeep twoInputMid = [''/Mat/NG/A'']"
    "''/Mat/NG/A'' \<in> set (visitedNames twoInputMid)"
    by (simp_all add: evals)
  from declared [THEN conjunct2, THEN conjunct2, THEN conjunct2, THEN conjunct2, THEN conjunct2] facts(6,7)
  have second: "UpdateConnection exampleExt ''/Mat/Surf'' exampleDoc [''/usr/lib/mtlx'']
        ''specular_color'' connA twoInputMid =
        Inr (twoInputMid\<lparr>rwNet := SetNodeInputConnection twoInputNetAfter ''/Mat/Surf''
                                      ''specular_color'' [connA]\<rparr>)"
    by (simp add: evals connA_def)
  from undeclared [THEN conjunct2, THEN conjunct2, THEN conjunct2, THEN conjunct2, THEN conjunct2] facts(8,9)
  have third: "UpdateConnection exampleExt ''/Mat/Surf'' exampleDoc [''/usr/lib/mtlx'']
        ''specular_color'' (connA\<lparr>upstreamOutputName := ''alpha''\<rparr>) twoInputMid =
        Inr (twoInputMid\<lparr>rwWorld := TF_WARN (''Output '' @ quoted ''alpha'' @
                                               '' not found on node '' @
                                               quoted ''/Mat/NG/A'' @ ''.'') worldAfterA\<rparr>)"
    by (simp add: evals)
  from unregistered [THEN conjunct2, THEN conjunct2, THEN conjunct2, THEN conjunct2, THEN conjunct2]
    facts(10,11)
  have fourth: "UpdateConnection exampleExt ''/Mat/Surf'' exampleDoc [''/usr/lib/mtlx'']
        ''specular_color'' connA emptyRegistryMid = Inr emptyRegistryMid"
    by (simp add: evals)
  have sep: "UpdateNetworkLoop exampleExt ''/Mat/Surf'' exampleDoc [''/usr/lib/mtlx'']
               separateNet exampleWorld = Inr separateEnd"
    "connA \<in> set (GetNodeInputConnection separateNet ''/Mat/Surf'' ''specular_color'')"
    "''specular_color'' \<notin> snd ` set conflicts"
    "HasNode separateNet (upstreamNodeName connA)"
    "readOnlyByTerminal separateNet ''/Mat/Surf'' (upstreamNodeName connA)"
    "GetNodeInputConnection separateNet ''/Mat/Surf'' ''specular_color'' = [connA]"
    by code_simp+
  note apart = shared_upstream_node [where ext = exampleExt and t = "''/Mat/Surf''"
      and mxDoc = exampleDoc and sp = "[''/usr/lib/mtlx'']" and net = separateNet
      and w = exampleWorld]
  from apart [THEN conjunct2, THEN conjunct2, THEN conjunct1, rule_format,
      of separateEnd connA "''specular_color''"] sep(1-5) facts(1)
  have fifth: "''/Mat/NG/A'' \<in> set (nodesToKeep separateEnd)"
    "count_list (trace (rwWorld separateEnd)) (Generate ''/Mat/NG/A'') = 1"
    by (simp_all add: evals)
  show ?thesis
    using run input kept counts first facts(5,6) step second third fourth sep fifth
    by (simp add: evals)
qed

text \<open>The claim as it was written has the node compiled exactly once. When the
  document does not hold the node, \<^verbatim>\<open>_GenMaterialXShaderCode\<close> returns no source (lines 180
  to 184): the node read through two terminal inputs is generated once and never
  compiled.\<close>

theorem shared_upstream_node_counterexample:
  "GetNodeInputConnection twoInputNet ''/Mat/Surf'' ''base_color'' = [connA]
   \<and> GetNodeInputConnection twoInputNet ''/Mat/Surf'' ''specular_color'' = [connA]
   \<and> FindGraphAndNodeByName docWithoutA ''NG'' ''A'' = (Some 0, None)
   \<and> map_option trace
        (resultWorld (UpdateNetwork exampleExt ''/Mat/Surf'' docWithoutA
                        [''/usr/lib/mtlx''] twoInputNet exampleWorld)) =
        Some [Generate ''/Mat/NG/A'']
   \<and> map_option warnings
        (resultWorld (UpdateNetwork exampleExt ''/Mat/Surf'' docWithoutA
                        [''/usr/lib/mtlx''] twoInputNet exampleWorld)) =
        Some [''Node '' @ quoted ''A'' @ '' not found in '' @ quoted ''NG'' @ '' nodeGraph.'']"
  by code_simp


subsection \<open>The texture node adaptor\<close>







lemma find_append_cases:
  "find P (xs @ ys) = (case find P xs of None \<Rightarrow> find P ys | Some x \<Rightarrow> Some x)"
  by (induction xs) auto




lemma ndName_setInputValue [simp]: "ndName (setInputValue n i v ty) = ndName n"
  by (simp add: setInputValue_def split: option.splits)

lemma ndName_setConnectedNode [simp]: "ndName (setConnectedNode n i target) = ndName n"
  by (simp add: setConnectedNode_def)

lemma ndName_setNodeDefString [simp]: "ndName (setNodeDefString n s) = ndName n"
  by (simp add: setNodeDefString_def)

lemma ndCategory_setInputValue [simp]: "ndCategory (setInputValue n i v ty) = ndCategory n"
  by (simp add: setInputValue_def split: option.splits)

lemma ndCategory_setConnectedNode [simp]: "ndCategory (setConnectedNode n i target) = ndCategory n"
  by (simp add: setConnectedNode_def)

lemma ndCategory_setNodeDefString [simp]: "ndCategory (setNodeDefString n s) = ndCategory n"
  by (simp add: setNodeDefString_def)












































subsection \<open>Two runs in sequence\<close>

lemma outside_GenMaterialXShaderCode:
  "sameOutside (snd (GenMaterialXShaderCode ext doc sn nn gn w)) w"
  by (simp add: GenMaterialXShaderCode_def sameOutside_def TF_WARN_def
        split: prod.splits option.splits)

lemma foldE_same:
  assumes "\<And>x a b. R a b \<Longrightarrow> rel_sum (=) R (f x a) (f x b)"
    and "R s t"
  shows "rel_sum (=) R (foldE f xs s) (foldE f xs t)"
  using assms(2)
proof (induction xs arbitrary: s t)
  case Nil
  then show ?case by simp
next
  case (Cons x xs)
  from assms(1) [OF Cons.prems, of x] show ?case
    by (cases "f x s"; cases "f x t") (simp_all add: Cons.IH)
qed

lemma update_map_value:
  "AList.update k (f v) (map (\<lambda>(k, v). (k, f v)) al) = map (\<lambda>(k, v). (k, f v)) (AList.update k v al)"
  by (induction al) auto

lemma delete_map_value:
  "AList.delete k (map (\<lambda>(k, v). (k, f v)) al) = map (\<lambda>(k, v). (k, f v)) (AList.delete k al)"
  by (induction al) auto

lemma map_of_map_value:
  "map_of (map (\<lambda>(k, v). (k, f v)) al) k = map_option f (map_of al k)"
  by (induction al) auto

lemma GetNode_blankTypes:
  "GetNode (blankTypes net) k = map_option (\<lambda>nd. nd\<lparr>nodeTypeId := []\<rparr>) (GetNode net k)"
  by (simp add: GetNode_def blankTypes_def map_of_map_value)

lemma blank_swap:
  "(nd\<lparr>inputConnections := a\<rparr>)\<lparr>nodeTypeId := ty\<rparr> = (nd\<lparr>nodeTypeId := ty\<rparr>)\<lparr>inputConnections := a\<rparr>"
  "(nd\<lparr>parameters := b\<rparr>)\<lparr>nodeTypeId := ty\<rparr> = (nd\<lparr>nodeTypeId := ty\<rparr>)\<lparr>parameters := b\<rparr>"
  by (rule hdnode.equality; simp)+

lemma GetOrCreateNode_blankTypes:
  "GetOrCreateNode (blankTypes net) k = (GetOrCreateNode net k)\<lparr>nodeTypeId := []\<rparr>"
  by (simp add: GetOrCreateNode_def GetNode_blankTypes emptyNode_def split: option.splits)

lemma blankTypes_PutNode:
  "blankTypes (PutNode net n nd) = PutNode (blankTypes net) n (nd\<lparr>nodeTypeId := []\<rparr>)"
  by (simp add: blankTypes_def PutNode_def update_map_value)

lemma blankTypes_SetNodeType:
  "blankTypes (SetNodeType net n ty) = SetNodeType (blankTypes net) n []"
  by (simp add: SetNodeType_def blankTypes_PutNode GetOrCreateNode_blankTypes)

lemma blankTypes_SetNodeInputConnection:
  "blankTypes (SetNodeInputConnection net n i cs) = SetNodeInputConnection (blankTypes net) n i cs"
  by (simp add: SetNodeInputConnection_def Let_def blankTypes_PutNode GetOrCreateNode_blankTypes blank_swap)

lemma blankTypes_DeleteNodeInputConnection:
  "blankTypes (DeleteNodeInputConnection net n i) = DeleteNodeInputConnection (blankTypes net) n i"
  by (simp add: DeleteNodeInputConnection_def blankTypes_PutNode GetNode_blankTypes blank_swap
        split: option.splits)

lemma blankTypes_SetNodeParameterValue:
  "blankTypes (SetNodeParameterValue net n p v) = SetNodeParameterValue (blankTypes net) n p v"
  by (simp add: SetNodeParameterValue_def Let_def blankTypes_PutNode GetOrCreateNode_blankTypes blank_swap)

lemma blankTypes_DeleteNodeParameter:
  "blankTypes (DeleteNodeParameter net n p) = DeleteNodeParameter (blankTypes net) n p"
  by (simp add: DeleteNodeParameter_def blankTypes_PutNode GetNode_blankTypes blank_swap
        split: option.splits)

lemma blankTypes_DeleteNode:
  "blankTypes (DeleteNode net n) = DeleteNode (blankTypes net) n"
  by (simp add: DeleteNode_def blankTypes_def delete_map_value)

lemma blankTypes_SetTerminalConnection:
  "blankTypes (SetTerminalConnection net t c) = SetTerminalConnection (blankTypes net) t c"
  by (simp add: SetTerminalConnection_def blankTypes_def)

lemma reads_blankTypes:
  "GetNodeInputConnectionNames (blankTypes net) n = GetNodeInputConnectionNames net n"
  "GetNodeInputConnection (blankTypes net) n i = GetNodeInputConnection net n i"
  "GetAuthoredNodeParameterNames (blankTypes net) n = GetAuthoredNodeParameterNames net n"
  "GetNodeParameterValue (blankTypes net) n p = GetNodeParameterValue net n p"
  by (simp_all add: GetNodeInputConnectionNames_def GetNodeInputConnection_def
        GetAuthoredNodeParameterNames_def GetNodeParameterValue_def GetNode_blankTypes
        split: option.splits)

lemma GetNodeInputConnection_blankTypes:
  "GetNodeInputConnection (blankTypes net) n = GetNodeInputConnection net n"
  by (rule ext) (simp add: reads_blankTypes)

lemma reads_blankTypes_net:
  "GetTerminalConnection (blankTypes net) t = GetTerminalConnection net t"
  "GetMaterialPrimPath (blankTypes net) = GetMaterialPrimPath net"
  "AllInputConnections (blankTypes net) n = AllInputConnections net n"
  by (simp_all add: GetTerminalConnection_def GetMaterialPrimPath_def AllInputConnections_def
        reads_blankTypes GetNodeInputConnection_blankTypes)
     (simp_all add: blankTypes_def)

lemma same_reads:
  assumes "blankTypes a = blankTypes b"
  shows "GetNodeInputConnectionNames a n = GetNodeInputConnectionNames b n"
    and "GetNodeInputConnection a n i = GetNodeInputConnection b n i"
    and "GetAuthoredNodeParameterNames a n = GetAuthoredNodeParameterNames b n"
    and "GetNodeParameterValue a n p = GetNodeParameterValue b n p"
    and "GetTerminalConnection a t = GetTerminalConnection b t"
    and "GetMaterialPrimPath a = GetMaterialPrimPath b"
    and "AllInputConnections a n = AllInputConnections b n"
  using reads_blankTypes [of a] reads_blankTypes [of b]
    reads_blankTypes_net [of a] reads_blankTypes_net [of b] assms by simp_all

lemma fold_blankTypes:
  assumes "\<And>x net. blankTypes (g x net) = g x (blankTypes net)"
  shows "blankTypes (fold g xs net) = fold g xs (blankTypes net)"
  using assms by (induction xs arbitrary: net) simp_all

lemma blankTypes_DeleteAllInputConnections:
  "blankTypes (DeleteAllInputConnections net n) = DeleteAllInputConnections (blankTypes net) n"
  by (simp add: DeleteAllInputConnections_def reads_blankTypes fold_blankTypes
        blankTypes_DeleteNodeInputConnection)

lemma blankTypes_DeleteAllParameters:
  "blankTypes (DeleteAllParameters net n) = DeleteAllParameters (blankTypes net) n"
  by (simp add: DeleteAllParameters_def reads_blankTypes fold_blankTypes
        blankTypes_DeleteNodeParameter)

lemma blankTypes_RemoveNodes:
  "blankTypes (RemoveNodes r k net) = RemoveNodes r k (blankTypes net)"
  unfolding RemoveNodes_def
  by (rule fold_blankTypes) (simp add: blankTypes_DeleteNode)

lemma blankTypes_RenameParameter:
  "blankTypes (RenameParameter t p net) = RenameParameter t p (blankTypes net)"
  by (simp add: RenameParameter_def Let_def blankTypes_DeleteNodeParameter
        blankTypes_SetNodeParameterValue reads_blankTypes)

lemma blankTypes_ConnectAdapterOutput:
  "blankTypes (ConnectAdapterOutput pxr ad t pn i net) = ConnectAdapterOutput pxr ad t pn i (blankTypes net)"
  by (simp add: ConnectAdapterOutput_def Let_def blankTypes_SetNodeInputConnection)

lemma GetNodeType_DeleteNode:
  "GetNodeType (DeleteNode net n) m = (if m = n then [] else GetNodeType net m)"
  by (simp add: GetNodeType_def DeleteNode_def GetNode_def delete_conv')

lemma GatherLoop_same:
  assumes "\<And>k. HasNode a k = HasNode b k"
    and "\<And>k. AllInputConnections a k = AllInputConnections b k"
  shows "GatherLoop a work acc = GatherLoop b work acc"
  using assms
  by (induction a work acc rule: GatherLoop.induct) simp_all

lemma GatherNodeGraphNodes_same:
  assumes "\<And>k. HasNode a k = HasNode b k" and "blankTypes a = blankTypes b"
  shows "GatherNodeGraphNodes a n up vis = GatherNodeGraphNodes b n up vis"
  unfolding GatherNodeGraphNodes_def
  using GatherLoop_same [of a b, OF assms(1) same_reads(7) [OF assms(2)]]
    same_reads(7) [OF assms(2)]
  by simp

lemma isArtifact_mono: "isArtifact ext (Suc n) x \<Longrightarrow> isArtifact ext n x"
  by (auto simp: isArtifact_def intro: Suc_leD)

lemma isArtifact_le: "N \<le> M \<Longrightarrow> isArtifact ext M x \<Longrightarrow> isArtifact ext N x"
  by (auto simp: isArtifact_def intro: order_trans)

lemma isArtifact_artifactId: "N \<le> n \<Longrightarrow> isArtifact ext N (artifactId ext n name)"
  by (auto simp: isArtifact_def)

lemma artifactId_next:
  assumes "uniformNames ext"
  shows "\<not> isArtifact ext (Suc n) (artifactId ext n name)"
proof
  assume "isArtifact ext (Suc n) (artifactId ext n name)"
  then obtain m q where le: "Suc n \<le> m" and eq: "artifactId ext n name = artifactId ext m q"
    by (auto simp: isArtifact_def)
  from assms eq have "n = m"
    unfolding uniformNames_def by blast
  with le show False by simp
qed

lemma worldInv_frame:
  assumes "worldInv ext N w0 w" and "registry v = registry w" and "nCalls v = nCalls w"
  shows "worldInv ext N w0 v"
  using assms by (simp add: worldInv_def)

lemma worldInv_sameOutside:
  "sameOutside w v \<Longrightarrow> worldInv ext N w0 w \<Longrightarrow> worldInv ext N w0 v"
  by (simp add: sameOutside_def worldInv_def)

lemma worldInv_warn [simp]:
  "worldInv ext N w0 (TF_WARN m w) = worldInv ext N w0 w"
  "worldInv ext N w0 (w\<lparr>warnings := xs\<rparr>) = worldInv ext N w0 w"
  "nCalls (TF_WARN m w) = nCalls w" "registry (TF_WARN m w) = registry w"
  by (simp_all add: worldInv_def TF_WARN_def)

lemma CompileOslSource_result:
  "fst (CompileOslSource ext name src sp w) =
     (if oslSupportEnabled ext \<and> fopenOk ext (compiledPath ext (nCalls w) name)
      then compiledPath ext (nCalls w) name else [])"
  "registry (snd (CompileOslSource ext name src sp w)) = registry w"
  "nCalls (snd (CompileOslSource ext name src sp w)) =
     (if oslSupportEnabled ext then Suc (nCalls w) else nCalls w)"
  "fst (CompileOslSource ext name src sp w) \<noteq> [] \<Longrightarrow>
     map_of (files (snd (CompileOslSource ext name src sp w)))
       (compiledPath ext (nCalls w) name) = Some (compiledContent ext src sp)"
  by (auto simp: CompileOslSource_def compiledPath_def compiledContent_def Let_def TF_WARN_def
        logEvent_def update_conv' split: if_splits)

lemma GetShaderNodeFromAsset_fresh:
  assumes "\<forall>e \<in> set (registry w). sdrIdentifier e \<noteq> artifactId ext n name"
    and "map_of (files w) (compiledPath ext n name) = Some (compiledContent ext src sp)"
  shows "GetShaderNodeFromAsset ext (compiledPath ext n name) w =
           (registered ext n name src sp,
            w\<lparr>registry := registry w @ (case registered ext n name src sp of
                                           None \<Rightarrow> [] | Some e \<Rightarrow> [e])\<rparr>)"
proof -
  have "GetShaderNodeByIdentifierAndType (registry w) (artifactId ext n name) ''OSL'' = None"
    using assms(1) by (auto simp: GetShaderNodeByIdentifierAndType_def find_None_iff)
  then show ?thesis
    using assms(2)
    by (simp add: GetShaderNodeFromAsset_def Let_def registered_def artifactId_def
          compiledPath_def split: option.splits prod.splits)
qed

lemma compile_and_register:
  assumes env: "uniformNames ext" and inv: "worldInv ext N w0 w"
    and c: "CompileOslSource ext name src sp w = (path, w3)" and ne: "path \<noteq> []"
  shows "path = compiledPath ext (nCalls w) name"
    and "GetShaderNodeFromAsset ext path w3 =
           (registered ext (nCalls w) name src sp,
            w3\<lparr>registry := registry w @ (case registered ext (nCalls w) name src sp of
                                           None \<Rightarrow> [] | Some e \<Rightarrow> [e])\<rparr>)"
    and "nCalls w3 = Suc (nCalls w)"
proof -
  from CompileOslSource_result [of ext name src sp w] c ne
  show p: "path = compiledPath ext (nCalls w) name"
    and n3: "nCalls w3 = Suc (nCalls w)"
    by (auto split: if_splits)
  from CompileOslSource_result [of ext name src sp w] c ne
  have r3: "registry w3 = registry w"
    and f3: "map_of (files w3) (compiledPath ext (nCalls w) name) = Some (compiledContent ext src sp)"
    by (auto split: if_splits)
  have fresh: "\<forall>e \<in> set (registry w3). sdrIdentifier e \<noteq> artifactId ext (nCalls w) name"
    using inv isArtifact_artifactId [of "nCalls w" "nCalls w" ext name]
    by (auto simp: worldInv_def r3)
  from GetShaderNodeFromAsset_fresh [OF fresh f3]
  show "GetShaderNodeFromAsset ext path w3 =
           (registered ext (nCalls w) name src sp,
            w3\<lparr>registry := registry w @ (case registered ext (nCalls w) name src sp of
                                           None \<Rightarrow> [] | Some e \<Rightarrow> [e])\<rparr>)"
    by (simp add: p r3)
qed

lemma registered_identifier:
  "registered ext n name src sp = Some e \<Longrightarrow> sdrIdentifier e = artifactId ext n name"
  by (auto simp: registered_def split: option.splits)

lemma worldInv_register:
  assumes env: "uniformNames ext" and inv: "worldInv ext N w0 w"
    and reg: "registry v = registry w @ (case registered ext (nCalls w) name src sp of
                                           None \<Rightarrow> [] | Some e \<Rightarrow> [e])"
    and n: "nCalls v = Suc (nCalls w)"
  shows "worldInv ext N w0 v"
proof -
  from inv have le: "N \<le> nCalls w" by (simp add: worldInv_def)
  show ?thesis
  proof (cases "registered ext (nCalls w) name src sp")
    case None
    with inv reg n show ?thesis
      by (auto simp: worldInv_def dest: isArtifact_mono)
  next
    case (Some e)
    then have ide: "sdrIdentifier e = artifactId ext (nCalls w) name"
      by (rule registered_identifier)
    have art: "isArtifact ext N (sdrIdentifier e)"
      unfolding ide by (rule isArtifact_artifactId [OF le])
    have nxt: "\<not> isArtifact ext (Suc (nCalls w)) (sdrIdentifier e)"
      unfolding ide by (rule artifactId_next [OF env])
    from inv reg n Some art nxt show ?thesis
      by (auto simp: worldInv_def olderEntries_def dest: isArtifact_mono)
  qed
qed

lemma worldInv_CompileOslSource:
  assumes "worldInv ext N w0 w"
  shows "worldInv ext N w0 (snd (CompileOslSource ext name src sp w))"
  using assms CompileOslSource_result(2,3) [of ext name src sp w]
  by (auto simp: worldInv_def dest: isArtifact_mono)

lemma UpdateConnection_new_cases:
  assumes env: "uniformNames ext" and inv: "worldInv ext N w0 (rwWorld s)"
    and has: "HasNode (rwNet s) (upstreamNodeName c)"
    and new: "upstreamNodeName c \<notin> set (visitedNames s)"
    and g: "GatherNodeGraphNodes (rwNet s) (upstreamNodeName c) (nodesToRemove s)
              (List.insert (upstreamNodeName c) (visitedNames s)) = (toRemove, visited, warns)"
  shows "\<exists>w'. worldInv ext N w0 w' \<and>
     UpdateConnection ext tn doc sp cName c s =
       (if generatedSource ext doc (upstreamNodeName c) = []
           \<or> \<not> usable ext (nCalls (rwWorld s)) (GetName (upstreamNodeName c) @ ''Shader'')
        then Inr (s\<lparr>visitedNames := visited, nodesToRemove := toRemove,
                    nodesToKeep := List.insert (upstreamNodeName c) (nodesToKeep s),
                    rwWorld := w'\<rparr>)
        else
          (case registered ext (nCalls (rwWorld s)) (GetName (upstreamNodeName c) @ ''Shader'')
                  (generatedSource ext doc (upstreamNodeName c)) sp of
             None \<Rightarrow> Inl (NullDeref ''sdrNode'')
           | Some e \<Rightarrow>
               Inr (s\<lparr>visitedNames := visited, nodesToRemove := toRemove,
                       nodesToKeep := List.insert (upstreamNodeName c) (nodesToKeep s),
                       rwNet := spliced tn cName c e (rwNet s),
                       rwWorld := w'\<rparr>)))
     \<and> (generatedSource ext doc (upstreamNodeName c) \<noteq> []
          \<and> usable ext (nCalls (rwWorld s)) (GetName (upstreamNodeName c) @ ''Shader'') \<longrightarrow>
        registry w' = registry (rwWorld s) @
          (case registered ext (nCalls (rwWorld s)) (GetName (upstreamNodeName c) @ ''Shader'')
                  (generatedSource ext doc (upstreamNodeName c)) sp of
             None \<Rightarrow> [] | Some e \<Rightarrow> [e]))
     \<and> (generatedSource ext doc (upstreamNodeName c) = []
          \<or> \<not> usable ext (nCalls (rwWorld s)) (GetName (upstreamNodeName c) @ ''Shader'') \<longrightarrow>
        registry w' = registry (rwWorld s))
     \<and> nCalls w' =
         (if generatedSource ext doc (upstreamNodeName c) \<noteq> [] \<and> oslSupportEnabled ext
          then Suc (nCalls (rwWorld s)) else nCalls (rwWorld s))"
proof -
  let ?u = "upstreamNodeName c"
  let ?name = "GetName ?u @ ''Shader''"
  let ?src = "generatedSource ext doc ?u"
  let ?n = "nCalls (rwWorld s)"
  define ws where "ws = logEvent (Generate ?u)
                          ((rwWorld s)\<lparr>warnings := warnings (rwWorld s) @ warns\<rparr>)"
  obtain src ws2 where gs: "GenMaterialXShaderCode ext doc ?name (GetName ?u)
        (GetName (GetParentPath ?u)) ws = (src, ws2)"
    by (cases "GenMaterialXShaderCode ext doc ?name (GetName ?u)
        (GetName (GetParentPath ?u)) ws") auto
  from GenMaterialXShaderCode_source [OF gs] have src: "src = ?src" by simp
  from outside_GenMaterialXShaderCode [of ext doc ?name "GetName ?u"
      "GetName (GetParentPath ?u)" ws] gs
  have o2: "sameOutside (rwWorld s) ws2"
    by (simp add: sameOutside_def ws_def logEvent_def)
  have inv2: "worldInv ext N w0 ws2"
    by (rule worldInv_sameOutside [OF o2 inv])
  define wc where "wc = logEvent (Compile ?u) ws2"
  have oc: "sameOutside (rwWorld s) wc"
    using o2 by (simp add: wc_def sameOutside_def logEvent_def)
  then have nc: "nCalls wc = ?n" and rc: "registry wc = registry (rwWorld s)"
    by (simp_all add: sameOutside_def)
  have invc: "worldInv ext N w0 wc"
    by (rule worldInv_sameOutside [OF oc inv])
  obtain path ws3 where cs: "CompileOslSource ext ?name ?src sp wc = (path, ws3)"
    by (cases "CompileOslSource ext ?name ?src sp wc") auto
  from worldInv_CompileOslSource [OF invc, of ?name ?src sp] cs
  have inv3: "worldInv ext N w0 ws3" by simp
  from CompileOslSource_result(1,2,3) [of ext ?name ?src sp wc] cs
  have path: "path = (if oslSupportEnabled ext \<and> fopenOk ext (compiledPath ext ?n ?name)
                      then compiledPath ext ?n ?name else [])"
    and r3: "registry ws3 = registry (rwWorld s)"
    and c3: "nCalls ws3 = (if oslSupportEnabled ext then Suc ?n else ?n)"
    by (simp_all add: nc rc)
  then have pne: "path \<noteq> [] \<longleftrightarrow> usable ext ?n ?name"
    by (auto simp: usable_def)
  show ?thesis
  proof (cases "?src = []")
    case True
    have "UpdateConnection ext tn doc sp cName c s =
        Inr (s\<lparr>visitedNames := visited, nodesToRemove := toRemove,
                nodesToKeep := List.insert ?u (nodesToKeep s), rwWorld := ws2\<rparr>)"
      using has new g gs src True
      by (simp add: UpdateConnection_def Let_def ws_def [symmetric])
    with inv2 True o2 show ?thesis
      by (intro exI [of _ ws2]) (simp add: sameOutside_def)
  next
    case False
    show ?thesis
    proof (cases "usable ext ?n ?name")
      case unusable: False
      with pne have "path = []" by simp
      then have "UpdateConnection ext tn doc sp cName c s =
          Inr (s\<lparr>visitedNames := visited, nodesToRemove := toRemove,
                  nodesToKeep := List.insert ?u (nodesToKeep s), rwWorld := ws3\<rparr>)"
        using has new g gs src False cs
        by (simp add: UpdateConnection_def Let_def ws_def [symmetric] wc_def [symmetric])
      with inv3 False unusable r3 c3 show ?thesis
        by (intro exI [of _ ws3]) simp
    next
      case True
      with pne have ne: "path \<noteq> []" by simp
      let ?r = "registered ext ?n ?name ?src sp"
      define w4 where "w4 = ws3\<lparr>registry := registry (rwWorld s) @
                                   (case ?r of None \<Rightarrow> [] | Some e \<Rightarrow> [e])\<rparr>"
      from compile_and_register [OF env invc cs ne]
      have fa: "GetShaderNodeFromAsset ext path ws3 = (?r, w4)"
        and n3: "nCalls ws3 = Suc ?n"
        by (simp_all add: nc rc w4_def)
      have inv4: "worldInv ext N w0 w4"
        by (rule worldInv_register [OF env inv, where name = ?name and src = ?src and sp = sp])
           (simp_all add: w4_def n3)
      have "UpdateConnection ext tn doc sp cName c s =
          (case ?r of
             None \<Rightarrow> Inl (NullDeref ''sdrNode'')
           | Some e \<Rightarrow>
               Inr (s\<lparr>visitedNames := visited, nodesToRemove := toRemove,
                       nodesToKeep := List.insert ?u (nodesToKeep s),
                       rwNet := spliced tn cName c e (rwNet s),
                       rwWorld := w4\<rparr>))"
        using has new g gs src False cs ne fa
        by (simp add: UpdateConnection_def Let_def ws_def [symmetric] wc_def [symmetric]
              spliced_def split: option.splits)
      with inv4 False True n3 show ?thesis
        by (intro exI [of _ w4]) (simp add: w4_def usable_def)
    qed
  qed
qed

lemma tyRel_cases:
  assumes "tyRel ext N d ra rb x y"
  shows "(x = y \<and> \<not> isArtifact ext N x) \<or> (isArtifact ext N x \<and> isArtifact ext N y)"
  using assms unfolding tyRel_def
  by (elim disjE conjE exE) (simp_all add: isArtifact_artifactId trans_le_add1)

lemma tyRel_empty:
  assumes "\<not> isArtifact ext N []" and "tyRel ext N d ra rb x y"
  shows "(x = []) = (y = [])"
  using tyRel_cases [OF assms(2)] assms(1) by auto

lemma tyRel_grow:
  assumes "tyRel ext N d ra rb x y"
  shows "tyRel ext N d (ra @ xs) (rb @ ys) x y"
  using assms unfolding tyRel_def
proof (elim disjE conjE exE)
  assume "x = y" and "\<not> isArtifact ext N x"
  then show "(x = y \<and> \<not> isArtifact ext N x)
     \<or> (\<exists>name m ea eb.
           N \<le> m \<and> x = artifactId ext m name \<and> y = artifactId ext (m + d) name
           \<and> find (\<lambda>e. sdrIdentifier e = x) (ra @ xs) = Some ea
           \<and> find (\<lambda>e. sdrIdentifier e = y) (rb @ ys) = Some eb
           \<and> sdrOutputNames ea = sdrOutputNames eb)"
    by simp
next
  fix name m ea eb
  assume "N \<le> m" "x = artifactId ext m name" "y = artifactId ext (m + d) name"
    "find (\<lambda>e. sdrIdentifier e = x) ra = Some ea"
    "find (\<lambda>e. sdrIdentifier e = y) rb = Some eb"
    "sdrOutputNames ea = sdrOutputNames eb"
  then have "\<exists>name m ea eb.
           N \<le> m \<and> x = artifactId ext m name \<and> y = artifactId ext (m + d) name
           \<and> find (\<lambda>e. sdrIdentifier e = x) (ra @ xs) = Some ea
           \<and> find (\<lambda>e. sdrIdentifier e = y) (rb @ ys) = Some eb
           \<and> sdrOutputNames ea = sdrOutputNames eb"
    by (intro exI [of _ name] exI [of _ m] exI [of _ ea] exI [of _ eb])
       (simp add: find_append_cases)
  then show "(x = y \<and> \<not> isArtifact ext N x)
     \<or> (\<exists>name m ea eb.
           N \<le> m \<and> x = artifactId ext m name \<and> y = artifactId ext (m + d) name
           \<and> find (\<lambda>e. sdrIdentifier e = x) (ra @ xs) = Some ea
           \<and> find (\<lambda>e. sdrIdentifier e = y) (rb @ ys) = Some eb
           \<and> sdrOutputNames ea = sdrOutputNames eb)"
    by (rule disjI2)
qed

lemma find_filter_same:
  assumes "\<And>x. P x \<Longrightarrow> Q x"
  shows "find P (filter Q xs) = find P xs"
  using assms by (induction xs) auto

lemma find_olderEntries:
  assumes "\<not> isArtifact ext N x"
  shows "find (\<lambda>e. sdrIdentifier e = x \<and> Q e) (olderEntries ext N reg) =
         find (\<lambda>e. sdrIdentifier e = x \<and> Q e) reg"
  unfolding olderEntries_def using assms by (intro find_filter_same) auto

lemma lookups_older:
  assumes "\<not> isArtifact ext N x"
  shows "GetShaderNodeByIdentifierAndType reg x ty =
           GetShaderNodeByIdentifierAndType (olderEntries ext N reg) x ty"
    and "GetShaderNodeByPriority reg x tys = GetShaderNodeByPriority (olderEntries ext N reg) x tys"
    and "GetShaderNodeByIdentifier reg x tys = GetShaderNodeByIdentifier (olderEntries ext N reg) x tys"
proof -
  show a: "GetShaderNodeByIdentifierAndType reg x ty =
           GetShaderNodeByIdentifierAndType (olderEntries ext N reg) x ty" for ty
    using find_olderEntries [OF assms, of "\<lambda>e. sdrSourceType e = ty" reg]
    by (simp add: GetShaderNodeByIdentifierAndType_def)
  show b: "GetShaderNodeByPriority reg x tys = GetShaderNodeByPriority (olderEntries ext N reg) x tys"
    by (induction tys) (simp_all add: a [symmetric] split: option.splits)
  show "GetShaderNodeByIdentifier reg x tys = GetShaderNodeByIdentifier (olderEntries ext N reg) x tys"
    using find_olderEntries [OF assms, of "\<lambda>e. True" reg] b
    by (simp add: GetShaderNodeByIdentifier_def)
qed

lemma lookups_same:
  assumes "olderEntries ext N ra = olderEntries ext N rb" and "\<not> isArtifact ext N x"
  shows "GetShaderNodeByIdentifierAndType ra x ty = GetShaderNodeByIdentifierAndType rb x ty"
    and "GetShaderNodeByIdentifier ra x tys = GetShaderNodeByIdentifier rb x tys"
  using lookups_older(1) [OF assms(2), of ra ty] lookups_older(1) [OF assms(2), of rb ty]
    lookups_older(3) [OF assms(2), of ra tys] lookups_older(3) [OF assms(2), of rb tys] assms(1)
  by simp_all

lemma tyRel_lookup:
  assumes "olderEntries ext N ra = olderEntries ext N rb" and "tyRel ext N d ra rb x y"
  shows "rel_option (\<lambda>ea eb. sdrOutputNames ea = sdrOutputNames eb)
           (GetShaderNodeByIdentifier ra x []) (GetShaderNodeByIdentifier rb y [])"
  using assms(2) unfolding tyRel_def
proof (elim disjE conjE exE)
  assume "x = y" and "\<not> isArtifact ext N x"
  with lookups_same(2) [OF assms(1), of x "[]"] show ?thesis
    by (cases "GetShaderNodeByIdentifier rb y []") simp_all
next
  fix name m ea eb
  assume "find (\<lambda>e. sdrIdentifier e = x) ra = Some ea"
    and "find (\<lambda>e. sdrIdentifier e = y) rb = Some eb"
    and "sdrOutputNames ea = sdrOutputNames eb"
  then show ?thesis
    by (simp add: GetShaderNodeByIdentifier_def)
qed

lemma usable_uniform:
  assumes "uniformNames ext"
  shows "usable ext n name = usable ext m name"
proof -
  from assms have "fopenOk ext (compiledPath ext n name) = fopenOk ext (compiledPath ext m name)"
    and "(compiledPath ext n name = []) = (compiledPath ext m name = [])"
    unfolding uniformNames_def compiledPath_def by blast+
  then show ?thesis by (simp add: usable_def)
qed

lemma registered_uniform:
  assumes "uniformNames ext"
  shows "rel_option (\<lambda>ea eb. ea\<lparr>sdrIdentifier := []\<rparr> = eb\<lparr>sdrIdentifier := []\<rparr>
                       \<and> sdrIdentifier ea = artifactId ext n name
                       \<and> sdrIdentifier eb = artifactId ext m name)
           (registered ext n name src sp) (registered ext m name src sp)"
proof -
  from assms have "parseAsset ext (compiledPath ext n name) (compiledContent ext src sp) =
                   parseAsset ext (compiledPath ext m name) (compiledContent ext src sp)"
    unfolding uniformNames_def by blast
  then show ?thesis
    by (auto simp: registered_def split: option.splits)
qed

lemma blankTypes_spliced:
  "blankTypes (spliced tn cName c e net) =
     spliced tn cName c (e\<lparr>sdrIdentifier := []\<rparr>) (blankTypes net)"
  by (simp add: spliced_def Let_def blankTypes_DeleteAllParameters
        blankTypes_DeleteAllInputConnections blankTypes_DeleteNodeInputConnection
        blankTypes_SetNodeInputConnection blankTypes_SetNodeType GetOutput_def)

lemma netSim_SetNodeInputConnection:
  assumes "netSim ext N d ra rb a b"
  shows "netSim ext N d ra rb (SetNodeInputConnection a n i cs) (SetNodeInputConnection b n i cs)"
  using assms
  by (simp add: netSim_def blankTypes_SetNodeInputConnection GetNodeType_SetNodeInputConnection)

lemma netSim_HasNode:
  assumes "\<not> isArtifact ext N []" and "netSim ext N d ra rb a b"
  shows "HasNode a k = HasNode b k"
  using assms tyRel_empty [OF assms(1), of d ra rb "GetNodeType a k" "GetNodeType b k"]
  by (simp add: netSim_def HasNode_def)

lemma find_fresh_append:
  assumes "\<forall>e \<in> set reg. sdrIdentifier e \<noteq> x" and "sdrIdentifier e = x"
  shows "find (\<lambda>e. sdrIdentifier e = x) (reg @ [e]) = Some e"
proof -
  from assms(1) have "find (\<lambda>e. sdrIdentifier e = x) reg = None"
    by (auto simp: find_None_iff)
  with assms(2) show ?thesis by (simp add: find_append_cases)
qed

lemma worldInv_fresh:
  assumes "worldInv ext N w0 w"
  shows "\<forall>e \<in> set (registry w). sdrIdentifier e \<noteq> artifactId ext (nCalls w) name"
  using assms isArtifact_artifactId [of "nCalls w" "nCalls w" ext name]
  by (auto simp: worldInv_def)

lemma UpdateConnection_sim:
  assumes env: "uniformNames ext" and ne: "\<not> isArtifact ext N []"
    and sim: "simRewrite ext N d w0 s t"
  shows "rel_sum (=) (simRewrite ext N d w0) (UpdateConnection ext tn doc sp cName c s)
           (UpdateConnection ext tn doc sp cName c t)"
proof -
  let ?u = "upstreamNodeName c"
  let ?out = "upstreamOutputName c"
  let ?name = "GetName ?u @ ''Shader''"
  let ?src = "generatedSource ext doc ?u"
  from sim have invs: "worldInv ext N w0 (rwWorld s)" and invt: "worldInv ext N w0 (rwWorld t)"
    and eqs: "nodesToKeep t = nodesToKeep s" "nodesToRemove t = nodesToRemove s"
      "visitedNames t = visitedNames s"
    and cnt: "nCalls (rwWorld t) = nCalls (rwWorld s) + d"
    and net: "netSim ext N d (registry (rwWorld s)) (registry (rwWorld t)) (rwNet s) (rwNet t)"
    by (simp_all add: simRewrite_def)
  from net have bl: "blankTypes (rwNet s) = blankTypes (rwNet t)"
    and ty: "\<And>k. tyRel ext N d (registry (rwWorld s)) (registry (rwWorld t))
                    (GetNodeType (rwNet s) k) (GetNodeType (rwNet t) k)"
    by (simp_all add: netSim_def)
  have has: "HasNode (rwNet t) k = HasNode (rwNet s) k" for k
    using netSim_HasNode [OF ne net, of k] by simp
  from invs invt have old: "olderEntries ext N (registry (rwWorld s)) =
                            olderEntries ext N (registry (rwWorld t))"
    by (simp add: worldInv_def)
  show ?thesis
  proof (cases "HasNode (rwNet s) ?u")
    case False
    have "simRewrite ext N d w0
            (s\<lparr>rwWorld := TF_WARN (''Unknown material node '' @ quoted ?u) (rwWorld s)\<rparr>)
            (t\<lparr>rwWorld := TF_WARN (''Unknown material node '' @ quoted ?u) (rwWorld t)\<rparr>)"
      using sim by (simp add: simRewrite_def)
    with False show ?thesis
      by (simp add: UpdateConnection_def Let_def has)
  next
    case True
    show ?thesis
    proof (cases "?u \<in> set (visitedNames s)")
      case seen: True
      let ?ls = "GetShaderNodeByIdentifier (registry (rwWorld s)) (GetNodeType (rwNet s) ?u) []"
      let ?lt = "GetShaderNodeByIdentifier (registry (rwWorld t)) (GetNodeType (rwNet t) ?u) []"
      from tyRel_lookup [OF old ty [of ?u]]
      have rel: "rel_option (\<lambda>ea eb. sdrOutputNames ea = sdrOutputNames eb) ?ls ?lt" .
      show ?thesis
      proof (cases ?ls)
        case None
        with rel have "?lt = None" by (cases ?lt) simp_all
        with None True seen sim show ?thesis
          by (simp add: UpdateConnection_def Let_def has eqs)
      next
        case (Some ea)
        with rel obtain eb where lt: "?lt = Some eb"
          and outs: "sdrOutputNames ea = sdrOutputNames eb"
          by (cases ?lt) simp_all
        have rew: "simRewrite ext N d w0
            (s\<lparr>rwNet := SetNodeInputConnection (rwNet s) tn cName
                           [\<lparr>upstreamNodeName = ?u, upstreamOutputName = ?out\<rparr>]\<rparr>)
            (t\<lparr>rwNet := SetNodeInputConnection (rwNet t) tn cName
                           [\<lparr>upstreamNodeName = ?u, upstreamOutputName = ?out\<rparr>]\<rparr>)"
          using sim netSim_SetNodeInputConnection [OF net]
          by (simp add: simRewrite_def)
        have warn: "simRewrite ext N d w0
            (s\<lparr>rwWorld := TF_WARN (''Output '' @ quoted ?out @ '' not found on node '' @
                                    quoted ?u @ ''.'') (rwWorld s)\<rparr>)
            (t\<lparr>rwWorld := TF_WARN (''Output '' @ quoted ?out @ '' not found on node '' @
                                    quoted ?u @ ''.'') (rwWorld t)\<rparr>)"
          using sim by (simp add: simRewrite_def)
        from Some lt outs True seen rew warn show ?thesis
          by (simp add: UpdateConnection_def Let_def has eqs GetOutput_def)
      qed
    next
      case new: False
      obtain toRemove visited warns where g:
        "GatherNodeGraphNodes (rwNet s) ?u (nodesToRemove s) (List.insert ?u (visitedNames s))
           = (toRemove, visited, warns)"
        by (cases "GatherNodeGraphNodes (rwNet s) ?u (nodesToRemove s)
                     (List.insert ?u (visitedNames s))") auto
      have gt: "GatherNodeGraphNodes (rwNet t) ?u (nodesToRemove t)
                  (List.insert ?u (visitedNames t)) = (toRemove, visited, warns)"
        using GatherNodeGraphNodes_same [of "rwNet t" "rwNet s", OF has bl [symmetric]] g
        by (simp add: eqs)
      from True new have hast: "HasNode (rwNet t) ?u" and newt: "?u \<notin> set (visitedNames t)"
        by (simp_all add: has eqs)
      from UpdateConnection_new_cases [OF env invs True new g, of tn doc sp cName]
      obtain ws where ws: "worldInv ext N w0 ws"
        and rs: "UpdateConnection ext tn doc sp cName c s =
          (if ?src = [] \<or> \<not> usable ext (nCalls (rwWorld s)) ?name
           then Inr (s\<lparr>visitedNames := visited, nodesToRemove := toRemove,
                       nodesToKeep := List.insert ?u (nodesToKeep s), rwWorld := ws\<rparr>)
           else
             (case registered ext (nCalls (rwWorld s)) ?name ?src sp of
                None \<Rightarrow> Inl (NullDeref ''sdrNode'')
              | Some e \<Rightarrow>
                  Inr (s\<lparr>visitedNames := visited, nodesToRemove := toRemove,
                          nodesToKeep := List.insert ?u (nodesToKeep s),
                          rwNet := spliced tn cName c e (rwNet s), rwWorld := ws\<rparr>)))"
        and regs: "?src \<noteq> [] \<and> usable ext (nCalls (rwWorld s)) ?name \<longrightarrow>
           registry ws = registry (rwWorld s) @
             (case registered ext (nCalls (rwWorld s)) ?name ?src sp of
                None \<Rightarrow> [] | Some e \<Rightarrow> [e])"
        and keeps: "?src = [] \<or> \<not> usable ext (nCalls (rwWorld s)) ?name \<longrightarrow>
           registry ws = registry (rwWorld s)"
        and cs: "nCalls ws = (if ?src \<noteq> [] \<and> oslSupportEnabled ext
                              then Suc (nCalls (rwWorld s)) else nCalls (rwWorld s))"
        by blast
      from UpdateConnection_new_cases [OF env invt hast newt gt, of tn doc sp cName]
      obtain wt where wt: "worldInv ext N w0 wt"
        and rt: "UpdateConnection ext tn doc sp cName c t =
          (if ?src = [] \<or> \<not> usable ext (nCalls (rwWorld t)) ?name
           then Inr (t\<lparr>visitedNames := visited, nodesToRemove := toRemove,
                       nodesToKeep := List.insert ?u (nodesToKeep t), rwWorld := wt\<rparr>)
           else
             (case registered ext (nCalls (rwWorld t)) ?name ?src sp of
                None \<Rightarrow> Inl (NullDeref ''sdrNode'')
              | Some e \<Rightarrow>
                  Inr (t\<lparr>visitedNames := visited, nodesToRemove := toRemove,
                          nodesToKeep := List.insert ?u (nodesToKeep t),
                          rwNet := spliced tn cName c e (rwNet t), rwWorld := wt\<rparr>)))"
        and regt: "?src \<noteq> [] \<and> usable ext (nCalls (rwWorld t)) ?name \<longrightarrow>
           registry wt = registry (rwWorld t) @
             (case registered ext (nCalls (rwWorld t)) ?name ?src sp of
                None \<Rightarrow> [] | Some e \<Rightarrow> [e])"
        and keept: "?src = [] \<or> \<not> usable ext (nCalls (rwWorld t)) ?name \<longrightarrow>
           registry wt = registry (rwWorld t)"
        and ct: "nCalls wt = (if ?src \<noteq> [] \<and> oslSupportEnabled ext
                              then Suc (nCalls (rwWorld t)) else nCalls (rwWorld t))"
        by blast
      from cs ct cnt have cnt': "nCalls wt = nCalls ws + d"
        by simp
      have us: "usable ext (nCalls (rwWorld t)) ?name = usable ext (nCalls (rwWorld s)) ?name"
        by (rule usable_uniform [OF env])
      show ?thesis
      proof (cases "?src = [] \<or> \<not> usable ext (nCalls (rwWorld s)) ?name")
        case skip: True
        with keeps keept us have "registry ws = registry (rwWorld s)"
          and "registry wt = registry (rwWorld t)"
          by auto
        with skip us ws wt net cnt' show ?thesis
          by (simp add: rs rt simRewrite_def eqs)
      next
        case go: False
        let ?rs = "registered ext (nCalls (rwWorld s)) ?name ?src sp"
        let ?rt = "registered ext (nCalls (rwWorld t)) ?name ?src sp"
        from registered_uniform [OF env, of "nCalls (rwWorld s)" ?name "nCalls (rwWorld t)" ?src sp]
        have rel: "rel_option (\<lambda>ea eb. ea\<lparr>sdrIdentifier := []\<rparr> = eb\<lparr>sdrIdentifier := []\<rparr>
                       \<and> sdrIdentifier ea = artifactId ext (nCalls (rwWorld s)) ?name
                       \<and> sdrIdentifier eb = artifactId ext (nCalls (rwWorld t)) ?name) ?rs ?rt" .
        show ?thesis
        proof (cases ?rs)
          case None
          with rel have "?rt = None" by (cases ?rt) simp_all
          with None go us show ?thesis
            by (simp add: rs rt)
        next
          case (Some ea)
          with rel obtain eb where rtb: "?rt = Some eb"
            and same: "ea\<lparr>sdrIdentifier := []\<rparr> = eb\<lparr>sdrIdentifier := []\<rparr>"
            and ida: "sdrIdentifier ea = artifactId ext (nCalls (rwWorld s)) ?name"
            and idb: "sdrIdentifier eb = artifactId ext (nCalls (rwWorld t)) ?name"
            by (cases ?rt) auto
          from same have outs: "sdrOutputNames ea = sdrOutputNames eb"
            by (metis sdrnode.select_convs(4) sdrnode.surjective sdrnode.update_convs(1))
          from go us regs regt Some rtb
          have ra: "registry ws = registry (rwWorld s) @ [ea]"
            and rb: "registry wt = registry (rwWorld t) @ [eb]"
            by simp_all
          from invs invt have les: "N \<le> nCalls (rwWorld s)" and let': "N \<le> nCalls (rwWorld t)"
            by (simp_all add: worldInv_def)
          have fa: "find (\<lambda>e. sdrIdentifier e = sdrIdentifier ea) (registry ws) = Some ea"
            unfolding ra
            by (rule find_fresh_append) (use worldInv_fresh [OF invs, of ?name] ida in simp_all)
          have fb: "find (\<lambda>e. sdrIdentifier e = sdrIdentifier eb) (registry wt) = Some eb"
            unfolding rb
            by (rule find_fresh_append) (use worldInv_fresh [OF invt, of ?name] idb in simp_all)
          have tyu: "tyRel ext N d (registry ws) (registry wt) (sdrIdentifier ea) (sdrIdentifier eb)"
            unfolding tyRel_def
            by (rule disjI2)
               (use les ida idb fa fb outs cnt in
                 \<open>intro exI [of _ ?name] exI [of _ "nCalls (rwWorld s)"]
                    exI [of _ ea] exI [of _ eb], simp\<close>)
          have tyk: "tyRel ext N d (registry ws) (registry wt)
                       (GetNodeType (rwNet s) k) (GetNodeType (rwNet t) k)" for k
            unfolding ra rb by (rule tyRel_grow [OF ty])
          have "netSim ext N d (registry ws) (registry wt)
                  (spliced tn cName c ea (rwNet s)) (spliced tn cName c eb (rwNet t))"
            using tyu tyk bl same
            by (simp add: netSim_def blankTypes_spliced GetNodeType_spliced)
          with Some rtb go us ws wt cnt' show ?thesis
            by (simp add: rs rt simRewrite_def eqs)
        qed
      qed
    qed
  qed
qed

lemma UpdateNetworkLoop_sim:
  assumes env: "uniformNames ext" and ne: "\<not> isArtifact ext N []"
    and wa: "worldInv ext N w0 wa" and wb: "worldInv ext N w0 wb"
    and cnt: "nCalls wb = nCalls wa + d"
    and net: "netSim ext N d (registry wa) (registry wb) a b"
  shows "rel_sum (=) (simRewrite ext N d w0) (UpdateNetworkLoop ext tn doc sp a wa)
           (UpdateNetworkLoop ext tn doc sp b wb)"
proof -
  from net have bl: "blankTypes a = blankTypes b" by (simp add: netSim_def)
  have names: "GetNodeInputConnectionNames b tn = GetNodeInputConnectionNames a tn"
    by (rule same_reads(1) [OF bl [symmetric]])
  show ?thesis
    unfolding UpdateNetworkLoop_def names
  proof (rule foldE_same)
    show "simRewrite ext N d w0
            \<lparr>rwNet = a, rwWorld = wa, nodesToKeep = [], nodesToRemove = [], visitedNames = []\<rparr>
            \<lparr>rwNet = b, rwWorld = wb, nodesToKeep = [], nodesToRemove = [], visitedNames = []\<rparr>"
      using wa wb net cnt by (simp add: simRewrite_def)
  next
    fix cName x y
    assume xy: "simRewrite ext N d w0 x y"
    then have "blankTypes (rwNet x) = blankTypes (rwNet y)"
      by (simp add: simRewrite_def netSim_def)
    from same_reads(2) [OF this]
    have conns: "GetNodeInputConnection (rwNet y) tn cName = GetNodeInputConnection (rwNet x) tn cName"
      by simp
    show "rel_sum (=) (simRewrite ext N d w0)
            (foldE (UpdateConnection ext tn doc sp cName)
               (GetNodeInputConnection (rwNet x) tn cName) x)
            (foldE (UpdateConnection ext tn doc sp cName)
               (GetNodeInputConnection (rwNet y) tn cName) y)"
      unfolding conns
      by (rule foldE_same [OF UpdateConnection_sim [OF env ne] xy])
  qed
qed

lemma GetNodeType_RemoveNodes:
  "GetNodeType (RemoveNodes r k net) m =
     (if m \<in> set r \<and> m \<notin> set k then [] else GetNodeType net m)"
  unfolding RemoveNodes_def
  by (induction r arbitrary: net) (auto simp: GetNodeType_DeleteNode)

lemma tyRel_empty_empty:
  assumes "\<not> isArtifact ext N []"
  shows "tyRel ext N d ra rb [] []"
  using assms by (simp add: tyRel_def)

lemma UpdateNetwork_sim:
  assumes env: "uniformNames ext" and ne: "\<not> isArtifact ext N []"
    and wa: "worldInv ext N w0 wa" and wb: "worldInv ext N w0 wb"
    and cnt: "nCalls wb = nCalls wa + d"
    and net: "netSim ext N d (registry wa) (registry wb) a b"
  shows "rel_sum (=) (pairSim ext N d w0) (UpdateNetwork ext tn doc sp a wa)
           (UpdateNetwork ext tn doc sp b wb)"
proof -
  have rem: "pairSim ext N d w0
               (RemoveNodes (nodesToRemove x) (nodesToKeep x) (rwNet x), rwWorld x)
               (RemoveNodes (nodesToRemove y) (nodesToKeep y) (rwNet y), rwWorld y)"
    if "simRewrite ext N d w0 x y" for x y
    using that tyRel_empty_empty [OF ne]
    by (simp add: simRewrite_def pairSim_def netSim_def blankTypes_RemoveNodes
          GetNodeType_RemoveNodes)
  from UpdateNetworkLoop_sim [OF env ne wa wb cnt net, of tn doc sp] show ?thesis
    by (cases "UpdateNetworkLoop ext tn doc sp a wa";
        cases "UpdateNetworkLoop ext tn doc sp b wb")
       (simp_all add: UpdateNetwork_def rem)
qed

lemma TransformTerminalNode_eq:
  "TransformTerminalNode t net w =
     (case GetShaderNodeByIdentifier (registry w) (fst (GetAdapterNodeType (GetNodeType net t)))
             [''OSL''] of
        None \<Rightarrow>
          Inr (net, TF_WARN (''No sdrAdater node of type '' @
                              quoted (fst (GetAdapterNodeType (GetNodeType net t))))
                     (w\<lparr>warnings := warnings w @ snd (GetAdapterNodeType (GetNodeType net t))\<rparr>))
      | Some adapter \<Rightarrow>
          (case GetShaderNodeByIdentifier (registry w) ''PxrSurface'' [''RmanCpp''] of
             None \<Rightarrow> Inl (NullDeref ''sdrPxrSurface'')
           | Some pxr \<Rightarrow>
               Inr (transformed adapter pxr (fst (GetAdapterNodeType (GetNodeType net t))) t net,
                    w\<lparr>warnings := warnings w @ snd (GetAdapterNodeType (GetNodeType net t))\<rparr>)))"
  by (simp add: TransformTerminalNode_def transformed_def Let_def split_def
        split: option.splits)

lemma GetAuthoredNodeParameterNames_SetNodeType:
  "GetAuthoredNodeParameterNames (SetNodeType net t ty) m = GetAuthoredNodeParameterNames net m"
  by (auto simp: GetAuthoredNodeParameterNames_def SetNodeType_def GetNode_PutNode
        GetOrCreateNode_def emptyNode_def map_keys_def split: option.splits)

lemma blankTypes_fold_RenameParameter:
  "blankTypes (fold (RenameParameter t) ps net) = fold (RenameParameter t) ps (blankTypes net)"
  by (rule fold_blankTypes) (rule blankTypes_RenameParameter)

lemma blankTypes_fold_ConnectAdapterOutput:
  "blankTypes (fold (ConnectAdapterOutput pxr ad t pn) ins net) =
     fold (ConnectAdapterOutput pxr ad t pn) ins (blankTypes net)"
  by (rule fold_blankTypes) (rule blankTypes_ConnectAdapterOutput)

lemma blankTypes_transformed:
  assumes "blankTypes a = blankTypes b"
  shows "blankTypes (transformed adapter pxr ad t a) = blankTypes (transformed adapter pxr ad t b)"
  using assms same_reads(3) [OF assms, of t]
  by (simp add: transformed_def Let_def blankTypes_SetTerminalConnection
        blankTypes_fold_ConnectAdapterOutput blankTypes_SetNodeType
        blankTypes_fold_RenameParameter GetAuthoredNodeParameterNames_SetNodeType)

lemma GetNodeType_transformed_any:
  "GetNodeType (transformed adapter pxr ad t net) k =
     (if k = t @ ''_PxrSurface'' then ''PxrSurface''
      else if k = t then ad else GetNodeType net k)"
proof -
  have r: "GetNodeType (fold (RenameParameter t) ps n) m = GetNodeType n m" for ps n m
    by (rule fold_GetNodeType) (rule GetNodeType_RenameParameter)
  have c: "GetNodeType (fold (ConnectAdapterOutput pxr adapter t pn) ins n) m = GetNodeType n m"
    for pn ins n m
    by (rule fold_GetNodeType) (rule GetNodeType_ConnectAdapterOutput)
  show ?thesis
    by (simp add: transformed_def Let_def GetNodeType_SetTerminalConnection c r
          GetNodeType_SetNodeType)
qed

lemma adapter_of_artifact:
  assumes res: "\<forall>x \<in> set reservedNames. \<not> isArtifact ext N x"
    and ty: "tyRel ext N d ra rb x y"
  shows "fst (GetAdapterNodeType x) = fst (GetAdapterNodeType y)"
proof -
  from tyRel_cases [OF ty] show ?thesis
  proof
    assume "x = y \<and> \<not> isArtifact ext N x"
    then show ?thesis by simp
  next
    assume a: "isArtifact ext N x \<and> isArtifact ext N y"
    with res have "x \<noteq> ''ND_standard_surface_surfaceshader''"
      "x \<noteq> ''ND_UsdPreviewSurface_surfaceshader''"
      "y \<noteq> ''ND_standard_surface_surfaceshader''"
      "y \<noteq> ''ND_UsdPreviewSurface_surfaceshader''"
      by (auto simp: reservedNames_def)
    then show ?thesis by (simp add: GetAdapterNodeType_def)
  qed
qed

lemma adapter_reserved: "fst (GetAdapterNodeType x) \<in> set reservedNames"
  by (simp add: GetAdapterNodeType_def reservedNames_def)

lemma TransformTerminalNode_sim:
  assumes res: "\<forall>x \<in> set reservedNames. \<not> isArtifact ext N x"
    and sim: "pairSim ext N d w0 (a, wa) (b, wb)"
  shows "rel_sum (=) (pairSim ext N d w0) (TransformTerminalNode t a wa)
           (TransformTerminalNode t b wb)"
proof -
  from sim have wa: "worldInv ext N w0 wa" and wb: "worldInv ext N w0 wb"
    and cnt: "nCalls wb = nCalls wa + d"
    and net: "netSim ext N d (registry wa) (registry wb) a b"
    by (simp_all add: pairSim_def)
  from net have bl: "blankTypes a = blankTypes b"
    and ty: "\<And>k. tyRel ext N d (registry wa) (registry wb) (GetNodeType a k) (GetNodeType b k)"
    by (simp_all add: netSim_def)
  from wa wb have old: "olderEntries ext N (registry wa) = olderEntries ext N (registry wb)"
    by (simp add: worldInv_def)
  let ?ad = "fst (GetAdapterNodeType (GetNodeType a t))"
  have ad: "fst (GetAdapterNodeType (GetNodeType b t)) = ?ad"
    by (rule adapter_of_artifact [OF res ty, symmetric])
  from res adapter_reserved [of "GetNodeType a t"] have nad: "\<not> isArtifact ext N ?ad"
    by blast
  from res have npx: "\<not> isArtifact ext N ''PxrSurface''" and ne: "\<not> isArtifact ext N []"
    by (simp_all add: reservedNames_def)
  have la: "GetShaderNodeByIdentifier (registry wb) ?ad [''OSL''] =
            GetShaderNodeByIdentifier (registry wa) ?ad [''OSL'']"
    by (rule lookups_same(2) [OF old [symmetric] nad])
  have lp: "GetShaderNodeByIdentifier (registry wb) ''PxrSurface'' [''RmanCpp''] =
            GetShaderNodeByIdentifier (registry wa) ''PxrSurface'' [''RmanCpp'']"
    by (rule lookups_same(2) [OF old [symmetric] npx])
  have frame: "pairSim ext N d w0 (a, TF_WARN m (wa\<lparr>warnings := xs\<rparr>))
                 (b, TF_WARN m' (wb\<lparr>warnings := ys\<rparr>))" for m m' xs ys
    using sim by (simp add: pairSim_def)
  have fin: "pairSim ext N d w0
                 (transformed adapter pxr ?ad t a, wa\<lparr>warnings := xs\<rparr>)
                 (transformed adapter pxr ?ad t b, wb\<lparr>warnings := ys\<rparr>)" for adapter pxr xs ys
  proof -
    have "tyRel ext N d (registry wa) (registry wb) ?ad ?ad"
      "tyRel ext N d (registry wa) (registry wb) ''PxrSurface'' ''PxrSurface''"
      using nad npx by (simp_all add: tyRel_def)
    with wa wb cnt ty blankTypes_transformed [OF bl] show ?thesis
      by (simp add: pairSim_def netSim_def GetNodeType_transformed_any)
  qed
  show ?thesis
    by (simp add: TransformTerminalNode_eq ad la lp frame fin split: option.splits)
qed

lemma DefaultTexcoord_same:
  assumes "GetShaderNodeByIdentifierAndType ra nodeType ''mtlx'' =
           GetShaderNodeByIdentifierAndType rb nodeType ''mtlx''"
  shows "DefaultTexcoord ra tn nodeType g n = DefaultTexcoord rb tn nodeType g n"
  unfolding DefaultTexcoord_def assms ..

lemma AdaptTextureNode_same:
  assumes "GetShaderNodeByIdentifierAndType ra nodeType ''mtlx'' =
           GetShaderNodeByIdentifierAndType rb nodeType ''mtlx''"
  shows "AdaptTextureNode ext ra net tn nodeType path g n =
         AdaptTextureNode ext rb net tn nodeType path g n"
  unfolding AdaptTextureNode_def DefaultTexcoord_same [OF assms] ..

lemma UpdateTextureNode_sim:
  assumes nt: "\<not> isArtifact ext N (GetNodeType net path)"
    and sim: "docSim ext N d w0 p q"
  shows "rel_sum (=) (docSim ext N d w0) (UpdateTextureNode ext net path p)
           (UpdateTextureNode ext net path q)"
proof -
  from sim have doc: "fst q = fst p" and wp: "worldInv ext N w0 (snd p)"
    and wq: "worldInv ext N w0 (snd q)" and cnt: "nCalls (snd q) = nCalls (snd p) + d"
    by (simp_all add: docSim_def)
  from wp wq have old: "olderEntries ext N (registry (snd q)) = olderEntries ext N (registry (snd p))"
    by (simp add: worldInv_def)
  have ad: "AdaptTextureNode ext (registry (snd q)) net path (GetNodeType net path) f g n =
            AdaptTextureNode ext (registry (snd p)) net path (GetNodeType net path) f g n"
    for f g n
    by (rule AdaptTextureNode_same) (rule lookups_same(1) [OF old nt])
  have frame: "docSim ext N d w0 (dc, TF_WARN m (snd p)) (dc, TF_WARN m (snd q))" for dc m
    using wp wq cnt by (simp add: docSim_def)
  have frame2: "docSim ext N d w0 (dc, (snd p)\<lparr>warnings := xs\<rparr>) (dc, (snd q)\<lparr>warnings := ys\<rparr>)"
    for dc xs ys
    using wp wq cnt by (simp add: docSim_def)
  have frame3: "docSim ext N d w0 (dc, snd p) (dc, snd q)" for dc
    using wp wq cnt by (simp add: docSim_def)
  have frame4: "docSim ext N d w0 p (fst p, snd q)"
    using wp wq cnt by (simp add: docSim_def)
  show ?thesis
    by (simp add: UpdateTextureNode_def Let_def doc ad frame frame2 frame3 frame4
          split: vtvalue.splits prod.splits option.splits sum.splits)
qed

lemma GetNodeType_unused:
  assumes "unusedArtifacts ext net w"
  shows "\<not> isArtifact ext (nCalls w) (GetNodeType net k)"
proof (cases "GetNode net k")
  case None
  with assms show ?thesis
    by (simp add: unusedArtifacts_def GetNodeType_def reservedNames_def)
next
  case (Some nd)
  then have "(k, nd) \<in> set (nodes net)"
    by (simp add: GetNode_def map_of_SomeD)
  then have "nodeTypeId nd \<in> nodeTypeId ` snd ` set (nodes net)"
    by force
  with assms Some show ?thesis
    by (simp add: unusedArtifacts_def GetNodeType_def)
qed

lemma UpdateTextureNodes_sim:
  assumes un: "unusedArtifacts ext net w"
    and wa: "worldInv ext (nCalls w) w0 wa" and wb: "worldInv ext (nCalls w) w0 wb"
    and cnt: "nCalls wb = nCalls wa + d"
  shows "rel_sum (=) (docSim ext (nCalls w) d w0) (UpdateTextureNodes ext net paths doc wa)
           (UpdateTextureNodes ext net paths doc wb)"
  unfolding UpdateTextureNodes_def
  by (rule foldE_same [OF UpdateTextureNode_sim [OF GetNodeType_unused [OF un]]])
     (simp_all add: docSim_def wa wb cnt)

lemma netSim_refl:
  assumes "unusedArtifacts ext net w"
  shows "netSim ext (nCalls w) d ra rb net net"
  using GetNodeType_unused [OF assms] by (simp add: netSim_def tyRel_def)

lemma MatfiltMaterialX_sim:
  assumes env: "uniformNames ext" and un: "unusedArtifacts ext net w"
    and wa: "worldInv ext (nCalls w) w0 wa" and wb: "worldInv ext (nCalls w) w0 wb"
    and cnt: "nCalls wb = nCalls wa + d"
  shows "rel_sum (=) (resultSim ext (nCalls w) d w0) (MatfiltMaterialX ext (Some net) wa)
           (MatfiltMaterialX ext (Some net) wb)"
proof -
  let ?N = "nCalls w"
  from un have res: "\<forall>x \<in> set reservedNames. \<not> isArtifact ext ?N x"
    by (simp add: unusedArtifacts_def)
  then have ne: "\<not> isArtifact ext ?N []"
    by (simp add: reservedNames_def)
  from wa wb have old: "olderEntries ext ?N (registry wb) = olderEntries ext ?N (registry wa)"
    by (simp add: worldInv_def)
  have same: "resultSim ext ?N d w0 (Some net, wa) (Some net, wb)"
    using wa wb cnt netSim_refl [OF un] by (simp add: resultSim_def pairSim_def)
  show ?thesis
  proof (cases "GetTerminalConnection net ''surface''")
    case None
    with same show ?thesis by (simp add: MatfiltMaterialX_def)
  next
    case (Some res')
    let ?t = "upstreamNodeName res'"
    have look: "GetShaderNodeByIdentifierAndType (registry wb) (GetNodeType net ?t) ''mtlx'' =
                GetShaderNodeByIdentifierAndType (registry wa) (GetNodeType net ?t) ''mtlx''"
      by (rule lookups_same(1) [OF old GetNodeType_unused [OF un]])
    show ?thesis
    proof (cases "GetShaderNodeByIdentifierAndType (registry wa) (GetNodeType net ?t) ''mtlx''")
      case None
      with Some same look show ?thesis by (simp add: MatfiltMaterialX_def)
    next
      case found: (Some entry)
      let ?names = "GetNodeInputConnectionNames net ?t"
      let ?paths = "snd (HdMtlxCreateMtlxDocument ext net ?t ?names)"
      let ?doc = "fst (HdMtlxCreateMtlxDocument ext net ?t ?names)"
      define upd where "upd u = (if ?names \<noteq> [] then
          (case UpdateTextureNodes ext net ?paths ?doc u of
             Inl e \<Rightarrow> Inl e
           | Inr p \<Rightarrow>
               UpdateNetwork ext ?t
                 (removeNode (removeNode (fst p) (''SR_'' @ GetName (GetMaterialPrimPath net)))
                    (GetName (GetMaterialPrimPath net)))
                 (HdMtlxSearchPaths ext) net (snd p))
          else Inr (net, u))" for u
      have M: "MatfiltMaterialX ext (Some net) u =
          (case upd u of Inl e \<Rightarrow> Inl e
           | Inr p \<Rightarrow>
               (case TransformTerminalNode ?t (fst p) (snd p) of Inl e \<Rightarrow> Inl e
                | Inr q \<Rightarrow> Inr (Some (fst q), snd q)))"
        if "GetShaderNodeByIdentifierAndType (registry u) (GetNodeType net ?t) ''mtlx'' = Some entry"
        for u
        using that Some
        by (cases "?names = []")
           (auto simp: MatfiltMaterialX_def Let_def upd_def split: sum.splits prod.splits)
      have u: "rel_sum (=) (pairSim ext ?N d w0) (upd wa) (upd wb)"
      proof (cases "?names = []")
        case True
        then show ?thesis
          using wa wb cnt netSim_refl [OF un] by (simp add: upd_def pairSim_def)
      next
        case False
        from UpdateTextureNodes_sim [OF un wa wb cnt, of ?paths ?doc]
        show ?thesis
        proof (cases "UpdateTextureNodes ext net ?paths ?doc wa";
               cases "UpdateTextureNodes ext net ?paths ?doc wb")
          fix p q
          assume p: "UpdateTextureNodes ext net ?paths ?doc wa = Inr p"
            and q: "UpdateTextureNodes ext net ?paths ?doc wb = Inr q"
            and "rel_sum (=) (docSim ext ?N d w0) (UpdateTextureNodes ext net ?paths ?doc wa)
                   (UpdateTextureNodes ext net ?paths ?doc wb)"
          then have dd: "fst q = fst p" and ip: "worldInv ext ?N w0 (snd p)"
            and iq: "worldInv ext ?N w0 (snd q)" and ic: "nCalls (snd q) = nCalls (snd p) + d"
            by (simp_all add: docSim_def)
          from UpdateNetwork_sim [OF env ne ip iq ic netSim_refl [OF un]]
          show ?thesis
            using False p q dd by (simp add: upd_def)
        qed (simp_all add: upd_def False)
      qed
      have Ma: "MatfiltMaterialX ext (Some net) wa =
          (case upd wa of Inl e \<Rightarrow> Inl e
           | Inr p \<Rightarrow>
               (case TransformTerminalNode ?t (fst p) (snd p) of Inl e \<Rightarrow> Inl e
                | Inr q \<Rightarrow> Inr (Some (fst q), snd q)))"
        by (rule M) (rule found)
      have Mb: "MatfiltMaterialX ext (Some net) wb =
          (case upd wb of Inl e \<Rightarrow> Inl e
           | Inr p \<Rightarrow>
               (case TransformTerminalNode ?t (fst p) (snd p) of Inl e \<Rightarrow> Inl e
                | Inr q \<Rightarrow> Inr (Some (fst q), snd q)))"
        by (rule M) (simp add: look found)
      show ?thesis
      proof (cases "upd wa"; cases "upd wb")
        fix p q
        assume p: "upd wa = Inr p" and q: "upd wb = Inr q"
        with u have pq: "pairSim ext ?N d w0 (fst p, snd p) (fst q, snd q)" by simp
        from TransformTerminalNode_sim [OF res pq, of ?t]
        show ?thesis
          by (cases "TransformTerminalNode ?t (fst p) (snd p)";
              cases "TransformTerminalNode ?t (fst q) (snd q)")
             (simp_all add: Ma Mb p q resultSim_def)
      qed (use u in \<open>simp_all add: Ma Mb\<close>)
    qed
  qed
qed

lemma worldInv_start:
  assumes "unusedArtifacts ext net w"
  shows "worldInv ext (nCalls w) w w"
  using assms by (simp add: worldInv_def unusedArtifacts_def)

lemma tyRel_types:
  assumes env: "uniformNames ext" and ty: "tyRel ext N d ra rb x y"
    and fresh: "\<forall>e \<in> set ra. \<not> isArtifact ext (N + d) (sdrIdentifier e)"
  shows "(y = x \<and> \<not> isArtifact ext N x)
         \<or> (\<exists>name m. N \<le> m \<and> m < N + d \<and> x = artifactId ext m name
                \<and> y = artifactId ext (m + d) name \<and> y \<noteq> x)"
  using ty unfolding tyRel_def
proof (elim disjE conjE exE)
  assume "x = y" and "\<not> isArtifact ext N x"
  then show ?thesis by simp
next
  fix name m ea eb
  assume le: "N \<le> m" and x: "x = artifactId ext m name" and y: "y = artifactId ext (m + d) name"
    and fa: "find (\<lambda>e. sdrIdentifier e = x) ra = Some ea"
  from fa have "ea \<in> set ra" and "sdrIdentifier ea = x"
    by (auto simp: find_Some_iff in_set_conv_nth)
  with fresh have "\<not> isArtifact ext (N + d) x" by blast
  with x have lt: "m < N + d"
    using isArtifact_artifactId [of "N + d" m ext name] by (cases "m < N + d") simp_all
  with le have "0 < d" by simp
  have "y \<noteq> x"
  proof
    assume "y = x"
    with x y have "artifactId ext (m + d) name = artifactId ext m name" by simp
    with env have "m + d = m" unfolding uniformNames_def by blast
    with \<open>0 < d\<close> show False by simp
  qed
  with le lt x y show ?thesis by blast
qed

text \<open>
  Claim C9, as amended. Let the collaborators be uniform in the count of calls of
  \<^verbatim>\<open>ArchMakeTmpFileName\<close> (\<open>uniformNames\<close>) and let no artifact named from the current count on
  be in use yet (\<open>unusedArtifacts\<close>). When a run of \<^verbatim>\<open>MatfiltMaterialX\<close> on a network returns
  a network, a second run on a copy of the same input network, from the state the first
  run leaves, returns a network too, and the two output networks hold the same nodes with
  the same parameters and input connections and the same terminals: they are equal once
  the node types are erased. Every node has the same type in both, and this type is not
  an artifact, or it was retyped by both runs to the compiled shader of one shader name:
  by the first run to the identifier of the file named at a call \<open>m\<close> of that run, by the
  second to the identifier of the file named at call \<open>m\<close> plus the number of calls of the
  first run, and the two identifiers differ.
\<close>

theorem two_runs_same_up_to_artifacts:
  assumes env: "uniformNames ext" and un: "unusedArtifacts ext net w"
    and run: "MatfiltMaterialX ext (Some net) w = Inr (Some n1, w1)"
  shows "\<exists>n2 w2. MatfiltMaterialX ext (Some net) w1 = Inr (Some n2, w2)
           \<and> blankTypes n2 = blankTypes n1
           \<and> (\<forall>k. GetNodeType n2 k = GetNodeType n1 k
                    \<and> \<not> isArtifact ext (nCalls w) (GetNodeType n1 k)
                  \<or> (\<exists>name m. nCalls w \<le> m \<and> m < nCalls w1
                        \<and> GetNodeType n1 k = artifactId ext m name
                        \<and> GetNodeType n2 k = artifactId ext (m + (nCalls w1 - nCalls w)) name
                        \<and> GetNodeType n2 k \<noteq> GetNodeType n1 k))"
proof -
  let ?N = "nCalls w"
  let ?d = "nCalls w1 - nCalls w"
  note start = worldInv_start [OF un]
  from MatfiltMaterialX_sim [OF env un start start, of 0] run
  have "resultSim ext ?N 0 w (Some n1, w1) (Some n1, w1)" by simp
  then have inv1: "worldInv ext ?N w w1"
    by (simp add: resultSim_def pairSim_def)
  then have cnt: "nCalls w1 = nCalls w + ?d"
    and fresh: "\<forall>e \<in> set (registry w1). \<not> isArtifact ext (nCalls w1) (sdrIdentifier e)"
    by (simp_all add: worldInv_def)
  from MatfiltMaterialX_sim [OF env un start inv1 cnt] run
  obtain q where second: "MatfiltMaterialX ext (Some net) w1 = Inr q"
    and rel: "resultSim ext ?N ?d w (Some n1, w1) q"
    by (cases "MatfiltMaterialX ext (Some net) w1") simp_all
  from rel obtain n2 where q: "fst q = Some n2"
    and sim: "netSim ext ?N ?d (registry w1) (registry (snd q)) n1 n2"
    by (auto simp: resultSim_def pairSim_def)
  from q second have "MatfiltMaterialX ext (Some net) w1 = Inr (Some n2, snd q)"
    by (cases q) simp
  moreover from sim have "blankTypes n2 = blankTypes n1"
    by (simp add: netSim_def)
  moreover have "GetNodeType n2 k = GetNodeType n1 k
                    \<and> \<not> isArtifact ext ?N (GetNodeType n1 k)
                  \<or> (\<exists>name m. ?N \<le> m \<and> m < nCalls w1
                        \<and> GetNodeType n1 k = artifactId ext m name
                        \<and> GetNodeType n2 k = artifactId ext (m + ?d) name
                        \<and> GetNodeType n2 k \<noteq> GetNodeType n1 k)" for k
  proof -
    from sim have "tyRel ext ?N ?d (registry w1) (registry (snd q)) (GetNodeType n1 k)
                     (GetNodeType n2 k)"
      by (simp add: netSim_def)
    from tyRel_types [OF env this] fresh cnt show ?thesis
      by simp
  qed
  ultimately show ?thesis by blast
qed

lemma replicate_prefix_inj:
  assumes "replicate n a @ b # xs = replicate m a @ b # ys" and "a \<noteq> b"
  shows "n = m"
  using assms
proof (induction n arbitrary: m)
  case 0
  then show ?case by (cases m) auto
next
  case (Suc n)
  then show ?case by (cases m) auto
qed

lemma artifactId_exampleExt:
  "artifactId exampleExt n name =
     ''/tmp/MX.'' @ name @ ''.'' @ replicate n (CHR ''i'') @ ''.oso<mtlx><OSL>''"
  by (simp add: artifactId_def exampleExt_def)

lemma artifactId_exampleExt_inj:
  assumes "artifactId exampleExt n p = artifactId exampleExt m q"
  shows "n = m"
proof -
  from assms have "(p @ ''.'' @ replicate n (CHR ''i'')) @ ''.oso<mtlx><OSL>'' =
                   (q @ ''.'' @ replicate m (CHR ''i'')) @ ''.oso<mtlx><OSL>''"
    by (simp add: artifactId_exampleExt)
  then have "p @ ''.'' @ replicate n (CHR ''i'') = q @ ''.'' @ replicate m (CHR ''i'')"
    by (simp only: append_same_eq)
  then have "rev (p @ ''.'' @ replicate n (CHR ''i'')) = rev (q @ ''.'' @ replicate m (CHR ''i''))"
    by simp
  then have "replicate n (CHR ''i'') @ CHR ''.'' # rev p = replicate m (CHR ''i'') @ CHR ''.'' # rev q"
    by simp
  then show ?thesis
    by (rule replicate_prefix_inj) simp
qed

lemma uniformNames_exampleExt: "uniformNames exampleExt"
  unfolding uniformNames_def
proof (intro conjI allI impI)
  fix n m p q
  assume "artifactId exampleExt n p = artifactId exampleExt m q"
  then show "n = m" by (rule artifactId_exampleExt_inj)
qed (simp_all add: exampleExt_def)

lemma isArtifact_exampleExt:
  assumes "isArtifact exampleExt N x"
  shows "\<exists>r. x = CHR ''/'' # r"
  using assms by (auto simp: isArtifact_def artifactId_exampleExt)

lemma unusedArtifacts_example: "unusedArtifacts exampleExt twoInputNet exampleWorld"
  unfolding unusedArtifacts_def
  by (auto simp: reservedNames_def twoInputNet_def exampleWorld_def imageDef_def stdAdapter_def
        usdAdapter_def pxrSurface_def dest!: isArtifact_exampleExt)

theorem two_runs_same_up_to_artifacts_witness:
  "uniformNames exampleExt
   \<and> unusedArtifacts exampleExt twoInputNet exampleWorld
   \<and> MatfiltMaterialX exampleExt (Some twoInputNet) exampleWorld =
       Inr (Some twoInputFirstRun, worldAfterA)
   \<and> map_sum id fst (MatfiltMaterialX exampleExt (Some twoInputNet) worldAfterA) =
       Inr (Some twoInputSecondRun)
   \<and> blankTypes twoInputSecondRun = blankTypes twoInputFirstRun
   \<and> GetNodeType twoInputFirstRun ''/Mat/NG/A'' = artifactId exampleExt 0 ''AShader''
   \<and> GetNodeType twoInputSecondRun ''/Mat/NG/A'' = artifactId exampleExt 1 ''AShader''"
proof -
  have run: "MatfiltMaterialX exampleExt (Some twoInputNet) exampleWorld =
       Inr (Some twoInputFirstRun, worldAfterA)"
    by code_simp
  have second: "map_sum id fst (MatfiltMaterialX exampleExt (Some twoInputNet) worldAfterA) =
       Inr (Some twoInputSecondRun)"
    by code_simp
  from two_runs_same_up_to_artifacts [OF uniformNames_exampleExt unusedArtifacts_example run] second
  have "blankTypes twoInputSecondRun = blankTypes twoInputFirstRun"
    by auto
  moreover have "GetNodeType twoInputFirstRun ''/Mat/NG/A'' = artifactId exampleExt 0 ''AShader''"
    "GetNodeType twoInputSecondRun ''/Mat/NG/A'' = artifactId exampleExt 1 ''AShader''"
    by (simp_all add: artifactId_exampleExt) code_simp+
  ultimately show ?thesis
    using uniformNames_exampleExt unusedArtifacts_example run second by simp
qed

text \<open>The claim as it was written has the two output networks identical, the type
  identifiers of the retyped nodes included. With a temporary file name that differs at
  every call and an identifier that the registry derives from the path of the asset, the
  node \<^verbatim>\<open>A\<close> of \<open>twoInputNet\<close> is retyped to one identifier by the first run and to another
  by the second.\<close>

theorem two_runs_counterexample:
  "MatfiltMaterialX exampleExt (Some twoInputNet) exampleWorld =
     Inr (Some twoInputFirstRun, worldAfterA)
   \<and> map_sum id fst (MatfiltMaterialX exampleExt (Some twoInputNet) worldAfterA) =
       Inr (Some twoInputSecondRun)
   \<and> GetNodeType twoInputFirstRun ''/Mat/NG/A'' = ''/tmp/MX.AShader..oso<mtlx><OSL>''
   \<and> GetNodeType twoInputSecondRun ''/Mat/NG/A'' = ''/tmp/MX.AShader.i.oso<mtlx><OSL>''
   \<and> twoInputFirstRun \<noteq> twoInputSecondRun"
  by code_simp

end
